theory Spec2Isabelle
  imports Complex_Main
begin

section \<open>Data model of the optimization back end\<close>

text \<open>
  The development embeds \<^verbatim>\<open>covins_backend/src/covins_backend/optimization_be.cpp\<close>.
  Shared pointers are addresses (natural numbers) into two heaps, one of keyframes and one
  of landmarks; a pointer that may be null is an \<open>option\<close>. Doubles are idealised as
  \<open>real\<close>. A rigid transform (\<^verbatim>\<open>TransformType\<close>, a 4x4 matrix) is the list of
  its sixteen entries in row-major order; vectors are lists of their coefficients.
  Member names are the source's without the trailing underscore. The optimization arrays
  of a keyframe and of a landmark are fixed arrays in the source (seven doubles for a pose,
  nine for velocity and biases, three for a position); here they are lists, read and
  written by position.
\<close>

type_synonym idpair = "nat \<times> nat"
type_synonym TransformType = "real list"
type_synonym Vector3Type = "real list"

datatype CameraType = kPinhole | kUnifiedProjection | kOtherCamera

datatype DistortionType = kEquidistant | kRadTan | kFisheye | kOtherDistortion

text \<open>A camera object: its address identifies its intrinsics and distortion buffers.\<close>

record Camera =
  cam_addr :: nat
  getType :: CameraType
  getDistortionType :: DistortionType

record Keyframe =
  kf_id :: idpair
  kf_IsInvalid :: bool
  PoseTws :: TransformType
  StateVelBias :: "real list"
  ceres_pose :: "real list"
  ceres_velocity_and_bias :: "real list"
  ceres_pose_local :: "real list"
  camera :: Camera
  Predecessor :: "nat option"
  Successor :: "nat option"
  is_loaded :: bool
  is_gba_optimized :: bool
  NumMeasurements :: nat
  landmarks :: "nat option list"

text \<open>
  \<open>observations\<close> is the landmark's \<^verbatim>\<open>std::map\<close> from \<^verbatim>\<open>KeyframePtr\<close> to \<^verbatim>\<open>int\<close>: keyframe pointer
  (possibly null) and feature index, in iteration order.
\<close>

record Landmark =
  lm_IsInvalid :: bool
  WorldPos :: Vector3Type
  ceres_pos :: "real list"
  observations :: "(nat option \<times> nat) list"
  ReferenceKeyframe :: "nat option"
  lm_is_gba_optimized :: bool

record LoopConstraint =
  kf1 :: nat
  kf2 :: nat
  T_s1_s2 :: TransformType
  cov_mat :: "real list list"
  relative_yaw_smatch_squery :: real

record MapState =
  id_map :: nat
  KeyframesVec :: "nat list"
  LandmarksVec :: "nat list"
  LoopConstraints :: "LoopConstraint list"
  kf_heap :: "nat \<Rightarrow> Keyframe"
  lm_heap :: "nat \<Rightarrow> Landmark"

text \<open>
  The configuration namespace \<^verbatim>\<open>covins_params\<close> is declared outside this file;
  the options the optimizer reads are the fields of this record.
\<close>

record covins_params =
  threads_server :: nat
  th_gba_outlier_global :: real
  th_outlier_align :: real
  gba_fix_poses_loaded_maps :: bool
  gba_use_map_loop_constraints :: bool
  pgo_fix_kfs_after_gba :: bool
  pgo_fix_poses_loaded_maps :: bool
  pgo_iteration_limit :: int
  wt_kf_r :: real
  wt_kf_t :: real
  wt_lp_r1 :: real
  wt_lp_r2 :: real
  wt_lp_r3 :: real
  wt_lp_t1 :: real
  cov_switch :: real
  cov_switch2 :: real

datatype fatal =
    UnknownProjectionType
  | UnknownDistortionType
  | NoPredecessor
  | ParameterBlockMissing
  | NotInIntrinsicsMap
  | OutOfRange
  | NullPointer
  | NoUncorrectedPose

subsection \<open>The nonlinear least-squares problem\<close>

text \<open>
  A parameter block is the buffer it points to: \<open>Pose a\<close> is \<^verbatim>\<open>ceres_pose\<close> of the
  keyframe at address \<open>a\<close> (seven doubles), \<open>Yaw a\<close> is \<^verbatim>\<open>&ceres_pose[1]\<close> (one
  double), \<open>Trans a\<close> is \<^verbatim>\<open>&ceres_pose[4]\<close> (three doubles), \<open>RelPose\<close> is the
  local array \<^verbatim>\<open>ceresAB\<close> of the two-view optimization.
\<close>

datatype block =
    Pose nat
  | SpeedBias nat
  | Extrinsics nat
  | PoseLocal nat
  | Yaw nat
  | Trans nat
  | Distortion nat
  | Intrinsics nat
  | Position nat
  | RelPose

datatype LossFunction = NoLoss | CauchyLoss real | HuberLoss real

datatype RelativeProjectionType = kNormal | kInverse

text \<open>
  Cost functions, with what the call site passes to the constructor: the reprojection
  errors name the camera family, the distortion family, the observing keyframe and the
  feature index; \<open>SixDofBetweenError T a b\<close> carries the measured transform and the two
  diagonal blocks of the square-root information matrix; the four-degree-of-freedom errors
  carry the relative translation, the relative yaw, pitch and roll of the first keyframe
  (absent when its quaternion was never stored) and, for the weighted variant, the weight.
\<close>

datatype CostFunction =
    PreintegrationFactor nat
  | GlobalEuclideanReprError CameraType DistortionType nat nat
  | RelativeEuclideanReprError CameraType DistortionType nat nat nat RelativeProjectionType
  | SixDofBetweenError TransformType real real
  | FourDOFWeightError "real list" real "(real \<times> real) option" real
  | FourDOFError "real list" real "(real \<times> real) option"

record ResidualBlock =
  cost :: CostFunction
  loss :: LossFunction
  parameter_blocks :: "block list"

text \<open>
  \<^verbatim>\<open>ceres::Problem\<close>: the parameter blocks in the order they were added, those set
  constant, and the residual blocks with their identifiers. An identifier is the number of
  residual blocks added before.
\<close>

record Problem =
  pblocks :: "block list"
  pconstant :: "block list"
  rblocks :: "(nat \<times> ResidualBlock) list"
  next_id :: nat

definition empty_problem :: Problem where
  "empty_problem = \<lparr>pblocks = [], pconstant = [], rblocks = [], next_id = 0\<rparr>"

definition HasParameterBlock :: "Problem \<Rightarrow> block \<Rightarrow> bool" where
  "HasParameterBlock P b = (b \<in> set (pblocks P))"

text \<open>Adding a block that is already there leaves the problem as it is.\<close>

definition AddParameterBlock :: "block \<Rightarrow> Problem \<Rightarrow> Problem" where
  "AddParameterBlock b P =
     (if b \<in> set (pblocks P) then P else P\<lparr>pblocks := pblocks P @ [b]\<rparr>)"

definition SetParameterBlockConstant :: "block \<Rightarrow> Problem \<Rightarrow> Problem" where
  "SetParameterBlockConstant b P =
     (if b \<in> set (pconstant P) then P else P\<lparr>pconstant := pconstant P @ [b]\<rparr>)"

text \<open>
  \<^verbatim>\<open>AddResidualBlock\<close> adds the parameter blocks the problem does not have yet and
  returns the new block's identifier.
\<close>

definition AddResidualBlock ::
  "CostFunction \<Rightarrow> LossFunction \<Rightarrow> block list \<Rightarrow> Problem \<Rightarrow> nat \<times> Problem" where
  "AddResidualBlock c l bs P =
     (let P1 = fold AddParameterBlock bs P
      in (next_id P1,
          P1\<lparr>rblocks := rblocks P1 @ [(next_id P1, \<lparr>cost = c, loss = l, parameter_blocks = bs\<rparr>)],
             next_id := Suc (next_id P1)\<rparr>))"

definition RemoveResidualBlock :: "nat \<Rightarrow> Problem \<Rightarrow> Problem" where
  "RemoveResidualBlock r P = P\<lparr>rblocks := filter (\<lambda>e. fst e \<noteq> r) (rblocks P)\<rparr>"

datatype LinearSolverType = SPARSE_SCHUR | SPARSE_NORMAL_CHOLESKY

datatype TrustRegionStrategyType = LEVENBERG_MARQUARDT | DOGLEG

text \<open>
  \<^verbatim>\<open>ceres::Solver::Options\<close>, restricted to the fields the optimizer sets and the time
  limit. A default-constructed object has the library's defaults.
\<close>

record SolverOptions =
  linear_solver_type :: LinearSolverType
  num_threads :: nat
  num_linear_solver_threads :: nat
  trust_region_strategy_type :: TrustRegionStrategyType
  max_num_iterations :: int
  max_solver_time_in_seconds :: real

definition default_options :: SolverOptions where
  "default_options =
     \<lparr>linear_solver_type = SPARSE_NORMAL_CHOLESKY, num_threads = 1,
      num_linear_solver_threads = 1, trust_region_strategy_type = LEVENBERG_MARQUARDT,
      max_num_iterations = 50, max_solver_time_in_seconds = 1000000000\<rparr>"

text \<open>
  What the file takes from its collaborators (Eigen, the utilities, the keyframe class and
  the solver library), as parameters of the model:
  \<^item> \<open>State2Ceres\<close>: the pose part of \<^verbatim>\<open>UpdateCeresFromState\<close>, and the explicit
    quaternion-and-translation encoding of a transform;
  \<^item> \<open>Ceres2Transform\<close>: \<^verbatim>\<open>Utils::Ceres2Transform\<close>;
  \<^item> \<open>R2ypr\<close>: \<^verbatim>\<open>Utils::R2ypr\<close> of the rotation block, as yaw, pitch, roll;
  \<^item> \<open>Quat2ypr\<close>: \<^verbatim>\<open>R2ypr(q.toRotationMatrix())\<close> of a stored quaternion;
  \<^item> \<open>QuaternionOf\<close>: the Eigen quaternion of the rotation block, as x, y, z, w;
  \<^item> \<open>Tinv\<close>, \<open>Tmul\<close>, \<open>Tpoint\<close>: inverse, product, and action on a point;
  \<^item> \<open>RotateVelocity\<close>: the product of the corrected rotation, the inverse uncorrected
    rotation and a velocity;
  \<^item> \<open>solver\<close>: the values \<^verbatim>\<open>ceres::Solve\<close> computes for the parameter blocks, from
    the options, the problem and the current values;
  \<^item> \<open>residual\<close>: the two residuals \<^verbatim>\<open>Problem::Evaluate\<close> computes for a reprojection
    residual block, from the problem and the current values;
  \<^item> \<open>VectorNorm\<close>: the double that \<^verbatim>\<open>Eigen::Vector2d::norm()\<close> returns for a vector of two
    doubles;
  \<^item> \<open>BlockTrace\<close>: the double that \<^verbatim>\<open>cov_mat.block<3,3>(3,3).trace()\<close> returns, the sum
    of the last three diagonal entries in double arithmetic.

  The values of type \<open>real\<close> stand for the doubles of the source. Comparisons of doubles
  are exact, so they are the comparisons of the reals; every operation of the source that
  rounds belongs to a collaborator and is one of these parameters.
\<close>

record Extern =
  State2Ceres :: "TransformType \<Rightarrow> real list"
  Ceres2Transform :: "real list \<Rightarrow> TransformType"
  R2ypr :: "TransformType \<Rightarrow> real list"
  Quat2ypr :: "real list \<Rightarrow> real list"
  QuaternionOf :: "TransformType \<Rightarrow> real list"
  Tinv :: "TransformType \<Rightarrow> TransformType"
  Tmul :: "TransformType \<Rightarrow> TransformType \<Rightarrow> TransformType"
  Tpoint :: "TransformType \<Rightarrow> Vector3Type \<Rightarrow> Vector3Type"
  RotateVelocity :: "TransformType \<Rightarrow> TransformType \<Rightarrow> real list \<Rightarrow> real list"
  solver :: "SolverOptions \<Rightarrow> Problem \<Rightarrow> (block \<Rightarrow> real list) \<Rightarrow> block \<Rightarrow> real list"
  residual :: "Problem \<Rightarrow> (block \<Rightarrow> real list) \<Rightarrow> nat \<Rightarrow> real \<times> real"
  VectorNorm :: "real \<Rightarrow> real \<Rightarrow> real"
  BlockTrace :: "real list list \<Rightarrow> real"


subsection \<open>Loops that may abort, and the solver\<close>

text \<open>A \<^verbatim>\<open>for\<close> loop over a vector whose body may end the process.\<close>

fun foldE :: "('a \<Rightarrow> 's \<Rightarrow> 'e + 's) \<Rightarrow> 'a list \<Rightarrow> 's \<Rightarrow> 'e + 's" where
  "foldE f [] s = Inr s"
| "foldE f (x # xs) s = (case f x s of Inl e \<Rightarrow> Inl e | Inr s' \<Rightarrow> foldE f xs s')"

text \<open>
  \<^verbatim>\<open>ceres::Solve\<close> writes the values it computes into the parameter blocks of the problem
  that are not constant, and into nothing else.
\<close>

definition Solve ::
  "Extern \<Rightarrow> SolverOptions \<Rightarrow> Problem \<Rightarrow> (block \<Rightarrow> real list) \<Rightarrow> block \<Rightarrow> real list" where
  "Solve X opts P v =
     (\<lambda>b. if b \<in> set (pblocks P) \<and> b \<notin> set (pconstant P) then solver X opts P v b else v b)"

text \<open>
  \<^verbatim>\<open>Problem::Evaluate\<close> on a list of reprojection residual blocks: the residual vector is
  the concatenation of the blocks' two residuals, in the order of the list.
\<close>

definition Evaluate :: "Extern \<Rightarrow> Problem \<Rightarrow> (block \<Rightarrow> real list) \<Rightarrow> nat list \<Rightarrow> real list" where
  "Evaluate X P v ids = concat (map (\<lambda>r. [fst (residual X P v r), snd (residual X P v r)]) ids)"

text \<open>
  The Euclidean norm of two reals. The instances below take it for \<open>VectorNorm\<close>, on
  vectors whose norm is a double.
\<close>

definition norm2 :: "real \<Rightarrow> real \<Rightarrow> real" where
  "norm2 x y = sqrt (x * x + y * y)"

text \<open>
  The switch on the projection family and the distortion family that chooses the template
  instance of a reprojection error; an unknown family ends the process.
\<close>

definition reprojection_dispatch ::
  "CameraType \<Rightarrow> DistortionType \<Rightarrow> (CameraType \<Rightarrow> DistortionType \<Rightarrow> CostFunction)
     \<Rightarrow> fatal + CostFunction" where
  "reprojection_dispatch c d mk =
     (case c of
        kPinhole \<Rightarrow>
          (case d of
             kEquidistant \<Rightarrow> Inr (mk kPinhole kEquidistant)
           | kRadTan \<Rightarrow> Inr (mk kPinhole kRadTan)
           | kFisheye \<Rightarrow> Inr (mk kPinhole kFisheye)
           | kOtherDistortion \<Rightarrow> Inl UnknownDistortionType)
      | kUnifiedProjection \<Rightarrow>
          (case d of
             kEquidistant \<Rightarrow> Inr (mk kUnifiedProjection kEquidistant)
           | kRadTan \<Rightarrow> Inr (mk kUnifiedProjection kRadTan)
           | kFisheye \<Rightarrow> Inr (mk kUnifiedProjection kFisheye)
           | kOtherDistortion \<Rightarrow> Inl UnknownDistortionType)
      | kOtherCamera \<Rightarrow> Inl UnknownProjectionType)"

text \<open>
  The explicit encoding of a transform as a pose array: the quaternion of the rotation
  block as x, y, z, w, then the entries (0,3), (1,3), (2,3).
\<close>

definition pose_array :: "Extern \<Rightarrow> TransformType \<Rightarrow> real list" where
  "pose_array X T = QuaternionOf X T @ [T ! 3, T ! 7, T ! 11]"

section \<open>Two-view relative pose optimization\<close>

text \<open>
  Modelled from the spec: \<^verbatim>\<open>Landmark::GetFeatureIndex\<close> belongs to the landmark class,
  which is not part of this file. It resolves the feature index of the landmark in a
  keyframe from the landmark's observations, and is negative when there is none.
\<close>

definition GetFeatureIndex :: "Landmark \<Rightarrow> nat \<Rightarrow> int" where
  "GetFeatureIndex lm kf =
     (case map_of (observations lm) (Some kf) of Some i \<Rightarrow> int i | None \<Rightarrow> - 1)"

record orp_acc =
  problem :: Problem
  residIdsA :: "nat list"
  residIdsB :: "nat list"
  vIndex :: "nat list"
  numCorrespondences :: nat

text \<open>
  The body of the loop over \<^verbatim>\<open>matches1\<close>. Reading \<^verbatim>\<open>vpMapPointsA[i]\<close> past the end of
  the first keyframe's landmark vector is undefined in the source and an error here.
\<close>

definition orp_add_observation ::
  "MapState \<Rightarrow> nat \<Rightarrow> nat \<Rightarrow> nat option list \<Rightarrow> nat \<Rightarrow> orp_acc \<Rightarrow> fatal + orp_acc" where
  "orp_add_observation M k1 k2 matches1 i acc =
     (case matches1 ! i of
        None \<Rightarrow> Inr acc
      | Some pMPB \<Rightarrow>
          (let vpMapPointsA = landmarks (kf_heap M k1) in
           if length vpMapPointsA \<le> i then Inl OutOfRange
           else
             (case vpMapPointsA ! i of
                None \<Rightarrow> Inr acc
              | Some pMPA \<Rightarrow>
                  (let iB = GetFeatureIndex (lm_heap M pMPB) k2 in
                   if \<not> lm_IsInvalid (lm_heap M pMPA) \<and> \<not> lm_IsInvalid (lm_heap M pMPB) \<and> 0 \<le> iB
                   then
                     (case reprojection_dispatch (getType (camera (kf_heap M k1)))
                             (getDistortionType (camera (kf_heap M k1)))
                             (\<lambda>c d. RelativeEuclideanReprError c d k1 i pMPB kNormal) of
                        Inl e \<Rightarrow> Inl e
                      | Inr reprojection_error_A \<Rightarrow>
                          (case reprojection_dispatch (getType (camera (kf_heap M k2)))
                                  (getDistortionType (camera (kf_heap M k2)))
                                  (\<lambda>c d. RelativeEuclideanReprError c d k2 (nat iB) pMPA kInverse) of
                             Inl e \<Rightarrow> Inl e
                           | Inr reprojection_error_B \<Rightarrow>
                               (let (tmpIdA, P1) =
                                      AddResidualBlock reprojection_error_A (CauchyLoss 1) [RelPose]
                                        (problem acc);
                                    (tmpIdB, P2) =
                                      AddResidualBlock reprojection_error_B (CauchyLoss 1) [RelPose] P1
                                in Inr \<lparr>problem = P2,
                                        residIdsA = residIdsA acc @ [tmpIdA],
                                        residIdsB = residIdsB acc @ [tmpIdB],
                                        vIndex = vIndex acc @ [i],
                                        numCorrespondences = numCorrespondences acc + 1\<rparr>)))
                   else Inr acc))))"

definition orp_build :: "MapState \<Rightarrow> nat \<Rightarrow> nat \<Rightarrow> nat option list \<Rightarrow> fatal + orp_acc" where
  "orp_build M k1 k2 matches1 =
     foldE (orp_add_observation M k1 k2 matches1) [0..<length matches1]
       \<lparr>problem = AddParameterBlock RelPose empty_problem,
        residIdsA = [], residIdsB = [], vIndex = [], numCorrespondences = 0\<rparr>"

definition orp_solver_options :: "covins_params \<Rightarrow> SolverOptions" where
  "orp_solver_options cfg =
     default_options\<lparr>linear_solver_type := SPARSE_SCHUR,
        num_threads := threads_server cfg,
        num_linear_solver_threads := threads_server cfg,
        trust_region_strategy_type := DOGLEG,
        max_num_iterations := 5\<rparr>"

text \<open>
  The loop that checks for outliers. Its counter \<open>i\<close> runs over the residual blocks, and
  \<open>residInd\<close> over the residual vectors; the state is the problem, \<^verbatim>\<open>matches1\<close> and
  \<^verbatim>\<open>numBad\<close>.
\<close>

fun orp_outliers ::
  "Extern \<Rightarrow> real \<Rightarrow> real list \<Rightarrow> real list \<Rightarrow> (nat \<times> nat) list \<Rightarrow> nat \<Rightarrow> nat
     \<Rightarrow> Problem \<times> nat option list \<times> nat \<Rightarrow> Problem \<times> nat option list \<times> nat" where
  "orp_outliers X th residualsA residualsB [] i residInd s = s"
| "orp_outliers X th residualsA residualsB ((idA, idB) # ids) i residInd (P, matches1, numBad) =
     (let residA = VectorNorm X (residualsA ! residInd) (residualsA ! (residInd + 1));
          residB = VectorNorm X (residualsB ! residInd) (residualsB ! (residInd + 1))
      in orp_outliers X th residualsA residualsB ids (i + 1) (residInd + 2)
           (if th < residA \<or> th < residB
            then (RemoveResidualBlock idB (RemoveResidualBlock idA P),
                  matches1[i := None], numBad + 1)
            else (P, matches1, numBad)))"

text \<open>
  The procedure returns the count, and the two arguments it takes by reference:
  \<^verbatim>\<open>matches1\<close> and \<^verbatim>\<open>T12\<close>. The argument \<^verbatim>\<open>th2\<close> is not read.
\<close>

definition OptimizeRelativePose ::
  "Extern \<Rightarrow> covins_params \<Rightarrow> MapState \<Rightarrow> nat \<Rightarrow> nat \<Rightarrow> nat option list \<Rightarrow> TransformType \<Rightarrow> real
     \<Rightarrow> fatal + nat \<times> nat option list \<times> TransformType" where
  "OptimizeRelativePose X cfg M k1 k2 matches1 T12 th2 =
     (let ceresAB = pose_array X T12 in
      case orp_build M k1 k2 matches1 of
        Inl e \<Rightarrow> Inl e
      | Inr acc \<Rightarrow>
          (let v1 = Solve X (orp_solver_options cfg) (problem acc) (\<lambda>b. ceresAB);
               residualsA = Evaluate X (problem acc) v1 (residIdsA acc);
               residualsB = Evaluate X (problem acc) v1 (residIdsB acc);
               (P', matches1', numBad) =
                 orp_outliers X (th_outlier_align cfg) residualsA residualsB
                   (zip (residIdsA acc) (residIdsB acc)) 0 0 (problem acc, matches1, 0)
           in if numCorrespondences acc - numBad < 12 then Inr (0, matches1', T12)
              else
                (let v2 = Solve X (orp_solver_options cfg) P' v1
                 in Inr (numCorrespondences acc - numBad, matches1',
                         Ceres2Transform X (v2 RelPose)))))"

section \<open>Global bundle adjustment\<close>

subsection \<open>Parameter blocks and the map\<close>

text \<open>
  The values of a parameter block, read from the map, and a value written back into it.
  The buffers of extrinsics, intrinsics and distortion are not tracked: every procedure
  adds them constant and none reads them back into the tracked state.
\<close>

definition block_values :: "MapState \<Rightarrow> block \<Rightarrow> real list" where
  "block_values M b =
     (case b of
        Pose a \<Rightarrow> ceres_pose (kf_heap M a)
      | SpeedBias a \<Rightarrow> ceres_velocity_and_bias (kf_heap M a)
      | PoseLocal a \<Rightarrow> ceres_pose_local (kf_heap M a)
      | Yaw a \<Rightarrow> [ceres_pose (kf_heap M a) ! 1]
      | Trans a \<Rightarrow> [ceres_pose (kf_heap M a) ! 4, ceres_pose (kf_heap M a) ! 5,
                      ceres_pose (kf_heap M a) ! 6]
      | Position l \<Rightarrow> ceres_pos (lm_heap M l)
      | _ \<Rightarrow> [])"

definition update_kf :: "nat \<Rightarrow> (Keyframe \<Rightarrow> Keyframe) \<Rightarrow> MapState \<Rightarrow> MapState" where
  "update_kf a f M = M\<lparr>kf_heap := (kf_heap M)(a := f (kf_heap M a))\<rparr>"

definition update_lm :: "nat \<Rightarrow> (Landmark \<Rightarrow> Landmark) \<Rightarrow> MapState \<Rightarrow> MapState" where
  "update_lm l f M = M\<lparr>lm_heap := (lm_heap M)(l := f (lm_heap M l))\<rparr>"

definition store_block :: "block \<Rightarrow> real list \<Rightarrow> MapState \<Rightarrow> MapState" where
  "store_block b xs M =
     (case b of
        Pose a \<Rightarrow> update_kf a (\<lambda>k. k\<lparr>ceres_pose := xs\<rparr>) M
      | SpeedBias a \<Rightarrow> update_kf a (\<lambda>k. k\<lparr>ceres_velocity_and_bias := xs\<rparr>) M
      | PoseLocal a \<Rightarrow> update_kf a (\<lambda>k. k\<lparr>ceres_pose_local := xs\<rparr>) M
      | Yaw a \<Rightarrow> update_kf a (\<lambda>k. k\<lparr>ceres_pose := (ceres_pose k)[1 := xs ! 0]\<rparr>) M
      | Trans a \<Rightarrow>
          update_kf a
            (\<lambda>k. k\<lparr>ceres_pose := (ceres_pose k)[4 := xs ! 0, 5 := xs ! 1, 6 := xs ! 2]\<rparr>) M
      | Position l \<Rightarrow> update_lm l (\<lambda>m. m\<lparr>ceres_pos := xs\<rparr>) M
      | _ \<Rightarrow> M)"

text \<open>Solving a problem whose parameter blocks are buffers of the map.\<close>

definition SolveMap :: "Extern \<Rightarrow> SolverOptions \<Rightarrow> Problem \<Rightarrow> MapState \<Rightarrow> MapState" where
  "SolveMap X opts P M =
     (let v = Solve X opts P (block_values M)
      in fold (\<lambda>b. store_block b (v b)) (filter (\<lambda>b. b \<notin> set (pconstant P)) (pblocks P)) M)"

text \<open>
  Modelled from the spec: \<^verbatim>\<open>Keyframe::UpdateCeresFromState\<close> belongs to the keyframe
  class, which is not part of this file. It copies the live state into the flat
  optimization arrays: the pose, and the velocity and biases.
\<close>

definition UpdateCeresFromState :: "Extern \<Rightarrow> Keyframe \<Rightarrow> Keyframe" where
  "UpdateCeresFromState X kf =
     kf\<lparr>ceres_pose := State2Ceres X (PoseTws kf),
        ceres_velocity_and_bias := StateVelBias kf\<rparr>"

text \<open>
  Modelled from the spec: \<^verbatim>\<open>Keyframe::EraseLandmark\<close> and
  \<^verbatim>\<open>Landmark::EraseObservation\<close> belong to the keyframe and landmark classes, which are
  not part of this file. The first erases the keyframe's observation at a feature index,
  the second the landmark's observation by a keyframe.
\<close>

definition EraseLandmark :: "nat \<Rightarrow> nat \<Rightarrow> MapState \<Rightarrow> MapState" where
  "EraseLandmark kfi kp_id M = update_kf kfi (\<lambda>k. k\<lparr>landmarks := (landmarks k)[kp_id := None]\<rparr>) M"

definition EraseObservation :: "nat \<Rightarrow> nat \<Rightarrow> MapState \<Rightarrow> MapState" where
  "EraseObservation lmi kfi M =
     update_lm lmi (\<lambda>m. m\<lparr>observations := filter (\<lambda>ob. fst ob \<noteq> Some kfi) (observations m)\<rparr>) M"

subsection \<open>Building the problem\<close>

text \<open>
  The state of a pass while it builds its problem: the map, the problem, the two maps from
  keyframe identifiers to camera buffers, the identifiers of the reprojection residual
  blocks with the observation each stands for (keyframe, landmark, feature index), and the
  flags of the landmarks left out.
\<close>

record gba_acc =
  gmap :: MapState
  gproblem :: Problem
  distortion_map :: "idpair \<Rightarrow> block option"
  intrinsics_map :: "idpair \<Rightarrow> block option"
  residual_ids :: "nat list"
  keypoint_ids :: "(nat \<times> nat \<times> nat) list"
  not_included_lms :: "bool list"

text \<open>\<^verbatim>\<open>std::map::insert\<close> keeps the entry of a key that is already there.\<close>

definition map_insert :: "'k \<Rightarrow> 'v \<Rightarrow> ('k \<Rightarrow> 'v option) \<Rightarrow> ('k \<Rightarrow> 'v option)" where
  "map_insert k v m = (case m k of None \<Rightarrow> m(k \<mapsto> v) | Some w \<Rightarrow> m)"

text \<open>
  The camera parameters of a keyframe: both known projection families add the distortion
  and the intrinsics buffers, constant; any other family ends the process.
\<close>

definition add_camera_parameters :: "Keyframe \<Rightarrow> gba_acc \<Rightarrow> fatal + gba_acc" where
  "add_camera_parameters kf s =
     (let c = cam_addr (camera kf);
          added = s\<lparr>distortion_map := map_insert (kf_id kf) (Distortion c) (distortion_map s),
                    intrinsics_map := map_insert (kf_id kf) (Intrinsics c) (intrinsics_map s),
                    gproblem :=
                      SetParameterBlockConstant (Intrinsics c)
                        (AddParameterBlock (Intrinsics c)
                          (SetParameterBlockConstant (Distortion c)
                            (AddParameterBlock (Distortion c) (gproblem s))))\<rparr>
      in case getType (camera kf) of
           kPinhole \<Rightarrow> Inr added
         | kUnifiedProjection \<Rightarrow> Inr added
         | kOtherCamera \<Rightarrow> Inl UnknownProjectionType)"

text \<open>The body of the loop over the keyframes in the first round.\<close>

definition gba1_add_keyframe :: "Extern \<Rightarrow> bool \<Rightarrow> nat \<Rightarrow> gba_acc \<Rightarrow> fatal + gba_acc" where
  "gba1_add_keyframe X visual_only a s =
     (if kf_IsInvalid (kf_heap (gmap s) a) then Inr s
      else
        (let M1 = update_kf a (UpdateCeresFromState X) (gmap s);
             kf = kf_heap M1 a;
             P1 = AddParameterBlock (Pose a) (gproblem s);
             P2 = (if fst (kf_id kf) = 0 \<and> snd (kf_id kf) = id_map M1
                   then SetParameterBlockConstant (Pose a) P1 else P1);
             P3 = (if \<not> visual_only then AddParameterBlock (SpeedBias a) P2 else P2);
             P4 = SetParameterBlockConstant (Extrinsics a) (AddParameterBlock (Extrinsics a) P3)
         in case add_camera_parameters kf (s\<lparr>gmap := M1, gproblem := P4\<rparr>) of
              Inl e \<Rightarrow> Inl e
            | Inr s1 \<Rightarrow>
                (if \<not> visual_only then
                   (case Predecessor kf of
                      None \<Rightarrow> if fst (kf_id kf) \<noteq> 0 then Inl NoPredecessor else Inr s1
                    | Some pred \<Rightarrow>
                        if kf_IsInvalid (kf_heap M1 pred)
                        then (if fst (kf_id kf) \<noteq> 0 then Inl NoPredecessor else Inr s1)
                        else Inr (s1\<lparr>gproblem :=
                               snd (AddResidualBlock (PreintegrationFactor a) NoLoss
                                      [Pose pred, SpeedBias pred, Pose a, SpeedBias a]
                                      (gproblem s1))\<rparr>))
                 else Inr s1)))"

text \<open>
  The body of the loop over the keyframes in the second round. It also holds the pose of a
  loaded keyframe constant when the configuration says so, adds no inertial factor for a
  keyframe without inertial measurements, and ends the process when one of the four blocks
  of the inertial factor is not in the problem.
\<close>

definition gba2_add_keyframe ::
  "Extern \<Rightarrow> covins_params \<Rightarrow> bool \<Rightarrow> nat \<Rightarrow> gba_acc \<Rightarrow> fatal + gba_acc" where
  "gba2_add_keyframe X cfg visual_only a s =
     (if kf_IsInvalid (kf_heap (gmap s) a) then Inr s
      else
        (let M1 = update_kf a (UpdateCeresFromState X) (gmap s);
             kf = kf_heap M1 a;
             P1 = AddParameterBlock (Pose a) (gproblem s);
             P2 = (if fst (kf_id kf) = 0 \<and> snd (kf_id kf) = id_map M1
                   then SetParameterBlockConstant (Pose a) P1 else P1);
             P3 = (if \<not> visual_only then AddParameterBlock (SpeedBias a) P2 else P2);
             P4 = SetParameterBlockConstant (Extrinsics a) (AddParameterBlock (Extrinsics a) P3);
             P5 = (if is_loaded kf \<and> gba_fix_poses_loaded_maps cfg
                   then SetParameterBlockConstant (Pose a) P4 else P4)
         in case add_camera_parameters kf (s\<lparr>gmap := M1, gproblem := P5\<rparr>) of
              Inl e \<Rightarrow> Inl e
            | Inr s1 \<Rightarrow>
                (if \<not> visual_only then
                   (case Predecessor kf of
                      None \<Rightarrow> if fst (kf_id kf) \<noteq> 0 then Inl NoPredecessor else Inr s1
                    | Some pred \<Rightarrow>
                        if kf_IsInvalid (kf_heap M1 pred)
                        then (if fst (kf_id kf) \<noteq> 0 then Inl NoPredecessor else Inr s1)
                        else if NumMeasurements kf = 0 then Inr s1
                        else if \<not> HasParameterBlock (gproblem s1) (Pose pred) then
                          Inl ParameterBlockMissing
                        else if \<not> HasParameterBlock (gproblem s1) (Pose a) then
                          Inl ParameterBlockMissing
                        else if \<not> HasParameterBlock (gproblem s1) (SpeedBias pred) then
                          Inl ParameterBlockMissing
                        else if \<not> HasParameterBlock (gproblem s1) (SpeedBias a) then
                          Inl ParameterBlockMissing
                        else Inr (s1\<lparr>gproblem :=
                               snd (AddResidualBlock (PreintegrationFactor a) NoLoss
                                      [Pose pred, SpeedBias pred, Pose a, SpeedBias a]
                                      (gproblem s1))\<rparr>))
                 else Inr s1)))"

text \<open>An observation counts when its keyframe pointer is not null and the keyframe is valid.\<close>

definition valid_observation :: "MapState \<Rightarrow> nat option \<times> nat \<Rightarrow> bool" where
  "valid_observation M ob =
     (case fst ob of None \<Rightarrow> False | Some kfx \<Rightarrow> \<not> kf_IsInvalid (kf_heap M kfx))"

text \<open>
  The body of the loop over the observations of landmark \<open>l\<close>. In the first round a
  keyframe that is missing from the intrinsics map makes \<^verbatim>\<open>std::map::at\<close> throw when the
  residual block is added; the second round checks for it first and ends the process.
\<close>

definition gba_add_observation ::
  "bool \<Rightarrow> nat \<Rightarrow> nat option \<times> nat \<Rightarrow> gba_acc \<Rightarrow> fatal + gba_acc" where
  "gba_add_observation second_round l ob s =
     (case fst ob of
        None \<Rightarrow> Inr s
      | Some kfx \<Rightarrow>
          (let kf = kf_heap (gmap s) kfx; feat_id = snd ob in
           if kf_IsInvalid kf then Inr s
           else if second_round \<and> intrinsics_map s (kf_id kf) = None then Inl NotInIntrinsicsMap
           else
             (case reprojection_dispatch (getType (camera kf)) (getDistortionType (camera kf))
                     (\<lambda>c d. GlobalEuclideanReprError c d kfx feat_id) of
                Inl e \<Rightarrow> Inl e
              | Inr reprojection_error \<Rightarrow>
                  (case (intrinsics_map s (kf_id kf), distortion_map s (kf_id kf)) of
                     (Some bi, Some bd) \<Rightarrow>
                       (let (block_id, P1) =
                              AddResidualBlock reprojection_error (CauchyLoss 1)
                                [Pose kfx, Extrinsics kfx, Position l, bi, bd] (gproblem s)
                        in Inr (s\<lparr>gproblem := P1,
                                  residual_ids := residual_ids s @ [block_id],
                                  keypoint_ids := keypoint_ids s @ [(kfx, l, feat_id)]\<rparr>))
                   | _ \<Rightarrow> Inl NotInIntrinsicsMap))))"

text \<open>
  The body of the loop over the landmarks, at position \<open>i\<close> of the landmark vector, with
  \<^verbatim>\<open>th_min_observations = 2\<close>.
\<close>

definition gba_add_landmark :: "bool \<Rightarrow> nat \<Rightarrow> gba_acc \<Rightarrow> fatal + gba_acc" where
  "gba_add_landmark second_round i s =
     (let M = gmap s; l = LandmarksVec M ! i; lm = lm_heap M l in
      if lm_IsInvalid lm then Inr s
      else if length (observations lm) < 2 then
        Inr (s\<lparr>not_included_lms := (not_included_lms s)[i := True]\<rparr>)
      else if length (filter (valid_observation M) (observations lm)) < 2 then
        Inr (s\<lparr>not_included_lms := (not_included_lms s)[i := True]\<rparr>)
      else
        foldE (gba_add_observation second_round l) (observations lm)
          (s\<lparr>gmap := update_lm l (\<lambda>m. m\<lparr>ceres_pos := WorldPos m\<rparr>) M,
             gproblem := AddParameterBlock (Position l) (gproblem s)\<rparr>))"

text \<open>
  The loop edges. The first round adds one for every loop constraint, without a loss
  function. The second round adds them only when the configuration says so, leaves out a
  loop whose keyframes are not both in the problem, and uses the loss function.
\<close>

definition gba1_add_loop :: "LoopConstraint \<Rightarrow> Problem \<Rightarrow> Problem" where
  "gba1_add_loop i P =
     snd (AddResidualBlock (SixDofBetweenError (T_s1_s2 i) 100 10000) NoLoss
            [Pose (kf1 i), Pose (kf2 i), Extrinsics (kf1 i), Extrinsics (kf2 i)] P)"

definition gba2_add_loop :: "LoopConstraint \<Rightarrow> Problem \<Rightarrow> Problem" where
  "gba2_add_loop i P =
     (if \<not> HasParameterBlock P (Pose (kf1 i)) \<or> \<not> HasParameterBlock P (Pose (kf2 i)) then P
      else snd (AddResidualBlock (SixDofBetweenError (T_s1_s2 i) 100 10000) (CauchyLoss 1)
                  [Pose (kf1 i), Pose (kf2 i), Extrinsics (kf1 i), Extrinsics (kf2 i)] P))"

definition gba_init :: "MapState \<Rightarrow> gba_acc" where
  "gba_init M =
     \<lparr>gmap = M, gproblem = empty_problem, distortion_map = (\<lambda>k. None),
      intrinsics_map = (\<lambda>k. None), residual_ids = [], keypoint_ids = [],
      not_included_lms = replicate (length (LandmarksVec M)) False\<rparr>"

definition gba1_build :: "Extern \<Rightarrow> bool \<Rightarrow> MapState \<Rightarrow> fatal + gba_acc" where
  "gba1_build X visual_only M =
     (case foldE (gba1_add_keyframe X visual_only) (KeyframesVec M) (gba_init M) of
        Inl e \<Rightarrow> Inl e
      | Inr s1 \<Rightarrow>
          (case foldE (gba_add_landmark False) [0..<length (LandmarksVec M)] s1 of
             Inl e \<Rightarrow> Inl e
           | Inr s2 \<Rightarrow>
               Inr (s2\<lparr>gproblem := fold gba1_add_loop (LoopConstraints M) (gproblem s2)\<rparr>)))"

definition gba2_build :: "Extern \<Rightarrow> covins_params \<Rightarrow> bool \<Rightarrow> MapState \<Rightarrow> fatal + gba_acc" where
  "gba2_build X cfg visual_only M =
     (case foldE (gba2_add_keyframe X cfg visual_only) (KeyframesVec M) (gba_init M) of
        Inl e \<Rightarrow> Inl e
      | Inr s1 \<Rightarrow>
          (case foldE (gba_add_landmark True) [0..<length (LandmarksVec M)] s1 of
             Inl e \<Rightarrow> Inl e
           | Inr s2 \<Rightarrow>
               Inr (if gba_use_map_loop_constraints cfg
                    then s2\<lparr>gproblem := fold gba2_add_loop (LoopConstraints M) (gproblem s2)\<rparr>
                    else s2)))"

subsection \<open>The two rounds\<close>

definition gba1_solver_options :: "covins_params \<Rightarrow> SolverOptions" where
  "gba1_solver_options cfg =
     default_options\<lparr>linear_solver_type := SPARSE_SCHUR,
        num_threads := threads_server cfg,
        num_linear_solver_threads := threads_server cfg,
        trust_region_strategy_type := DOGLEG,
        max_num_iterations := 5\<rparr>"

definition gba2_solver_options :: "covins_params \<Rightarrow> int \<Rightarrow> SolverOptions" where
  "gba2_solver_options cfg interations_limit =
     default_options\<lparr>linear_solver_type := SPARSE_SCHUR,
        num_threads := threads_server cfg,
        num_linear_solver_threads := threads_server cfg,
        trust_region_strategy_type := DOGLEG,
        max_num_iterations := interations_limit\<rparr>"

text \<open>
  The loop that removes outliers: over the reprojection residual blocks with their
  observations, \<open>resid_idx\<close> running over the residual vector. The state is the map, the
  problem and \<^verbatim>\<open>num_bad\<close>.
\<close>

fun gba_outliers ::
  "Extern \<Rightarrow> real \<Rightarrow> real list \<Rightarrow> (nat \<times> nat \<times> nat \<times> nat) list \<Rightarrow> nat
     \<Rightarrow> MapState \<times> Problem \<times> nat \<Rightarrow> MapState \<times> Problem \<times> nat" where
  "gba_outliers X threshold residuals [] resid_idx s = s"
| "gba_outliers X threshold residuals ((rid, kfi, lmi, kp_id) # rest) resid_idx (M, P, num_bad) =
     gba_outliers X threshold residuals rest (resid_idx + 2)
       (if threshold < VectorNorm X (residuals ! resid_idx) (residuals ! (resid_idx + 1))
        then (EraseObservation lmi kfi (EraseLandmark kfi kp_id M),
              RemoveResidualBlock rid P, num_bad + 1)
        else (M, P, num_bad))"

text \<open>
  The first round: build, solve with five iterations, evaluate the reprojection residual
  blocks, remove the outliers. It yields the map, the problem and the count it reports.
\<close>

definition gba_pass1 ::
  "Extern \<Rightarrow> covins_params \<Rightarrow> bool \<Rightarrow> MapState \<Rightarrow> fatal + MapState \<times> Problem \<times> nat" where
  "gba_pass1 X cfg visual_only M =
     (case gba1_build X visual_only M of
        Inl e \<Rightarrow> Inl e
      | Inr s \<Rightarrow>
          (let M1 = SolveMap X (gba1_solver_options cfg) (gproblem s) (gmap s);
               residuals = Evaluate X (gproblem s) (block_values M1) (residual_ids s)
           in Inr (gba_outliers X (th_gba_outlier_global cfg) residuals
                     (zip (residual_ids s) (keypoint_ids s)) 0 (M1, gproblem s, 0))))"

text \<open>Recovering the optimized data of a keyframe and of the landmark at position \<open>i\<close>.\<close>

definition gba_recover_keyframe :: "Extern \<Rightarrow> bool \<Rightarrow> nat \<Rightarrow> MapState \<Rightarrow> MapState" where
  "gba_recover_keyframe X visual_only a M =
     (if kf_IsInvalid (kf_heap M a) then M
      else update_kf a
             (\<lambda>k. k\<lparr>PoseTws := Ceres2Transform X (ceres_pose k),
                    StateVelBias := (if \<not> visual_only then ceres_velocity_and_bias k
                                     else StateVelBias k),
                    is_gba_optimized := True\<rparr>) M)"

definition gba_recover_landmark :: "bool list \<Rightarrow> nat \<Rightarrow> MapState \<Rightarrow> MapState" where
  "gba_recover_landmark not_included i M =
     (if not_included ! i then M
      else if lm_IsInvalid (lm_heap M (LandmarksVec M ! i)) then M
      else update_lm (LandmarksVec M ! i)
             (\<lambda>m. m\<lparr>WorldPos := ceres_pos m, lm_is_gba_optimized := True\<rparr>) M)"

definition gba_pass2 ::
  "Extern \<Rightarrow> covins_params \<Rightarrow> int \<Rightarrow> bool \<Rightarrow> MapState \<Rightarrow> fatal + MapState" where
  "gba_pass2 X cfg interations_limit visual_only M =
     (case gba2_build X cfg visual_only M of
        Inl e \<Rightarrow> Inl e
      | Inr s \<Rightarrow>
          (let M1 = SolveMap X (gba2_solver_options cfg interations_limit) (gproblem s) (gmap s);
               M2 = fold (gba_recover_keyframe X visual_only) (KeyframesVec M) M1
           in Inr (fold (gba_recover_landmark (not_included_lms s))
                     [0..<length (LandmarksVec M)] M2)))"

text \<open>
  The procedure, up to the call of \<^verbatim>\<open>map->Clean()\<close>, which belongs to the map class.
  The arguments \<^verbatim>\<open>time_limit\<close> and \<^verbatim>\<open>estimate_bias\<close> are not read.
\<close>

definition GlobalBundleAdjustment ::
  "Extern \<Rightarrow> covins_params \<Rightarrow> MapState \<Rightarrow> int \<Rightarrow> real \<Rightarrow> bool \<Rightarrow> bool \<Rightarrow> bool
     \<Rightarrow> fatal + MapState" where
  "GlobalBundleAdjustment X cfg M interations_limit time_limit visual_only outlier_removal
       estimate_bias =
     (if outlier_removal then
        (case gba_pass1 X cfg visual_only M of
           Inl e \<Rightarrow> Inl e
         | Inr (M1, P1, num_bad) \<Rightarrow> gba_pass2 X cfg interations_limit visual_only M1)
      else gba_pass2 X cfg interations_limit visual_only M)"

section \<open>Pose-graph optimization\<close>

subsection \<open>What both variants share\<close>




text \<open>\<^verbatim>\<open>T.block<3,1>(0,3)\<close>.\<close>

definition translation_of :: "TransformType \<Rightarrow> real list" where
  "translation_of T = [T ! 3, T ! 7, T ! 11]"

text \<open>
  The conversion of a \<^verbatim>\<open>size_t\<close> to \<^verbatim>\<open>int\<close> keeps the low 32 bits, read in two's
  complement; \<open>int32\<close> is that reading of an integer. The subtraction of two \<^verbatim>\<open>int\<close>
  is taken to wrap around in the same way where it overflows, which the language leaves
  undefined (it can only happen for an index that converts to one of the four least
  \<^verbatim>\<open>int\<close>).
\<close>

definition int32 :: "int \<Rightarrow> int" where
  "int32 x = (x + 2147483648) mod 4294967296 - 2147483648"

text \<open>
  The state of a pose-graph optimization while it builds its problem: the map, the
  problem, the quaternions of the initial poses by keyframe identifier (the 4-DoF variant
  only; the 6-DoF variant has no such map and leaves it empty), and the pairs of keyframes
  that have an edge.
\<close>

record pgo_acc =
  pmap :: MapState
  pproblem :: Problem
  q_ws_map :: "idpair \<Rightarrow> real list option"
  inserted_edges :: "(nat \<times> nat) set"

definition pgo_init :: "MapState \<Rightarrow> pgo_acc" where
  "pgo_init M = \<lparr>pmap = M, pproblem = empty_problem, q_ws_map = (\<lambda>i. None), inserted_edges = {}\<rparr>"

text \<open>
  The up to four predecessors of a keyframe: \<open>temp\<close> walks the chain of predecessors for
  every \<open>j\<close> with \<^verbatim>\<open>int(kf->id_.first) - j > 0\<close>, where \<open>idf\<close> is the index of the
  keyframe as an \<^verbatim>\<open>int\<close>. The walk pushes what
  \<^verbatim>\<open>GetPredecessor\<close> returns, null or not; asking a null pointer for its predecessor
  ends the process.
\<close>

fun pgo_connections :: "MapState \<Rightarrow> int \<Rightarrow> nat option \<Rightarrow> int list \<Rightarrow> fatal + nat option list" where
  "pgo_connections M idf temp [] = Inr []"
| "pgo_connections M idf temp (j # js) =
     (if int32 (idf - j) > 0 then
        (case temp of
           None \<Rightarrow> Inl NullPointer
         | Some t \<Rightarrow>
             (case pgo_connections M idf (Predecessor (kf_heap M t)) js of
                Inl e \<Rightarrow> Inl e
              | Inr cs \<Rightarrow> Inr (Predecessor (kf_heap M t) # cs)))
      else pgo_connections M idf temp js)"


subsection \<open>The 4-DoF variant\<close>

text \<open>
  Pitch and roll of the initial pose of a keyframe, from the stored quaternion.
  \<^verbatim>\<open>q_ws_map[id]\<close> of an identifier that is not in the map is a default-constructed
  quaternion, whose coefficients are indeterminate: \<open>None\<close>.
\<close>

definition euler_connected :: "Extern \<Rightarrow> pgo_acc \<Rightarrow> idpair \<Rightarrow> (real \<times> real) option" where
  "euler_connected X s i =
     (case q_ws_map s i of
        None \<Rightarrow> None
      | Some q \<Rightarrow> Some (Quat2ypr X q ! 1, Quat2ypr X q ! 2))"

text \<open>
  The body of the loop over the keyframes. The pose array holds yaw, pitch and roll at
  positions 1 to 3 and the translation at 4 to 6; the parameter blocks are the yaw (one
  scalar at position 1) and the translation.
\<close>

definition pgo4_add_keyframe :: "Extern \<Rightarrow> covins_params \<Rightarrow> nat \<Rightarrow> pgo_acc \<Rightarrow> pgo_acc" where
  "pgo4_add_keyframe X cfg a s =
     (let M = pmap s; kf = kf_heap M a in
      if kf_IsInvalid kf then s
      else
        (let T_ws_init = PoseTws kf;
             kf1 = UpdateCeresFromState X kf;
             ypr = R2ypr X T_ws_init;
             kf2 = kf1\<lparr>ceres_pose :=
                     (ceres_pose kf1)[1 := ypr ! 0, 2 := ypr ! 1, 3 := ypr ! 2,
                        4 := T_ws_init ! 3, 5 := T_ws_init ! 7, 6 := T_ws_init ! 11]\<rparr>;
             P1 = AddParameterBlock (Trans a) (AddParameterBlock (Yaw a) (pproblem s));
             P2 = (if fst (kf_id kf) = 0 \<and> snd (kf_id kf) = id_map M
                   then SetParameterBlockConstant (Trans a) (SetParameterBlockConstant (Yaw a) P1)
                   else P1);
             P3 = (if is_gba_optimized kf \<and> pgo_fix_kfs_after_gba cfg
                   then SetParameterBlockConstant (Trans a) (SetParameterBlockConstant (Yaw a) P2)
                   else if is_loaded kf \<and> pgo_fix_poses_loaded_maps cfg
                   then SetParameterBlockConstant (Trans a) (SetParameterBlockConstant (Yaw a) P2)
                   else P2)
         in s\<lparr>pmap := update_kf a (\<lambda>k. kf2) M, pproblem := P3,
              q_ws_map := (q_ws_map s)(kf_id kf \<mapsto> QuaternionOf X T_ws_init)\<rparr>))"

text \<open>A loop edge. The covariance is read and not used; the weight is the constant 1.\<close>

definition pgo4_add_loop :: "Extern \<Rightarrow> LoopConstraint \<Rightarrow> pgo_acc \<Rightarrow> pgo_acc" where
  "pgo4_add_loop X i s =
     (let T_12 = T_s1_s2 i;
          relative_yaw = relative_yaw_smatch_squery i;
          cov = BlockTrace X (cov_mat i);
          weight = 1;
          t_12 = translation_of T_12;
          euler_conncected = euler_connected X s (kf_id (kf_heap (pmap s) (kf1 i)));
          cost_function = FourDOFWeightError t_12 relative_yaw euler_conncected weight
      in s\<lparr>pproblem :=
             snd (AddResidualBlock cost_function (HuberLoss (1 / 10))
                    [Yaw (kf1 i), Trans (kf1 i), Yaw (kf2 i), Trans (kf2 i)] (pproblem s))\<rparr>)"

text \<open>An edge from keyframe \<open>a\<close> to keyframe \<open>c\<close>, unless the pair has one.\<close>

definition pgo4_add_edge :: "Extern \<Rightarrow> nat \<Rightarrow> nat \<Rightarrow> pgo_acc \<Rightarrow> pgo_acc" where
  "pgo4_add_edge X a c s =
     (let M = pmap s; kf = kf_heap M a; kfc = kf_heap M c;
          T_si_sc = Tmul X (Tinv X (PoseTws kf)) (PoseTws kfc);
          relative_t = translation_of T_si_sc;
          relative_yaw = ceres_pose kfc ! 1 - ceres_pose kf ! 1;
          euler_conncected = euler_connected X s (kf_id kf)
      in if (a, c) \<in> inserted_edges s then s
         else s\<lparr>inserted_edges := insert (a, c) (inserted_edges s),
                pproblem :=
                  snd (AddResidualBlock (FourDOFError relative_t relative_yaw euler_conncected)
                         NoLoss [Yaw a, Trans a, Yaw c, Trans c] (pproblem s))\<rparr>)"

definition pgo4_add_successor_edge :: "Extern \<Rightarrow> nat \<Rightarrow> pgo_acc \<Rightarrow> pgo_acc" where
  "pgo4_add_successor_edge X a s =
     (let kf = kf_heap (pmap s) a in
      if kf_IsInvalid kf then s
      else (case Successor kf of None \<Rightarrow> s | Some succ \<Rightarrow> pgo4_add_edge X a succ s))"

definition pgo4_add_neighbours :: "Extern \<Rightarrow> nat \<Rightarrow> pgo_acc \<Rightarrow> fatal + pgo_acc" where
  "pgo4_add_neighbours X a s =
     (let kf = kf_heap (pmap s) a in
      if kf_IsInvalid kf then Inr s
      else
        (case pgo_connections (pmap s) (int32 (int (fst (kf_id kf)))) (Some a) [1, 2, 3, 4] of
           Inl e \<Rightarrow> Inl e
         | Inr connections \<Rightarrow>
             foldE (\<lambda>kfc t. case kfc of None \<Rightarrow> Inl NullPointer
                              | Some c \<Rightarrow> Inr (pgo4_add_edge X a c t))
               connections s))"

definition pgo4_build :: "Extern \<Rightarrow> covins_params \<Rightarrow> MapState \<Rightarrow> fatal + pgo_acc" where
  "pgo4_build X cfg M =
     (let s1 = fold (pgo4_add_keyframe X cfg) (KeyframesVec M) (pgo_init M);
          s2 = fold (pgo4_add_loop X) (LoopConstraints M) s1;
          s3 = fold (pgo4_add_successor_edge X) (KeyframesVec M) s2
      in foldE (pgo4_add_neighbours X) (KeyframesVec M) s3)"




subsection \<open>The 6-DoF variant\<close>

text \<open>
  The body of the loop over the keyframes. The initial pose is the corrected pose of the
  keyframe when the caller gives one, the pose of the keyframe otherwise; the pose array
  holds its quaternion and its translation.
\<close>

definition pgo_add_keyframe ::
  "Extern \<Rightarrow> (idpair \<Rightarrow> TransformType option) \<Rightarrow> nat \<Rightarrow> pgo_acc \<Rightarrow> pgo_acc" where
  "pgo_add_keyframe X corrected_poses a s =
     (let M = pmap s; kf = kf_heap M a in
      if kf_IsInvalid kf then s
      else
        (let T_ws_init = (case corrected_poses (kf_id kf) of
                            Some T \<Rightarrow> T
                          | None \<Rightarrow> PoseTws kf);
             kf1 = UpdateCeresFromState X kf;
             q_ws_init = QuaternionOf X T_ws_init;
             kf2 = kf1\<lparr>ceres_pose :=
                     (ceres_pose kf1)[0 := q_ws_init ! 0, 1 := q_ws_init ! 1,
                        2 := q_ws_init ! 2, 3 := q_ws_init ! 3,
                        4 := T_ws_init ! 3, 5 := T_ws_init ! 7, 6 := T_ws_init ! 11]\<rparr>;
             P1 = AddParameterBlock (Pose a) (pproblem s);
             P2 = (if fst (kf_id kf) = 0 \<and> snd (kf_id kf) = id_map M
                   then SetParameterBlockConstant (Pose a) P1 else P1);
             P3 = SetParameterBlockConstant (Extrinsics a) (AddParameterBlock (Extrinsics a) P2)
         in s\<lparr>pmap := update_kf a (\<lambda>k. kf2) M, pproblem := P3\<rparr>))"

text \<open>
  The weight of a loop edge, from the trace of the lower right block of its covariance as
  the matrix library computes it: three bands, separated by the two switches of the
  configuration.
\<close>

definition pgo_loop_weight :: "Extern \<Rightarrow> covins_params \<Rightarrow> LoopConstraint \<Rightarrow> real" where
  "pgo_loop_weight X cfg i =
     (let cov = BlockTrace X (cov_mat i) in
      if cov < cov_switch cfg then wt_lp_r1 cfg
      else if cov < cov_switch2 cfg then wt_lp_r2 cfg
      else wt_lp_r3 cfg)"

text \<open>
  A loop edge: the square root information is the identity times the weight, and there is
  no loss function.
\<close>

definition pgo_add_loop :: "Extern \<Rightarrow> covins_params \<Rightarrow> LoopConstraint \<Rightarrow> pgo_acc \<Rightarrow> pgo_acc" where
  "pgo_add_loop X cfg i s =
     (let weight = pgo_loop_weight X cfg i
      in s\<lparr>pproblem :=
             snd (AddResidualBlock (SixDofBetweenError (T_s1_s2 i) weight weight) NoLoss
                    [Pose (kf1 i), Pose (kf2 i), Extrinsics (kf1 i), Extrinsics (kf2 i)]
                    (pproblem s))\<rparr>)"

text \<open>
  An edge from keyframe \<open>a\<close> to keyframe \<open>c\<close>, unless the pair has one; the square root
  information has the two keyframe weights of the configuration on its diagonal blocks.
\<close>

definition pgo_add_edge :: "Extern \<Rightarrow> covins_params \<Rightarrow> nat \<Rightarrow> nat \<Rightarrow> pgo_acc \<Rightarrow> pgo_acc" where
  "pgo_add_edge X cfg a c s =
     (let M = pmap s;
          T_si_sc = Tmul X (Tinv X (PoseTws (kf_heap M a))) (PoseTws (kf_heap M c))
      in if (a, c) \<in> inserted_edges s then s
         else s\<lparr>inserted_edges := insert (a, c) (inserted_edges s),
                pproblem :=
                  snd (AddResidualBlock (SixDofBetweenError T_si_sc (wt_kf_r cfg) (wt_kf_t cfg))
                         NoLoss [Pose a, Pose c, Extrinsics a, Extrinsics c] (pproblem s))\<rparr>)"

definition pgo_add_successor_edge :: "Extern \<Rightarrow> covins_params \<Rightarrow> nat \<Rightarrow> pgo_acc \<Rightarrow> pgo_acc" where
  "pgo_add_successor_edge X cfg a s =
     (let kf = kf_heap (pmap s) a in
      if kf_IsInvalid kf then s
      else (case Successor kf of None \<Rightarrow> s | Some succ \<Rightarrow> pgo_add_edge X cfg a succ s))"

definition pgo_add_neighbours :: "Extern \<Rightarrow> covins_params \<Rightarrow> nat \<Rightarrow> pgo_acc \<Rightarrow> fatal + pgo_acc" where
  "pgo_add_neighbours X cfg a s =
     (let kf = kf_heap (pmap s) a in
      if kf_IsInvalid kf then Inr s
      else
        (case pgo_connections (pmap s) (int32 (int (fst (kf_id kf)))) (Some a) [1, 2, 3, 4] of
           Inl e \<Rightarrow> Inl e
         | Inr connections \<Rightarrow>
             foldE (\<lambda>kfc t. case kfc of None \<Rightarrow> Inl NullPointer
                              | Some c \<Rightarrow> Inr (pgo_add_edge X cfg a c t))
               connections s))"

definition pgo_build ::
  "Extern \<Rightarrow> covins_params \<Rightarrow> MapState \<Rightarrow> (idpair \<Rightarrow> TransformType option)
     \<Rightarrow> fatal + pgo_acc" where
  "pgo_build X cfg M corrected_poses =
     (let s1 = fold (pgo_add_keyframe X corrected_poses) (KeyframesVec M) (pgo_init M);
          s2 = fold (pgo_add_loop X cfg) (LoopConstraints M) s1;
          s3 = fold (pgo_add_successor_edge X cfg) (KeyframesVec M) s2
      in foldE (pgo_add_neighbours X cfg) (KeyframesVec M) s3)"




section \<open>Local bundle adjustment\<close>

text \<open>
  The problem that \<^verbatim>\<open>LocalBundleAdjustment\<close> builds, and the options of its solve. What
  the procedure does after the solve (the Jacobian, the covariance and the files) is not
  part of the model.

  A local landmark has its own position and observations; \<open>llm_addr\<close> is the address of
  its position array. The inverse pose \<^verbatim>\<open>GetPoseTsw\<close> of a keyframe is the inverse of its
  pose.
\<close>

record LocalLM =
  llm_addr :: nat
  pos_l :: Vector3Type
  lceres_pos :: "real list"
  lobservations :: "(nat option \<times> nat) list"

record lba_acc =
  lmap :: MapState
  lproblem :: Problem
  ldistortion_map :: "idpair \<Rightarrow> block option"
  lintrinsics_map :: "idpair \<Rightarrow> block option"
  llms :: "LocalLM list"

definition lba_add_camera_parameters :: "Keyframe \<Rightarrow> lba_acc \<Rightarrow> fatal + lba_acc" where
  "lba_add_camera_parameters kf s =
     (let c = cam_addr (camera kf);
          added = s\<lparr>ldistortion_map := map_insert (kf_id kf) (Distortion c) (ldistortion_map s),
                    lintrinsics_map := map_insert (kf_id kf) (Intrinsics c) (lintrinsics_map s),
                    lproblem :=
                      SetParameterBlockConstant (Intrinsics c)
                        (AddParameterBlock (Intrinsics c)
                          (SetParameterBlockConstant (Distortion c)
                            (AddParameterBlock (Distortion c) (lproblem s))))\<rparr>
      in case getType (camera kf) of
           kPinhole \<Rightarrow> Inr added
         | kUnifiedProjection \<Rightarrow> Inr added
         | kOtherCamera \<Rightarrow> Inl UnknownProjectionType)"

definition T_identity :: TransformType where
  "T_identity = [1, 0, 0, 0, 0, 1, 0, 0, 0, 0, 1, 0, 0, 0, 0, 1]"

text \<open>Writing a quaternion and a translation into a local pose array.\<close>

definition set_pose_local :: "real list \<Rightarrow> real list \<Rightarrow> Keyframe \<Rightarrow> Keyframe" where
  "set_pose_local q t kf =
     kf\<lparr>ceres_pose_local :=
          (ceres_pose_local kf)[0 := q ! 0, 1 := q ! 1, 2 := q ! 2, 3 := q ! 3,
             4 := t ! 0, 5 := t ! 1, 6 := t ! 2]\<rparr>"

text \<open>
  The body of the loop over the query keyframes, at position \<open>i\<close>: the first is the
  origin, with the identity as its local pose, held constant; the others get their pose
  relative to the first.
\<close>

definition lba_add_query_keyframe ::
  "Extern \<Rightarrow> nat list \<Rightarrow> nat \<Rightarrow> lba_acc \<Rightarrow> fatal + lba_acc" where
  "lba_add_query_keyframe X QKFs i s =
     (let M = lmap s; QKF = QKFs ! 0; a = QKFs ! i; kf = UpdateCeresFromState X (kf_heap M a) in
      if i = 0 then
        (let kf1 = set_pose_local (QuaternionOf X T_identity) [0, 0, 0] kf;
             P = SetParameterBlockConstant (Extrinsics a) (AddParameterBlock (Extrinsics a)
                   (SetParameterBlockConstant (PoseLocal a)
                      (AddParameterBlock (PoseLocal a) (lproblem s))))
         in lba_add_camera_parameters kf1 (s\<lparr>lmap := update_kf a (\<lambda>k. kf1) M, lproblem := P\<rparr>))
      else
        (let T_wsi = Tmul X (Tinv X (PoseTws (kf_heap M QKF))) (PoseTws kf);
             kf1 = set_pose_local (QuaternionOf X T_wsi) (translation_of T_wsi) kf;
             P = SetParameterBlockConstant (Extrinsics a) (AddParameterBlock (Extrinsics a)
                   (AddParameterBlock (PoseLocal a) (lproblem s)))
         in lba_add_camera_parameters kf1 (s\<lparr>lmap := update_kf a (\<lambda>k. kf1) M, lproblem := P\<rparr>)))"

text \<open>
  The body of the loop over the candidate keyframes: the local pose is the initial
  relative transform times the pose relative to the first candidate keyframe.
\<close>

definition lba_add_candidate_keyframe ::
  "Extern \<Rightarrow> TransformType \<Rightarrow> nat list \<Rightarrow> nat \<Rightarrow> lba_acc \<Rightarrow> fatal + lba_acc" where
  "lba_add_candidate_keyframe X T_s1s2 CKFs i s =
     (let M = lmap s; CKF = CKFs ! 0; a = CKFs ! i; kf = UpdateCeresFromState X (kf_heap M a);
          T_wsi = Tmul X (Tmul X T_s1s2 (Tinv X (PoseTws (kf_heap M CKF)))) (PoseTws kf);
          kf1 = set_pose_local (QuaternionOf X T_wsi) (translation_of T_wsi) kf;
          P = SetParameterBlockConstant (Extrinsics a) (AddParameterBlock (Extrinsics a)
                (AddParameterBlock (PoseLocal a) (lproblem s)))
      in lba_add_camera_parameters kf1 (s\<lparr>lmap := update_kf a (\<lambda>k. kf1) M, lproblem := P\<rparr>))"

text \<open>The body of the loop over the observations of the local landmark \<open>lm\<close>.\<close>

definition lba_add_observation :: "LocalLM \<Rightarrow> nat option \<times> nat \<Rightarrow> lba_acc \<Rightarrow> fatal + lba_acc" where
  "lba_add_observation lm ob s =
     (case fst ob of
        None \<Rightarrow> Inr s
      | Some kfx \<Rightarrow>
          (let kf = kf_heap (lmap s) kfx; feat_id = snd ob in
           if kf_IsInvalid kf then Inr s
           else if lintrinsics_map s (kf_id kf) = None then Inl NotInIntrinsicsMap
           else
             (case reprojection_dispatch (getType (camera kf)) (getDistortionType (camera kf))
                     (\<lambda>c d. GlobalEuclideanReprError c d kfx feat_id) of
                Inl e \<Rightarrow> Inl e
              | Inr reprojection_error \<Rightarrow>
                  (case (lintrinsics_map s (kf_id kf), ldistortion_map s (kf_id kf)) of
                     (Some bi, Some bd) \<Rightarrow>
                       Inr (s\<lparr>lproblem :=
                              snd (AddResidualBlock reprojection_error (CauchyLoss 1)
                                     [PoseLocal kfx, Extrinsics kfx, Position (llm_addr lm), bi, bd]
                                     (lproblem s))\<rparr>)
                   | _ \<Rightarrow> Inl NotInIntrinsicsMap))))"

definition lba_add_landmark :: "nat \<Rightarrow> lba_acc \<Rightarrow> fatal + lba_acc" where
  "lba_add_landmark i s =
     (let lm = (llms s ! i)\<lparr>lceres_pos := pos_l (llms s ! i)\<rparr>
      in foldE (lba_add_observation lm) (lobservations lm)
           (s\<lparr>llms := (llms s)[i := lm],
              lproblem := AddParameterBlock (Position (llm_addr lm)) (lproblem s)\<rparr>))"

text \<open>
  A between factor from keyframe \<open>k1\<close> to keyframe \<open>k2\<close>, with the fixed square root
  information and the loss function of the procedure.
\<close>

definition lba_add_between :: "Extern \<Rightarrow> nat \<Rightarrow> nat \<Rightarrow> lba_acc \<Rightarrow> lba_acc" where
  "lba_add_between X k1 k2 s =
     (let M = lmap s;
          T_12 = Tmul X (Tinv X (PoseTws (kf_heap M k1))) (PoseTws (kf_heap M k2))
      in s\<lparr>lproblem :=
             snd (AddResidualBlock (SixDofBetweenError T_12 100 10000) (CauchyLoss 1)
                    [PoseLocal k1, PoseLocal k2, Extrinsics k1, Extrinsics k2] (lproblem s))\<rparr>)"

text \<open>
  The problem. \<^verbatim>\<open>QKFs[0]\<close> and \<^verbatim>\<open>CKFs[0]\<close> are read first: an empty vector is out of
  range. The edges of the candidate keyframes come before those of the query keyframes,
  both from position 1 on.
\<close>

definition lba_build ::
  "Extern \<Rightarrow> MapState \<Rightarrow> LocalLM list \<Rightarrow> nat list \<Rightarrow> nat list \<Rightarrow> TransformType
     \<Rightarrow> fatal + lba_acc" where
  "lba_build X M lms QKFs CKFs T_s1s2 =
     (if QKFs = [] \<or> CKFs = [] then Inl OutOfRange
      else
        (case foldE (lba_add_query_keyframe X QKFs) [0..<length QKFs]
                \<lparr>lmap = M, lproblem = empty_problem, ldistortion_map = (\<lambda>k. None),
                 lintrinsics_map = (\<lambda>k. None), llms = lms\<rparr> of
           Inl e \<Rightarrow> Inl e
         | Inr s1 \<Rightarrow>
             (case foldE (lba_add_candidate_keyframe X T_s1s2 CKFs) [0..<length CKFs] s1 of
                Inl e \<Rightarrow> Inl e
              | Inr s2 \<Rightarrow>
                  (case foldE lba_add_landmark [0..<length lms] s2 of
                     Inl e \<Rightarrow> Inl e
                   | Inr s3 \<Rightarrow>
                       Inr (fold (\<lambda>i. lba_add_between X (QKFs ! 0) (QKFs ! i)) [1..<length QKFs]
                              (fold (\<lambda>i. lba_add_between X (CKFs ! 0) (CKFs ! i))
                                 [1..<length CKFs] s3))))))"

definition lba_solver_options :: "covins_params \<Rightarrow> SolverOptions" where
  "lba_solver_options cfg =
     default_options\<lparr>linear_solver_type := SPARSE_SCHUR,
        num_threads := threads_server cfg,
        num_linear_solver_threads := threads_server cfg,
        trust_region_strategy_type := DOGLEG,
        max_num_iterations := 10000\<rparr>"

section \<open>Notions the properties are stated with\<close>


text \<open>
  A correspondence, given by its two residual blocks, is an outlier when the norm of either
  residual exceeds the threshold.
\<close>

definition orp_is_outlier ::
  "Extern \<Rightarrow> real \<Rightarrow> Problem \<Rightarrow> (block \<Rightarrow> real list) \<Rightarrow> nat \<times> nat \<Rightarrow> bool" where
  "orp_is_outlier X th P v ids =
     (th < VectorNorm X (fst (residual X P v (fst ids))) (snd (residual X P v (fst ids))) \<or>
      th < VectorNorm X (fst (residual X P v (snd ids))) (snd (residual X P v (snd ids))))"

text \<open>
  What no optimization buffer and no erased observation changes: a keyframe without its
  arrays and its landmark vector, a landmark without its array and its observations, and
  the map of such keyframes and landmarks.
\<close>

definition kf_core :: "Keyframe \<Rightarrow> Keyframe" where
  "kf_core k = k\<lparr>ceres_pose := [], ceres_velocity_and_bias := [], ceres_pose_local := [],
                 landmarks := []\<rparr>"

definition lm_core :: "Landmark \<Rightarrow> Landmark" where
  "lm_core m = m\<lparr>ceres_pos := [], observations := []\<rparr>"

definition map_core :: "MapState \<Rightarrow> MapState" where
  "map_core M = M\<lparr>kf_heap := (\<lambda>a. kf_core (kf_heap M a)), lm_heap := (\<lambda>l. lm_core (lm_heap M l))\<rparr>"

text \<open>A reprojection residual block of the bundle adjustment.\<close>

definition is_reprojection :: "ResidualBlock \<Rightarrow> bool" where
  "is_reprojection rb =
     (case cost rb of GlobalEuclideanReprError c d k f \<Rightarrow> True | _ \<Rightarrow> False)"

text \<open>The blocks the bundle adjustment adds.\<close>

definition gba_block :: "block \<Rightarrow> bool" where
  "gba_block b =
     (case b of PoseLocal a \<Rightarrow> False | Yaw a \<Rightarrow> False | Trans a \<Rightarrow> False | RelPose \<Rightarrow> False
      | _ \<Rightarrow> True)"

text \<open>
  A residual block stands for an observation (keyframe, landmark, feature index) when it is
  the reprojection error of that feature in that keyframe, on the pose and extrinsics of
  the keyframe, the position of the landmark and two camera buffers.
\<close>

definition observes :: "ResidualBlock \<Rightarrow> nat \<times> nat \<times> nat \<Rightarrow> bool" where
  "observes rb ob \<longleftrightarrow>
     (\<exists>c d bi bd.
        rb = \<lparr>cost = GlobalEuclideanReprError c d (fst ob) (snd (snd ob)),
              loss = CauchyLoss 1,
              parameter_blocks =
                [Pose (fst ob), Extrinsics (fst ob), Position (fst (snd ob)), bi, bd]\<rparr>)"

text \<open>The identifiers of the residual blocks are distinct and below the next one.\<close>

definition ids_ok :: "Problem \<Rightarrow> bool" where
  "ids_ok P \<longleftrightarrow> distinct (map fst (rblocks P)) \<and> (\<forall>e \<in> set (rblocks P). fst e < next_id P)"

text \<open>
  What holds of a pass while it builds its problem: its blocks are blocks of the bundle
  adjustment, the two camera maps hold camera buffers, the recorded identifiers are those
  of the reprojection residual blocks of the problem, in order, each recorded observation
  is the one its residual block stands for, there is a flag for every landmark, and the
  identifiers are in order.
\<close>

definition gba_wf :: "gba_acc \<Rightarrow> bool" where
  "gba_wf s \<longleftrightarrow>
     (\<forall>b \<in> set (pblocks (gproblem s)). gba_block b) \<and>
     (\<forall>k b. intrinsics_map s k = Some b \<longrightarrow> (\<exists>c. b = Intrinsics c)) \<and>
     (\<forall>k b. distortion_map s k = Some b \<longrightarrow> (\<exists>c. b = Distortion c)) \<and>
     residual_ids s = map fst (filter (\<lambda>e. is_reprojection (snd e)) (rblocks (gproblem s))) \<and>
     length (keypoint_ids s) = length (residual_ids s) \<and>
     length (not_included_lms s) = length (LandmarksVec (gmap s)) \<and>
     list_all2 (\<lambda>e ob. observes (snd e) ob)
       (filter (\<lambda>e. is_reprojection (snd e)) (rblocks (gproblem s))) (keypoint_ids s) \<and>
     ids_ok (gproblem s)"

text \<open>A landmark with fewer than two observations by valid keyframes.\<close>

definition few_observations :: "MapState \<Rightarrow> nat \<Rightarrow> bool" where
  "few_observations M l \<longleftrightarrow>
     length (filter (valid_observation M) (observations (lm_heap M l))) < 2"

text \<open>
  A landmark is left out of a problem when the problem has no position block for it and no
  residual block with its position among the parameter blocks.
\<close>

definition lm_excluded :: "nat \<Rightarrow> Problem \<Rightarrow> bool" where
  "lm_excluded l P \<longleftrightarrow>
     Position l \<notin> set (pblocks P) \<and>
     (\<forall>e \<in> set (rblocks P). Position l \<notin> set (parameter_blocks (snd e)))"

text \<open>
  What the loop over the keyframes, the loop over the landmarks and the loop edges leave
  of a pass as it is: the tracked state of the map but the optimization arrays, the
  constant blocks (which only grow), the blocks (which only grow) and the residual blocks
  (which are only appended to).
\<close>

definition pass_frame :: "gba_acc \<Rightarrow> gba_acc \<Rightarrow> bool" where
  "pass_frame s t \<longleftrightarrow>
     map_core (gmap t) = map_core (gmap s) \<and>
     (\<forall>l. observations (lm_heap (gmap t) l) = observations (lm_heap (gmap s) l)) \<and>
     (\<forall>a. landmarks (kf_heap (gmap t) a) = landmarks (kf_heap (gmap s) a)) \<and>
     set (pblocks (gproblem s)) \<subseteq> set (pblocks (gproblem t)) \<and>
     set (pconstant (gproblem s)) \<subseteq> set (pconstant (gproblem t)) \<and>
     length (not_included_lms t) = length (not_included_lms s) \<and>
     (\<forall>j. not_included_lms s ! j \<longrightarrow> not_included_lms t ! j) \<and>
     (\<exists>extra. rblocks (gproblem t) = rblocks (gproblem s) @ extra)"

text \<open>
  What adding loop edges does to a problem: it appends residual blocks that are no
  reprojection errors and have no landmark position, and adds pose and extrinsics blocks.
\<close>

definition edges_added :: "Problem \<Rightarrow> Problem \<Rightarrow> bool" where
  "edges_added P P' \<longleftrightarrow>
     pconstant P' = pconstant P \<and>
     set (pblocks P) \<subseteq> set (pblocks P') \<and>
     (\<forall>b \<in> set (pblocks P'). b \<in> set (pblocks P) \<or> (\<exists>c. b = Pose c \<or> b = Extrinsics c)) \<and>
     (\<exists>extra. rblocks P' = rblocks P @ extra \<and>
        (\<forall>e \<in> set extra. \<not> is_reprojection (snd e) \<and>
           (\<forall>p. Position p \<notin> set (parameter_blocks (snd e))))) \<and>
     (ids_ok P \<longrightarrow> ids_ok P')"

text \<open>
  A reprojection residual block is an outlier when the norm of its residual, as evaluated
  on problem \<open>P\<close> at the values \<open>v\<close>, exceeds the threshold.
\<close>

definition gba_is_outlier ::
  "Extern \<Rightarrow> real \<Rightarrow> Problem \<Rightarrow> (block \<Rightarrow> real list) \<Rightarrow> nat \<Rightarrow> bool" where
  "gba_is_outlier X th P v rid \<longleftrightarrow>
     th < VectorNorm X (fst (residual X P v rid)) (snd (residual X P v rid))"

text \<open>
  One turn of the loop that removes outliers, on a residual block and its observation,
  with the residual looked up by the block instead of by its position in the vector.
\<close>

definition gba_erase ::
  "Extern \<Rightarrow> real \<Rightarrow> Problem \<Rightarrow> (block \<Rightarrow> real list) \<Rightarrow> nat \<times> nat \<times> nat \<times> nat
     \<Rightarrow> MapState \<times> Problem \<times> nat \<Rightarrow> MapState \<times> Problem \<times> nat" where
  "gba_erase X th P v e s =
     (if gba_is_outlier X th P v (fst e)
      then (EraseObservation (fst (snd (snd e))) (fst (snd e))
              (EraseLandmark (fst (snd e)) (snd (snd (snd e))) (fst s)),
            RemoveResidualBlock (fst e) (fst (snd s)), snd (snd s) + 1)
      else s)"

text \<open>
  An observation is erased in a map when the landmark has no observation by the keyframe
  and the keyframe has no landmark at the feature index (a feature index past the end of
  the keyframe's landmark vector has none).
\<close>

definition observation_erased :: "MapState \<Rightarrow> nat \<times> nat \<times> nat \<Rightarrow> bool" where
  "observation_erased M ob \<longleftrightarrow>
     Some (fst ob) \<notin> fst ` set (observations (lm_heap M (fst (snd ob)))) \<and>
     (landmarks (kf_heap M (fst ob)))[snd (snd ob) := None] = landmarks (kf_heap M (fst ob))"

text \<open>What a keyframe step of either round leaves as it is, and what it adds.\<close>

definition kf_step_frame :: "nat \<Rightarrow> gba_acc \<Rightarrow> gba_acc \<Rightarrow> bool" where
  "kf_step_frame a s t \<longleftrightarrow>
     map_core (gmap t) = map_core (gmap s) \<and>
     lm_heap (gmap t) = lm_heap (gmap s) \<and>
     (\<forall>b. landmarks (kf_heap (gmap t) b) = landmarks (kf_heap (gmap s) b)) \<and>
     (\<forall>b. b \<noteq> a \<longrightarrow> kf_heap (gmap t) b = kf_heap (gmap s) b) \<and>
     residual_ids t = residual_ids s \<and> keypoint_ids t = keypoint_ids s \<and>
     not_included_lms t = not_included_lms s \<and>
     set (pblocks (gproblem s)) \<subseteq> set (pblocks (gproblem t)) \<and>
     set (pconstant (gproblem s)) \<subseteq> set (pconstant (gproblem t)) \<and>
     (\<forall>b \<in> set (pblocks (gproblem t)). b \<in> set (pblocks (gproblem s)) \<or>
         (\<exists>c. b = Pose c \<or> b = SpeedBias c \<or> b = Extrinsics c \<or> b = Distortion c \<or>
              b = Intrinsics c)) \<and>
     (\<exists>extra. rblocks (gproblem t) = rblocks (gproblem s) @ extra \<and>
         (\<forall>e \<in> set extra. \<exists>c l bs. snd e = \<lparr>cost = PreintegrationFactor c, loss = l,
              parameter_blocks = bs\<rparr> \<and> (\<forall>p. Position p \<notin> set bs)))"

text \<open>
  After the second round's step for a valid keyframe, its pose array encodes its pose and
  its pose block is in the problem, constant when the keyframe is the anchor.
\<close>

definition kf_ready :: "Extern \<Rightarrow> nat \<Rightarrow> gba_acc \<Rightarrow> bool" where
  "kf_ready X a s \<longleftrightarrow>
     ceres_pose (kf_heap (gmap s) a) = State2Ceres X (PoseTws (kf_heap (gmap s) a)) \<and>
     Pose a \<in> set (pblocks (gproblem s)) \<and>
     (fst (kf_id (kf_heap (gmap s) a)) = 0 \<and>
      snd (kf_id (kf_heap (gmap s) a)) = id_map (gmap s)
        \<longrightarrow> Pose a \<in> set (pconstant (gproblem s)))"

text \<open>What a step for landmark \<open>l\<close> leaves as it is, and what it adds.\<close>

definition lm_step_frame :: "nat \<Rightarrow> gba_acc \<Rightarrow> gba_acc \<Rightarrow> bool" where
  "lm_step_frame l s t \<longleftrightarrow>
     map_core (gmap t) = map_core (gmap s) \<and>
     kf_heap (gmap t) = kf_heap (gmap s) \<and>
     (\<forall>l'. observations (lm_heap (gmap t) l') = observations (lm_heap (gmap s) l')) \<and>
     (\<forall>l'. l' \<noteq> l \<longrightarrow> lm_heap (gmap t) l' = lm_heap (gmap s) l') \<and>
     intrinsics_map t = intrinsics_map s \<and> distortion_map t = distortion_map s \<and>
     pconstant (gproblem t) = pconstant (gproblem s) \<and>
     set (pblocks (gproblem s)) \<subseteq> set (pblocks (gproblem t)) \<and>
     (\<forall>b \<in> set (pblocks (gproblem t)). b \<in> set (pblocks (gproblem s)) \<or> b = Position l \<or>
         (\<exists>c. b = Pose c \<or> b = Extrinsics c \<or> b = Intrinsics c \<or> b = Distortion c)) \<and>
     (\<exists>extra. rblocks (gproblem t) = rblocks (gproblem s) @ extra \<and>
         (\<forall>e \<in> set extra. \<forall>p. Position p \<in> set (parameter_blocks (snd e)) \<longrightarrow> p = l)) \<and>
     length (not_included_lms t) = length (not_included_lms s) \<and>
     (\<forall>j. not_included_lms s ! j \<longrightarrow> not_included_lms t ! j)"

subsection \<open>Pose-graph optimization\<close>

text \<open>
  The residual block of a loop edge of the 4-DoF variant: the weighted error of the loop's
  translation and relative yaw with weight 1, under the Huber loss, on the yaw and the
  translation of the two keyframes.
\<close>

definition pgo4_loop_edge :: "LoopConstraint \<Rightarrow> ResidualBlock \<Rightarrow> bool" where
  "pgo4_loop_edge i rb \<longleftrightarrow>
     (case cost rb of
        FourDOFWeightError t y eu w \<Rightarrow>
          t = translation_of (T_s1_s2 i) \<and> y = relative_yaw_smatch_squery i \<and> w = 1
      | _ \<Rightarrow> False) \<and>
     loss rb = HuberLoss (1 / 10) \<and>
     parameter_blocks rb = [Yaw (kf1 i), Trans (kf1 i), Yaw (kf2 i), Trans (kf2 i)]"

definition is_weighted :: "ResidualBlock \<Rightarrow> bool" where
  "is_weighted rb = (case cost rb of FourDOFWeightError t y eu w \<Rightarrow> True | _ \<Rightarrow> False)"

text \<open>
  The residual block of a loop edge of the 6-DoF variant: the between error of the loop's
  transform whose square root information is the identity times the weight of the band
  the covariance trace, as the matrix library computes it, falls in, without a loss
  function.
\<close>

definition pgo_loop_edge ::
  "Extern \<Rightarrow> covins_params \<Rightarrow> LoopConstraint \<Rightarrow> ResidualBlock \<Rightarrow> bool" where
  "pgo_loop_edge X cfg i rb \<longleftrightarrow>
     (let w = (if BlockTrace X (cov_mat i) < cov_switch cfg then wt_lp_r1 cfg
               else if BlockTrace X (cov_mat i) < cov_switch2 cfg then wt_lp_r2 cfg
               else wt_lp_r3 cfg)
      in rb = \<lparr>cost = SixDofBetweenError (T_s1_s2 i) w w, loss = NoLoss,
               parameter_blocks =
                 [Pose (kf1 i), Pose (kf2 i), Extrinsics (kf1 i), Extrinsics (kf2 i)]\<rparr>)"

text \<open>
  The residual block of an edge between keyframes of the 6-DoF variant has the two
  keyframe weights of the configuration.
\<close>

definition pgo_kf_edge :: "covins_params \<Rightarrow> ResidualBlock \<Rightarrow> bool" where
  "pgo_kf_edge cfg rb \<longleftrightarrow>
     (case cost rb of
        SixDofBetweenError T wr wt \<Rightarrow> wr = wt_kf_r cfg \<and> wt = wt_kf_t cfg
      | _ \<Rightarrow> False) \<and>
     loss rb = NoLoss"




text \<open>
  A step that only adds edges: the map, the stored quaternions and the constant blocks
  stay, parameter blocks of kind \<open>B\<close> and residual blocks of kind \<open>K\<close> are added.
\<close>

definition pgo_grows ::
  "(block \<Rightarrow> bool) \<Rightarrow> (ResidualBlock \<Rightarrow> bool) \<Rightarrow> pgo_acc \<Rightarrow> pgo_acc \<Rightarrow> bool" where
  "pgo_grows B K s t \<longleftrightarrow>
     pmap t = pmap s \<and> q_ws_map t = q_ws_map s \<and>
     pconstant (pproblem t) = pconstant (pproblem s) \<and>
     set (pblocks (pproblem s)) \<subseteq> set (pblocks (pproblem t)) \<and>
     (\<forall>b \<in> set (pblocks (pproblem t)). b \<in> set (pblocks (pproblem s)) \<or> B b) \<and>
     (\<exists>extra. rblocks (pproblem t) = rblocks (pproblem s) @ extra \<and>
        list_all (\<lambda>e. K (snd e)) extra)"

definition yaw_or_trans :: "block \<Rightarrow> bool" where
  "yaw_or_trans b = (case b of Yaw a \<Rightarrow> True | Trans a \<Rightarrow> True | _ \<Rightarrow> False)"

definition pose_or_extrinsics :: "block \<Rightarrow> bool" where
  "pose_or_extrinsics b = (case b of Pose a \<Rightarrow> True | Extrinsics a \<Rightarrow> True | _ \<Rightarrow> False)"




subsection \<open>Local bundle adjustment\<close>

text \<open>
  A between factor, and the residual block of the between factor from keyframe \<open>k1\<close> to
  keyframe \<open>k2\<close>: the between error of their relative pose, with the fixed square root
  information, under the Cauchy loss, on the local poses and the extrinsics of the two.
\<close>

definition is_between :: "ResidualBlock \<Rightarrow> bool" where
  "is_between rb = (case cost rb of SixDofBetweenError T wr wt \<Rightarrow> True | _ \<Rightarrow> False)"

definition lba_between_block :: "Extern \<Rightarrow> MapState \<Rightarrow> nat \<Rightarrow> nat \<Rightarrow> ResidualBlock" where
  "lba_between_block X M k1 k2 =
     \<lparr>cost = SixDofBetweenError
               (Tmul X (Tinv X (PoseTws (kf_heap M k1))) (PoseTws (kf_heap M k2))) 100 10000,
      loss = CauchyLoss 1,
      parameter_blocks = [PoseLocal k1, PoseLocal k2, Extrinsics k1, Extrinsics k2]\<rparr>"

text \<open>The between factors of a problem, in the order they were added.\<close>

definition between_factors :: "Problem \<Rightarrow> ResidualBlock list" where
  "between_factors P = filter is_between (map snd (rblocks P))"

text \<open>
  While the keyframes and the landmarks are added, the poses are those of the map at the
  start and the problem has no between factor.
\<close>

definition lba_inv :: "MapState \<Rightarrow> lba_acc \<Rightarrow> bool" where
  "lba_inv M s \<longleftrightarrow> map_core (lmap s) = map_core M \<and> between_factors (lproblem s) = []"

section \<open>Concrete instances\<close>

text \<open>
  A world without rotation: a pose is a translation, its quaternion is the identity, and
  the collaborators' functions are the ones of that world. The solver adds one to every
  value it may write, and the residual of block \<open>r\<close> is \<open>(r, 0)\<close>.
\<close>

definition ex_camera :: Camera where
  "ex_camera = \<lparr>cam_addr = 0, getType = kPinhole, getDistortionType = kRadTan\<rparr>"

definition ex_pose :: "real \<Rightarrow> real \<Rightarrow> real \<Rightarrow> TransformType" where
  "ex_pose x y z = [1, 0, 0, x, 0, 1, 0, y, 0, 0, 1, z, 0, 0, 0, 1]"

definition ex_kf :: "idpair \<Rightarrow> Keyframe" where
  "ex_kf i = \<lparr>kf_id = i, kf_IsInvalid = False, PoseTws = ex_pose 0 0 0,
     StateVelBias = [], ceres_pose = [], ceres_velocity_and_bias = [], ceres_pose_local = [],
     camera = ex_camera, Predecessor = None, Successor = None, is_loaded = False,
     is_gba_optimized = False, NumMeasurements = 1, landmarks = []\<rparr>"

definition ex_lm :: "(nat option \<times> nat) list \<Rightarrow> Landmark" where
  "ex_lm obs = \<lparr>lm_IsInvalid = False, WorldPos = [0, 0, 0], ceres_pos = [],
     observations = obs, ReferenceKeyframe = None, lm_is_gba_optimized = False\<rparr>"

definition ex_X :: Extern where
  "ex_X = \<lparr>State2Ceres = (\<lambda>T. [0, 0, 0, 1, T ! 3, T ! 7, T ! 11]),
     Ceres2Transform = (\<lambda>c. ex_pose (c ! 4) (c ! 5) (c ! 6)),
     R2ypr = (\<lambda>T. [0, 0, 0]),
     Quat2ypr = (\<lambda>q. [0, 0, 0]),
     QuaternionOf = (\<lambda>T. [0, 0, 0, 1]),
     Tinv = (\<lambda>T. ex_pose (- (T ! 3)) (- (T ! 7)) (- (T ! 11))),
     Tmul = (\<lambda>A B. ex_pose (A ! 3 + B ! 3) (A ! 7 + B ! 7) (A ! 11 + B ! 11)),
     Tpoint = (\<lambda>T p. [p ! 0 + T ! 3, p ! 1 + T ! 7, p ! 2 + T ! 11]),
     RotateVelocity = (\<lambda>A B v. v),
     solver = (\<lambda>opts P v b. map (\<lambda>x. x + 1) (v b)),
     residual = (\<lambda>P v r. (real r, 0)),
     VectorNorm = norm2,
     BlockTrace = (\<lambda>C. C ! 3 ! 3 + C ! 4 ! 4 + C ! 5 ! 5)\<rparr>"

definition ex_cfg :: covins_params where
  "ex_cfg = \<lparr>threads_server = 4, th_gba_outlier_global = 7 / 2, th_outlier_align = 2,
     gba_fix_poses_loaded_maps = False, gba_use_map_loop_constraints = True,
     pgo_fix_kfs_after_gba = False, pgo_fix_poses_loaded_maps = False,
     pgo_iteration_limit = 100, wt_kf_r = 100, wt_kf_t = 10000,
     wt_lp_r1 = 1 / 2, wt_lp_r2 = 1 / 8, wt_lp_r3 = 1 / 64, wt_lp_t1 = 1,
     cov_switch = 1 / 4, cov_switch2 = 1 / 2\<rparr>"

text \<open>
  Two keyframes. The first has landmarks 0 and 1 at features 1 and 2; \<^verbatim>\<open>matches1\<close> is
  \<open>[None, Some 2, Some 3]\<close>, and landmarks 2 and 3 are observed by the second keyframe.
\<close>

definition ex_orp_map :: MapState where
  "ex_orp_map = \<lparr>id_map = 0, KeyframesVec = [0, 1], LandmarksVec = [0, 1, 2, 3],
     LoopConstraints = [],
     kf_heap = (\<lambda>a. if a = 0 then (ex_kf (0, 0))\<lparr>landmarks := [None, Some 0, Some 1]\<rparr>
                    else ex_kf (a, 0)),
     lm_heap = (\<lambda>a. if a = 2 then ex_lm [(Some 1, 0)] else if a = 3 then ex_lm [(Some 1, 1)]
                    else ex_lm [(Some 0, a + 1)])\<rparr>"





text \<open>
  A map of three keyframes in a chain and three landmarks: landmark 0 is observed by all
  keyframes, landmark 1 by the first two, landmark 2 by the last only. A loop constraint
  ties the first keyframe to the last.
\<close>

definition ex_cov :: "real \<Rightarrow> real list list" where
  "ex_cov c = [[0, 0, 0, 0, 0, 0], [0, 0, 0, 0, 0, 0], [0, 0, 0, 0, 0, 0],
              [0, 0, 0, c, 0, 0], [0, 0, 0, 0, c, 0], [0, 0, 0, 0, 0, c]]"

definition ex_loop :: "real \<Rightarrow> LoopConstraint" where
  "ex_loop c = \<lparr>kf1 = 0, kf2 = 2, T_s1_s2 = ex_pose 2 0 0, cov_mat = ex_cov c,
                relative_yaw_smatch_squery = 0\<rparr>"

definition ex_gba_kf :: "nat \<Rightarrow> Keyframe" where
  "ex_gba_kf a = (ex_kf (a, 0))
     \<lparr>PoseTws := ex_pose (real a) 0 0,
      Predecessor := (if a = 0 then None else Some (a - 1)),
      Successor := (if a < 2 then Some (a + 1) else None),
      landmarks := (if a = 2 then [Some 0, Some 2] else [Some 0, Some 1])\<rparr>"

definition ex_gba_lm :: "nat \<Rightarrow> Landmark" where
  "ex_gba_lm l =
     (if l = 0 then (ex_lm [(Some 0, 0), (Some 1, 0), (Some 2, 0)])\<lparr>ReferenceKeyframe := Some 0\<rparr>
      else if l = 1 then (ex_lm [(Some 0, 1), (Some 1, 1)])\<lparr>ReferenceKeyframe := Some 0\<rparr>
      else (ex_lm [(Some 2, 1)])\<lparr>ReferenceKeyframe := Some 2\<rparr>)"

definition ex_gba_map :: MapState where
  "ex_gba_map = \<lparr>id_map = 0, KeyframesVec = [0, 1, 2], LandmarksVec = [0, 1, 2],
     LoopConstraints = [ex_loop (1 / 10)], kf_heap = ex_gba_kf, lm_heap = ex_gba_lm\<rparr>"


text \<open>
  The same map with two loop constraints between the first keyframe and the last, one of
  covariance trace \<open>3 / 64\<close> and one of covariance trace \<open>3\<close>. The entries, the
  switches and the weights of the configuration are doubles, and the sums are exact.
\<close>

definition ex_pgo_map :: MapState where
  "ex_pgo_map = ex_gba_map\<lparr>LoopConstraints := [ex_loop (1 / 64), ex_loop 1]\<rparr>"


text \<open>A local landmark that the first and the third keyframe observe.\<close>

definition ex_llm :: LocalLM where
  "ex_llm = \<lparr>llm_addr = 0, pos_l = [1, 1, 1], lceres_pos = [0, 0, 0],
             lobservations = [(Some 0, 0), (Some 2, 0)]\<rparr>"

section \<open>Proofs\<close>

subsection \<open>Loops, residual vectors and norms\<close>

lemma foldE_append:
  "foldE f (xs @ ys) s = (case foldE f xs s of Inl e \<Rightarrow> Inl e | Inr s' \<Rightarrow> foldE f ys s')"
  by (induction xs arbitrary: s) (auto split: sum.splits)

lemma foldE_invariant:
  assumes "foldE f xs s = Inr s'" and "I s"
    and "\<And>x t t'. x \<in> set xs \<Longrightarrow> I t \<Longrightarrow> f x t = Inr t' \<Longrightarrow> I t'"
  shows "I s'"
  using assms
proof (induction xs arbitrary: s)
  case Nil
  then show ?case by simp
next
  case (Cons a xs)
  from Cons.prems(1) obtain t where t: "f a s = Inr t" and rest: "foldE f xs t = Inr s'"
    by (auto split: sum.splits)
  have "I t" using Cons.prems(3)[of a s t] Cons.prems(2) t by simp
  moreover have "\<And>x u u'. x \<in> set xs \<Longrightarrow> I u \<Longrightarrow> f x u = Inr u' \<Longrightarrow> I u'"
    using Cons.prems(3) by (meson list.set_intros(2))
  ultimately show ?case using Cons.IH[OF rest] by blast
qed

lemma norm2_gt_iff: "th < norm2 x y \<longleftrightarrow> th < 0 \<or> th * th < x * x + y * y"
proof (cases "th < 0")
  case True
  have "0 \<le> norm2 x y" by (simp add: norm2_def)
  with True show ?thesis by simp
next
  case False
  then have "th = sqrt (th * th)" by simp
  then have "th < norm2 x y \<longleftrightarrow> sqrt (th * th) < sqrt (x * x + y * y)" by (simp add: norm2_def)
  with False show ?thesis by (simp only: real_sqrt_less_iff) simp
qed

lemma Evaluate_nth:
  "j < length ids \<Longrightarrow>
     Evaluate X P v ids ! (2 * j) = fst (residual X P v (ids ! j)) \<and>
     Evaluate X P v ids ! (2 * j + 1) = snd (residual X P v (ids ! j))"
proof (induction ids arbitrary: j)
  case Nil
  then show ?case by simp
next
  case (Cons a ids)
  show ?case
  proof (cases j)
    case 0
    then show ?thesis by (simp add: Evaluate_def)
  next
    case (Suc k)
    with Cons.prems have "k < length ids" by simp
    from Cons.IH[OF this] Suc show ?thesis by (simp add: Evaluate_def)
  qed
qed

lemma length_filter_imp:
  "(\<And>x. x \<in> set xs \<Longrightarrow> P x \<Longrightarrow> Q x) \<Longrightarrow> length (filter P xs) \<le> length (filter Q xs)"
  by (induction xs) auto


lemma upt3: "[0..<3] = [0, 1, 2]" by (simp add: upt_rec)


lemma foldE_establish:
  assumes "foldE f xs s = Inr s'" and "I s"
    and "\<And>x t t'. x \<in> set xs \<Longrightarrow> I t \<Longrightarrow> f x t = Inr t' \<Longrightarrow>
           I t' \<and> Q x t' \<and> (\<forall>y. Q y t \<longrightarrow> Q y t')"
  shows "I s' \<and> (\<forall>x \<in> set xs. Q x s') \<and> (\<forall>y. Q y s \<longrightarrow> Q y s')"
  using assms
proof (induction xs arbitrary: s)
  case Nil
  then show ?case by simp
next
  case (Cons a xs)
  from Cons.prems(1) obtain t where t: "f a s = Inr t" and rest: "foldE f xs t = Inr s'"
    by (auto split: sum.splits)
  have st: "I t \<and> Q a t \<and> (\<forall>y. Q y s \<longrightarrow> Q y t)"
    using Cons.prems(3)[of a s t] Cons.prems(2) t by simp
  have step: "\<And>x u u'. x \<in> set xs \<Longrightarrow> I u \<Longrightarrow> f x u = Inr u' \<Longrightarrow>
           I u' \<and> Q x u' \<and> (\<forall>y. Q y u \<longrightarrow> Q y u')"
    using Cons.prems(3) by (meson list.set_intros(2))
  from Cons.IH[OF rest _ step] st
  have "I s' \<and> (\<forall>x \<in> set xs. Q x s') \<and> (\<forall>y. Q y t \<longrightarrow> Q y s')" by blast
  with st show ?case by auto
qed

subsection \<open>Two-view relative pose optimization\<close>








lemma ex_orp_run:
  "OptimizeRelativePose ex_X ex_cfg ex_orp_map 0 1 [None, Some 2, Some 3] (ex_pose 1 2 3) 0 =
     Inr (0, [None, None, Some 3], ex_pose 1 2 3)"
  by (simp add: OptimizeRelativePose_def orp_build_def upt3 orp_add_observation_def
      ex_orp_map_def ex_kf_def ex_lm_def ex_camera_def GetFeatureIndex_def
      reprojection_dispatch_def AddResidualBlock_def AddParameterBlock_def empty_problem_def
      Let_def Evaluate_def norm2_gt_iff ex_X_def ex_cfg_def RemoveResidualBlock_def Solve_def
      pose_array_def orp_solver_options_def default_options_def)


lemma ex_orp_build:
  "orp_build ex_orp_map 0 1 [None, Some 2, Some 3] =
     Inr \<lparr>problem =
            \<lparr>pblocks = [RelPose], pconstant = [],
             rblocks =
               [(0, \<lparr>cost = RelativeEuclideanReprError kPinhole kRadTan 0 1 2 kNormal,
                      loss = CauchyLoss 1, parameter_blocks = [RelPose]\<rparr>),
                (1, \<lparr>cost = RelativeEuclideanReprError kPinhole kRadTan 1 0 0 kInverse,
                      loss = CauchyLoss 1, parameter_blocks = [RelPose]\<rparr>),
                (2, \<lparr>cost = RelativeEuclideanReprError kPinhole kRadTan 0 2 3 kNormal,
                      loss = CauchyLoss 1, parameter_blocks = [RelPose]\<rparr>),
                (3, \<lparr>cost = RelativeEuclideanReprError kPinhole kRadTan 1 1 1 kInverse,
                      loss = CauchyLoss 1, parameter_blocks = [RelPose]\<rparr>)],
             next_id = 4\<rparr>,
          residIdsA = [0, 2], residIdsB = [1, 3], vIndex = [1, 2], numCorrespondences = 2\<rparr>"
  by (simp add: orp_build_def upt3 orp_add_observation_def ex_orp_map_def ex_kf_def ex_lm_def
      ex_camera_def GetFeatureIndex_def reprojection_dispatch_def AddResidualBlock_def
      AddParameterBlock_def empty_problem_def Let_def)






text \<open>
  C10. When the two-view optimization returns 0, the transform it hands back is the one
  it was given.
\<close>

theorem OptimizeRelativePose_zero_keeps_T12:
  assumes "OptimizeRelativePose X cfg M k1 k2 matches1 T12 th2 = Inr (0, matches1', T12')"
  shows "T12' = T12"
  using assms
  by (auto simp: OptimizeRelativePose_def Let_def split: sum.splits prod.splits if_splits)

theorem OptimizeRelativePose_zero_keeps_T12_witness:
  "OptimizeRelativePose ex_X ex_cfg ex_orp_map 0 1 [None, Some 2, Some 3] (ex_pose 1 2 3) 0 =
     Inr (0, [None, None, Some 3], ex_pose 1 2 3) \<and> ex_pose 1 2 3 = ex_pose 1 2 3"
  using OptimizeRelativePose_zero_keeps_T12[OF ex_orp_run] ex_orp_run by blast

text \<open>
  C5. The loop over the residual blocks writes null at the position of the residual block,
  not at the position the correspondence has in \<^verbatim>\<open>matches1\<close>. In the instance the
  correspondences are the entries 1 and 2; the first is an inlier and the second an
  outlier; the call nulls entry 1 and leaves entry 2.
\<close>

theorem OptimizeRelativePose_nulls_residual_position:
  "(case orp_build ex_orp_map 0 1 [None, Some 2, Some 3] of
      Inl e \<Rightarrow> False
    | Inr acc \<Rightarrow>
        vIndex acc = [1, 2] \<and>
        zip (residIdsA acc) (residIdsB acc) = [(0, 1), (2, 3)] \<and>
        \<not> orp_is_outlier ex_X (th_outlier_align ex_cfg) (problem acc)
            (Solve ex_X (orp_solver_options ex_cfg) (problem acc)
               (\<lambda>b. pose_array ex_X (ex_pose 1 2 3))) (0, 1) \<and>
        orp_is_outlier ex_X (th_outlier_align ex_cfg) (problem acc)
            (Solve ex_X (orp_solver_options ex_cfg) (problem acc)
               (\<lambda>b. pose_array ex_X (ex_pose 1 2 3))) (2, 3)) \<and>
   OptimizeRelativePose ex_X ex_cfg ex_orp_map 0 1 [None, Some 2, Some 3] (ex_pose 1 2 3) 0 =
     Inr (0, [None, None, Some 3], ex_pose 1 2 3)"
proof (rule conjI)
  show "OptimizeRelativePose ex_X ex_cfg ex_orp_map 0 1 [None, Some 2, Some 3] (ex_pose 1 2 3) 0 =
     Inr (0, [None, None, Some 3], ex_pose 1 2 3)"
    by (rule ex_orp_run)
qed (simp add: ex_orp_build orp_is_outlier_def norm2_gt_iff ex_X_def ex_cfg_def del: One_nat_def)

subsection \<open>The problem\<close>

lemma AddParameterBlock_simps [simp]:
  "set (pblocks (AddParameterBlock b P)) = insert b (set (pblocks P))"
  "pconstant (AddParameterBlock b P) = pconstant P"
  "rblocks (AddParameterBlock b P) = rblocks P"
  "next_id (AddParameterBlock b P) = next_id P"
  by (auto simp: AddParameterBlock_def)

lemma SetParameterBlockConstant_simps [simp]:
  "pblocks (SetParameterBlockConstant b P) = pblocks P"
  "set (pconstant (SetParameterBlockConstant b P)) = insert b (set (pconstant P))"
  "rblocks (SetParameterBlockConstant b P) = rblocks P"
  "next_id (SetParameterBlockConstant b P) = next_id P"
  by (auto simp: SetParameterBlockConstant_def)

lemma fold_AddParameterBlock_simps [simp]:
  "set (pblocks (fold AddParameterBlock bs P)) = set bs \<union> set (pblocks P)"
  "pconstant (fold AddParameterBlock bs P) = pconstant P"
  "rblocks (fold AddParameterBlock bs P) = rblocks P"
  "next_id (fold AddParameterBlock bs P) = next_id P"
  by (induction bs arbitrary: P) auto

lemma AddResidualBlock_simps [simp]:
  "fst (AddResidualBlock c l bs P) = next_id P"
  "set (pblocks (snd (AddResidualBlock c l bs P))) = set bs \<union> set (pblocks P)"
  "pconstant (snd (AddResidualBlock c l bs P)) = pconstant P"
  "rblocks (snd (AddResidualBlock c l bs P)) =
     rblocks P @ [(next_id P, \<lparr>cost = c, loss = l, parameter_blocks = bs\<rparr>)]"
  "next_id (snd (AddResidualBlock c l bs P)) = Suc (next_id P)"
  by (simp_all add: AddResidualBlock_def Let_def)

lemma RemoveResidualBlock_simps [simp]:
  "pblocks (RemoveResidualBlock r P) = pblocks P"
  "pconstant (RemoveResidualBlock r P) = pconstant P"
  "rblocks (RemoveResidualBlock r P) = filter (\<lambda>e. fst e \<noteq> r) (rblocks P)"
  "next_id (RemoveResidualBlock r P) = next_id P"
  by (simp_all add: RemoveResidualBlock_def)

lemma empty_problem_simps [simp]:
  "pblocks empty_problem = []" "pconstant empty_problem = []"
  "rblocks empty_problem = []" "next_id empty_problem = 0"
  by (simp_all add: empty_problem_def)

lemma ids_ok_simps [simp]:
  "ids_ok empty_problem"
  "ids_ok (AddParameterBlock b P) = ids_ok P"
  "ids_ok (SetParameterBlockConstant b P) = ids_ok P"
  "ids_ok (fold AddParameterBlock bs P) = ids_ok P"
  by (simp_all add: ids_ok_def)

lemma ids_ok_AddResidualBlock [simp]:
  "ids_ok P \<Longrightarrow> ids_ok (snd (AddResidualBlock c l bs P))"
  by (auto simp: ids_ok_def less_Suc_eq)

lemma ids_ok_cong:
  "rblocks P' = rblocks P \<Longrightarrow> next_id P' = next_id P \<Longrightarrow> ids_ok P' = ids_ok P"
  by (simp add: ids_ok_def)

lemma HasParameterBlock_iff [simp]: "HasParameterBlock P b \<longleftrightarrow> b \<in> set (pblocks P)"
  by (simp add: HasParameterBlock_def)

lemma reprojection_dispatch_Inr:
  "reprojection_dispatch c d mk = Inr f \<Longrightarrow> f = mk c d"
  by (auto simp: reprojection_dispatch_def split: CameraType.splits DistortionType.splits)

subsection \<open>The map and its buffers\<close>

lemma update_kf_simps [simp]:
  "kf_heap (update_kf a f M) = (kf_heap M)(a := f (kf_heap M a))"
  "lm_heap (update_kf a f M) = lm_heap M"
  "KeyframesVec (update_kf a f M) = KeyframesVec M"
  "LandmarksVec (update_kf a f M) = LandmarksVec M"
  "LoopConstraints (update_kf a f M) = LoopConstraints M"
  "id_map (update_kf a f M) = id_map M"
  by (simp_all add: update_kf_def)

lemma update_lm_simps [simp]:
  "lm_heap (update_lm l f M) = (lm_heap M)(l := f (lm_heap M l))"
  "kf_heap (update_lm l f M) = kf_heap M"
  "KeyframesVec (update_lm l f M) = KeyframesVec M"
  "LandmarksVec (update_lm l f M) = LandmarksVec M"
  "LoopConstraints (update_lm l f M) = LoopConstraints M"
  "id_map (update_lm l f M) = id_map M"
  by (simp_all add: update_lm_def)

lemma map_core_simps [simp]:
  "kf_heap (map_core M) a = kf_core (kf_heap M a)"
  "lm_heap (map_core M) l = lm_core (lm_heap M l)"
  "KeyframesVec (map_core M) = KeyframesVec M"
  "LandmarksVec (map_core M) = LandmarksVec M"
  "LoopConstraints (map_core M) = LoopConstraints M"
  "id_map (map_core M) = id_map M"
  by (simp_all add: map_core_def)

lemma kf_core_simps [simp]:
  "kf_id (kf_core k) = kf_id k" "kf_IsInvalid (kf_core k) = kf_IsInvalid k"
  "PoseTws (kf_core k) = PoseTws k" "StateVelBias (kf_core k) = StateVelBias k"
  "camera (kf_core k) = camera k" "Predecessor (kf_core k) = Predecessor k"
  "Successor (kf_core k) = Successor k" "is_loaded (kf_core k) = is_loaded k"
  "is_gba_optimized (kf_core k) = is_gba_optimized k"
  "NumMeasurements (kf_core k) = NumMeasurements k"
  by (simp_all add: kf_core_def)

lemma lm_core_simps [simp]:
  "lm_IsInvalid (lm_core m) = lm_IsInvalid m" "WorldPos (lm_core m) = WorldPos m"
  "ReferenceKeyframe (lm_core m) = ReferenceKeyframe m"
  "lm_is_gba_optimized (lm_core m) = lm_is_gba_optimized m"
  by (simp_all add: lm_core_def)

lemma map_core_eqD:
  assumes "map_core M = map_core M'"
  shows "KeyframesVec M = KeyframesVec M'" "LandmarksVec M = LandmarksVec M'"
    "LoopConstraints M = LoopConstraints M'" "id_map M = id_map M'"
    "kf_core (kf_heap M a) = kf_core (kf_heap M' a)"
    "lm_core (lm_heap M l) = lm_core (lm_heap M' l)"
proof -
  show "KeyframesVec M = KeyframesVec M'" using arg_cong[OF assms, of KeyframesVec] by simp
  show "LandmarksVec M = LandmarksVec M'" using arg_cong[OF assms, of LandmarksVec] by simp
  show "LoopConstraints M = LoopConstraints M'" using arg_cong[OF assms, of LoopConstraints] by simp
  show "id_map M = id_map M'" using arg_cong[OF assms, of id_map] by simp
  show "kf_core (kf_heap M a) = kf_core (kf_heap M' a)"
    using arg_cong[OF assms, of "\<lambda>M. kf_heap M a"] by simp
  show "lm_core (lm_heap M l) = lm_core (lm_heap M' l)"
    using arg_cong[OF assms, of "\<lambda>M. lm_heap M l"] by simp
qed

lemma kf_core_eqD:
  assumes "kf_core k = kf_core k'"
  shows "kf_id k = kf_id k'" "kf_IsInvalid k = kf_IsInvalid k'" "PoseTws k = PoseTws k'"
    "StateVelBias k = StateVelBias k'" "camera k = camera k'" "Predecessor k = Predecessor k'"
    "Successor k = Successor k'" "is_loaded k = is_loaded k'"
    "is_gba_optimized k = is_gba_optimized k'" "NumMeasurements k = NumMeasurements k'"
  using arg_cong[OF assms, of kf_id] arg_cong[OF assms, of kf_IsInvalid]
    arg_cong[OF assms, of PoseTws] arg_cong[OF assms, of StateVelBias]
    arg_cong[OF assms, of camera] arg_cong[OF assms, of Predecessor]
    arg_cong[OF assms, of Successor] arg_cong[OF assms, of is_loaded]
    arg_cong[OF assms, of is_gba_optimized] arg_cong[OF assms, of NumMeasurements]
  by simp_all

lemma lm_core_eqD:
  assumes "lm_core m = lm_core m'"
  shows "lm_IsInvalid m = lm_IsInvalid m'" "WorldPos m = WorldPos m'"
    "ReferenceKeyframe m = ReferenceKeyframe m'"
  using arg_cong[OF assms, of lm_IsInvalid] arg_cong[OF assms, of WorldPos]
    arg_cong[OF assms, of ReferenceKeyframe]
  by simp_all

lemma map_core_update_kf:
  "(\<And>k. kf_core (f k) = kf_core k) \<Longrightarrow> map_core (update_kf a f M) = map_core M"
  by (auto simp: map_core_def update_kf_def fun_eq_iff)

lemma map_core_update_lm:
  "(\<And>m. lm_core (f m) = lm_core m) \<Longrightarrow> map_core (update_lm l f M) = map_core M"
  by (auto simp: map_core_def update_lm_def fun_eq_iff)

lemma map_core_store_block [simp]: "map_core (store_block b xs M) = map_core M"
  by (cases b) (simp_all add: store_block_def map_core_update_kf map_core_update_lm
      kf_core_def lm_core_def)

lemma observations_store_block [simp]:
  "observations (lm_heap (store_block b xs M) l) = observations (lm_heap M l)"
  by (cases b) (simp_all add: store_block_def)

lemma landmarks_store_block [simp]:
  "landmarks (kf_heap (store_block b xs M) a) = landmarks (kf_heap M a)"
  by (cases b) (simp_all add: store_block_def)

lemma fold_store_block_frame:
  "map_core (fold (\<lambda>b. store_block b (v b)) bs M) = map_core M \<and>
   (\<forall>l. observations (lm_heap (fold (\<lambda>b. store_block b (v b)) bs M) l) =
        observations (lm_heap M l)) \<and>
   (\<forall>a. landmarks (kf_heap (fold (\<lambda>b. store_block b (v b)) bs M) a) =
        landmarks (kf_heap M a))"
  by (induction bs arbitrary: M) simp_all

lemma SolveMap_frame [simp]:
  "map_core (SolveMap X opts P M) = map_core M"
  "observations (lm_heap (SolveMap X opts P M) l) = observations (lm_heap M l)"
  "landmarks (kf_heap (SolveMap X opts P M) a) = landmarks (kf_heap M a)"
  using fold_store_block_frame by (simp_all add: SolveMap_def Let_def)




subsection \<open>Building the problem of the bundle adjustment\<close>

lemma gba_block_simps [simp]:
  "gba_block (Pose a)" "gba_block (SpeedBias a)" "gba_block (Extrinsics a)"
  "gba_block (Distortion a)" "gba_block (Intrinsics a)" "gba_block (Position a)"
  "\<not> gba_block (Yaw a)" "\<not> gba_block (Trans a)" "\<not> gba_block (PoseLocal a)"
  "\<not> gba_block RelPose"
  by (simp_all add: gba_block_def)

lemma is_reprojection_simps [simp]:
  "\<not> is_reprojection \<lparr>cost = PreintegrationFactor a, loss = l, parameter_blocks = bs\<rparr>"
  "\<not> is_reprojection \<lparr>cost = SixDofBetweenError T x y, loss = l, parameter_blocks = bs\<rparr>"
  "is_reprojection \<lparr>cost = GlobalEuclideanReprError c d k f, loss = l, parameter_blocks = bs\<rparr>"
  by (simp_all add: is_reprojection_def)

lemma map_insert_range:
  assumes "\<And>k b. m k = Some b \<Longrightarrow> Q b" and "Q v" and "map_insert k' v m k = Some b"
  shows "Q b"
  using assms by (auto simp: map_insert_def split: option.splits if_splits)

lemma add_camera_parameters_Inr:
  assumes "add_camera_parameters kf s = Inr t"
  shows "gmap t = gmap s" "residual_ids t = residual_ids s" "keypoint_ids t = keypoint_ids s"
    "not_included_lms t = not_included_lms s"
    "rblocks (gproblem t) = rblocks (gproblem s)"
    "next_id (gproblem t) = next_id (gproblem s)"
    "set (pblocks (gproblem t)) =
       insert (Intrinsics (cam_addr (camera kf)))
         (insert (Distortion (cam_addr (camera kf))) (set (pblocks (gproblem s))))"
    "set (pconstant (gproblem t)) =
       insert (Intrinsics (cam_addr (camera kf)))
         (insert (Distortion (cam_addr (camera kf))) (set (pconstant (gproblem s))))"
    "intrinsics_map t = map_insert (kf_id kf) (Intrinsics (cam_addr (camera kf))) (intrinsics_map s)"
    "distortion_map t = map_insert (kf_id kf) (Distortion (cam_addr (camera kf))) (distortion_map s)"
  using assms
  by (auto simp: add_camera_parameters_def Let_def split: CameraType.splits)

lemma add_camera_parameters_wf:
  assumes "add_camera_parameters kf s = Inr t" and "gba_wf s"
  shows "gba_wf t"
proof -
  note f = add_camera_parameters_Inr[OF assms(1)]
  have "\<And>k b. intrinsics_map t k = Some b \<Longrightarrow> \<exists>c. b = Intrinsics c"
    unfolding f(9) using assms(2) by (rule_tac map_insert_range) (auto simp: gba_wf_def)
  moreover have "\<And>k b. distortion_map t k = Some b \<Longrightarrow> \<exists>c. b = Distortion c"
    unfolding f(10) using assms(2) by (rule_tac map_insert_range) (auto simp: gba_wf_def)
  moreover have "ids_ok (gproblem t) = ids_ok (gproblem s)"
    by (rule ids_ok_cong) (simp_all add: f)
  ultimately show ?thesis
    using assms(2) unfolding gba_wf_def f(1-8) by simp
qed

lemma UpdateCeresFromState_core [simp]: "kf_core (UpdateCeresFromState X k) = kf_core k"
  by (simp add: UpdateCeresFromState_def kf_core_def)

lemma UpdateCeresFromState_fields [simp]:
  "kf_id (UpdateCeresFromState X k) = kf_id k"
  "kf_IsInvalid (UpdateCeresFromState X k) = kf_IsInvalid k"
  "PoseTws (UpdateCeresFromState X k) = PoseTws k"
  "camera (UpdateCeresFromState X k) = camera k"
  "Predecessor (UpdateCeresFromState X k) = Predecessor k"
  "is_loaded (UpdateCeresFromState X k) = is_loaded k"
  "NumMeasurements (UpdateCeresFromState X k) = NumMeasurements k"
  "landmarks (UpdateCeresFromState X k) = landmarks k"
  "ceres_pose (UpdateCeresFromState X k) = State2Ceres X (PoseTws k)"
  by (simp_all add: UpdateCeresFromState_def)

lemma kf_step_frame_refl [simp]: "kf_step_frame a s s"
  by (simp add: kf_step_frame_def)

lemma imu_cases:
  assumes "(if \<not> visual_only then
              (case Predecessor kf of
                 None \<Rightarrow> if fst (kf_id kf) \<noteq> 0 then Inl NoPredecessor else Inr s1
               | Some pred \<Rightarrow>
                   if kf_IsInvalid (kf_heap M1 pred)
                   then (if fst (kf_id kf) \<noteq> 0 then Inl NoPredecessor else Inr s1)
                   else Inr (s1\<lparr>gproblem :=
                          snd (AddResidualBlock (PreintegrationFactor a) NoLoss
                                 [Pose pred, SpeedBias pred, Pose a, SpeedBias a]
                                 (gproblem s1))\<rparr>))
            else Inr s1) = Inr t"
  shows "t = s1 \<or> (\<exists>pred. \<not> visual_only \<and> Predecessor kf = Some pred \<and>
            \<not> kf_IsInvalid (kf_heap M1 pred) \<and>
            t = s1\<lparr>gproblem :=
                snd (AddResidualBlock (PreintegrationFactor a) NoLoss
                       [Pose pred, SpeedBias pred, Pose a, SpeedBias a] (gproblem s1))\<rparr>)"
  using assms by (auto split: if_splits option.splits)

lemma kf_step_frame_imu:
  assumes "kf_step_frame a s s1"
  shows "kf_step_frame a s (s1\<lparr>gproblem :=
                snd (AddResidualBlock (PreintegrationFactor a) NoLoss
                       [Pose pred, SpeedBias pred, Pose a, SpeedBias a] (gproblem s1))\<rparr>)"
  using assms unfolding kf_step_frame_def by auto

lemma kf_step_frame_blocks:
  assumes cam: "add_camera_parameters kf (s\<lparr>gmap := update_kf a (UpdateCeresFromState X) (gmap s),
                   gproblem := P4\<rparr>) = Inr s1"
    and P4: "set (pblocks P4) \<subseteq> insert (Pose a) (insert (SpeedBias a) (insert (Extrinsics a)
               (set (pblocks (gproblem s)))))"
      "set (pblocks (gproblem s)) \<subseteq> set (pblocks P4)"
      "set (pconstant (gproblem s)) \<subseteq> set (pconstant P4)"
      "rblocks P4 = rblocks (gproblem s)"
  shows "kf_step_frame a s s1"
proof -
  note f = add_camera_parameters_Inr[OF cam]
  have core: "map_core (update_kf a (UpdateCeresFromState X) (gmap s)) = map_core (gmap s)"
    by (rule map_core_update_kf) simp
  show ?thesis
    unfolding kf_step_frame_def f using P4 core by auto
qed

lemma gba1_add_keyframe_frame:
  assumes "gba1_add_keyframe X visual_only a s = Inr t"
  shows "kf_step_frame a s t"
proof (cases "kf_IsInvalid (kf_heap (gmap s) a)")
  case True
  with assms show ?thesis by (simp add: gba1_add_keyframe_def)
next
  case False
  let ?M1 = "update_kf a (UpdateCeresFromState X) (gmap s)"
  let ?kf = "kf_heap ?M1 a"
  define P4 where "P4 =
    SetParameterBlockConstant (Extrinsics a) (AddParameterBlock (Extrinsics a)
      (if \<not> visual_only then AddParameterBlock (SpeedBias a)
          (if fst (kf_id ?kf) = 0 \<and> snd (kf_id ?kf) = id_map ?M1
           then SetParameterBlockConstant (Pose a) (AddParameterBlock (Pose a) (gproblem s))
           else AddParameterBlock (Pose a) (gproblem s))
       else (if fst (kf_id ?kf) = 0 \<and> snd (kf_id ?kf) = id_map ?M1
           then SetParameterBlockConstant (Pose a) (AddParameterBlock (Pose a) (gproblem s))
           else AddParameterBlock (Pose a) (gproblem s))))"
  have P4: "set (pblocks P4) \<subseteq> insert (Pose a) (insert (SpeedBias a) (insert (Extrinsics a)
               (set (pblocks (gproblem s)))))"
      "set (pblocks (gproblem s)) \<subseteq> set (pblocks P4)"
      "set (pconstant (gproblem s)) \<subseteq> set (pconstant P4)"
      "rblocks P4 = rblocks (gproblem s)"
    by (auto simp: P4_def)
  from assms False obtain s1 where
    cam: "add_camera_parameters ?kf (s\<lparr>gmap := ?M1, gproblem := P4\<rparr>) = Inr s1"
    and rest: "(if \<not> visual_only then
              (case Predecessor ?kf of
                 None \<Rightarrow> if fst (kf_id ?kf) \<noteq> 0 then Inl NoPredecessor else Inr s1
               | Some pred \<Rightarrow>
                   if kf_IsInvalid (kf_heap ?M1 pred)
                   then (if fst (kf_id ?kf) \<noteq> 0 then Inl NoPredecessor else Inr s1)
                   else Inr (s1\<lparr>gproblem :=
                          snd (AddResidualBlock (PreintegrationFactor a) NoLoss
                                 [Pose pred, SpeedBias pred, Pose a, SpeedBias a]
                                 (gproblem s1))\<rparr>))
            else Inr s1) = Inr t"
    unfolding gba1_add_keyframe_def Let_def P4_def by (simp split: sum.splits if_splits)
  have "kf_step_frame a s s1" using kf_step_frame_blocks[OF _ P4] cam by simp
  with imu_cases[OF rest] show ?thesis by (auto intro: kf_step_frame_imu)
qed

lemma imu2_cases:
  assumes "(if \<not> visual_only then
              (case Predecessor kf of
                 None \<Rightarrow> if fst (kf_id kf) \<noteq> 0 then Inl NoPredecessor else Inr s1
               | Some pred \<Rightarrow>
                   if kf_IsInvalid (kf_heap M1 pred)
                   then (if fst (kf_id kf) \<noteq> 0 then Inl NoPredecessor else Inr s1)
                   else if NumMeasurements kf = 0 then Inr s1
                   else if \<not> HasParameterBlock (gproblem s1) (Pose pred) then
                     Inl ParameterBlockMissing
                   else if \<not> HasParameterBlock (gproblem s1) (Pose a) then
                     Inl ParameterBlockMissing
                   else if \<not> HasParameterBlock (gproblem s1) (SpeedBias pred) then
                     Inl ParameterBlockMissing
                   else if \<not> HasParameterBlock (gproblem s1) (SpeedBias a) then
                     Inl ParameterBlockMissing
                   else Inr (s1\<lparr>gproblem :=
                          snd (AddResidualBlock (PreintegrationFactor a) NoLoss
                                 [Pose pred, SpeedBias pred, Pose a, SpeedBias a]
                                 (gproblem s1))\<rparr>))
            else Inr s1) = Inr t"
  shows "t = s1 \<or> (\<exists>pred. \<not> visual_only \<and> Predecessor kf = Some pred \<and>
            \<not> kf_IsInvalid (kf_heap M1 pred) \<and> NumMeasurements kf \<noteq> 0 \<and>
            {Pose pred, SpeedBias pred, Pose a, SpeedBias a} \<subseteq> set (pblocks (gproblem s1)) \<and>
            t = s1\<lparr>gproblem :=
                snd (AddResidualBlock (PreintegrationFactor a) NoLoss
                       [Pose pred, SpeedBias pred, Pose a, SpeedBias a] (gproblem s1))\<rparr>)"
  using assms by (auto split: if_splits option.splits)

lemma kf_ready_frame:
  assumes "kf_step_frame a s t" and "kf_ready X b s" and "b \<noteq> a"
  shows "kf_ready X b t"
  using assms map_core_eqD(4)[of "gmap t" "gmap s"]
  unfolding kf_step_frame_def kf_ready_def by auto

lemma gba2_add_keyframe_facts:
  assumes "gba2_add_keyframe X cfg visual_only a s = Inr t"
  shows "kf_step_frame a s t"
    and "\<not> kf_IsInvalid (kf_heap (gmap s) a) \<Longrightarrow> kf_ready X a t"
    and "kf_IsInvalid (kf_heap (gmap s) a) \<Longrightarrow> t = s"
proof -
  show inv: "kf_IsInvalid (kf_heap (gmap s) a) \<Longrightarrow> t = s"
    using assms by (simp add: gba2_add_keyframe_def)
  have "kf_step_frame a s t \<and> (\<not> kf_IsInvalid (kf_heap (gmap s) a) \<longrightarrow> kf_ready X a t)"
  proof (cases "kf_IsInvalid (kf_heap (gmap s) a)")
    case True
    with inv show ?thesis by simp
  next
    case False
    let ?M1 = "update_kf a (UpdateCeresFromState X) (gmap s)"
    let ?kf = "kf_heap ?M1 a"
    let ?P2 = "if fst (kf_id ?kf) = 0 \<and> snd (kf_id ?kf) = id_map ?M1
           then SetParameterBlockConstant (Pose a) (AddParameterBlock (Pose a) (gproblem s))
           else AddParameterBlock (Pose a) (gproblem s)"
    let ?P4 = "SetParameterBlockConstant (Extrinsics a) (AddParameterBlock (Extrinsics a)
      (if \<not> visual_only then AddParameterBlock (SpeedBias a) ?P2 else ?P2))"
    define P5 where "P5 =
      (if is_loaded ?kf \<and> gba_fix_poses_loaded_maps cfg
       then SetParameterBlockConstant (Pose a) ?P4 else ?P4)"
    have P5: "set (pblocks P5) \<subseteq> insert (Pose a) (insert (SpeedBias a) (insert (Extrinsics a)
                 (set (pblocks (gproblem s)))))"
        "set (pblocks (gproblem s)) \<subseteq> set (pblocks P5)"
        "set (pconstant (gproblem s)) \<subseteq> set (pconstant P5)"
        "rblocks P5 = rblocks (gproblem s)"
      by (auto simp: P5_def)
    have P5a: "Pose a \<in> set (pblocks P5)"
      "fst (kf_id (kf_heap (gmap s) a)) = 0 \<and> snd (kf_id (kf_heap (gmap s) a)) = id_map (gmap s)
         \<Longrightarrow> Pose a \<in> set (pconstant P5)"
      by (auto simp: P5_def)
    from assms False obtain s1 where
      cam: "add_camera_parameters ?kf (s\<lparr>gmap := ?M1, gproblem := P5\<rparr>) = Inr s1"
      and rest: "(if \<not> visual_only then
              (case Predecessor ?kf of
                 None \<Rightarrow> if fst (kf_id ?kf) \<noteq> 0 then Inl NoPredecessor else Inr s1
               | Some pred \<Rightarrow>
                   if kf_IsInvalid (kf_heap ?M1 pred)
                   then (if fst (kf_id ?kf) \<noteq> 0 then Inl NoPredecessor else Inr s1)
                   else if NumMeasurements ?kf = 0 then Inr s1
                   else if \<not> HasParameterBlock (gproblem s1) (Pose pred) then
                     Inl ParameterBlockMissing
                   else if \<not> HasParameterBlock (gproblem s1) (Pose a) then
                     Inl ParameterBlockMissing
                   else if \<not> HasParameterBlock (gproblem s1) (SpeedBias pred) then
                     Inl ParameterBlockMissing
                   else if \<not> HasParameterBlock (gproblem s1) (SpeedBias a) then
                     Inl ParameterBlockMissing
                   else Inr (s1\<lparr>gproblem :=
                          snd (AddResidualBlock (PreintegrationFactor a) NoLoss
                                 [Pose pred, SpeedBias pred, Pose a, SpeedBias a]
                                 (gproblem s1))\<rparr>))
            else Inr s1) = Inr t"
      unfolding gba2_add_keyframe_def Let_def P5_def by (simp split: sum.splits if_splits)
    note f = add_camera_parameters_Inr[OF cam]
    have fr: "kf_step_frame a s s1" using kf_step_frame_blocks[OF _ P5] cam by simp
    have rd: "kf_ready X a s1"
      unfolding kf_ready_def f using P5a by simp
    from imu2_cases[OF rest] show ?thesis
    proof
      assume "t = s1"
      with fr rd show ?thesis by simp
    next
      assume "\<exists>pred. \<not> visual_only \<and> Predecessor ?kf = Some pred \<and>
            \<not> kf_IsInvalid (kf_heap ?M1 pred) \<and> NumMeasurements ?kf \<noteq> 0 \<and>
            {Pose pred, SpeedBias pred, Pose a, SpeedBias a} \<subseteq> set (pblocks (gproblem s1)) \<and>
            t = s1\<lparr>gproblem :=
                snd (AddResidualBlock (PreintegrationFactor a) NoLoss
                       [Pose pred, SpeedBias pred, Pose a, SpeedBias a] (gproblem s1))\<rparr>"
      then obtain pred where t: "t = s1\<lparr>gproblem :=
                snd (AddResidualBlock (PreintegrationFactor a) NoLoss
                       [Pose pred, SpeedBias pred, Pose a, SpeedBias a] (gproblem s1))\<rparr>"
        by blast
      have "kf_ready X a t" using rd unfolding t kf_ready_def by simp
      with kf_step_frame_imu[OF fr, of pred] t show ?thesis by simp
    qed
  qed
  then show "kf_step_frame a s t" and "\<not> kf_IsInvalid (kf_heap (gmap s) a) \<Longrightarrow> kf_ready X a t"
    by simp_all
qed

lemma gba_wf_kf_blocks:
  assumes "gba_wf s"
    and "set (pblocks P4) \<subseteq> insert (Pose a) (insert (SpeedBias a) (insert (Extrinsics a)
               (set (pblocks (gproblem s)))))"
    and "rblocks P4 = rblocks (gproblem s)"
    and "next_id P4 = next_id (gproblem s)"
  shows "gba_wf (s\<lparr>gmap := update_kf a f (gmap s), gproblem := P4\<rparr>)"
proof -
  have "\<forall>b \<in> set (pblocks P4). gba_block b"
    using assms(1,2) unfolding gba_wf_def by auto
  moreover have "ids_ok P4 = ids_ok (gproblem s)"
    by (rule ids_ok_cong) (simp_all add: assms(3,4))
  ultimately show ?thesis
    using assms(1,3) unfolding gba_wf_def by simp
qed

lemma gba_wf_imu:
  assumes "gba_wf s"
  shows "gba_wf (s\<lparr>gproblem :=
                snd (AddResidualBlock (PreintegrationFactor a) NoLoss
                       [Pose pred, SpeedBias pred, Pose a, SpeedBias a] (gproblem s))\<rparr>)"
  using assms unfolding gba_wf_def by (auto simp: is_reprojection_def)

lemma gba1_add_keyframe_wf:
  assumes "gba1_add_keyframe X visual_only a s = Inr t" and "gba_wf s"
  shows "gba_wf t"
proof (cases "kf_IsInvalid (kf_heap (gmap s) a)")
  case True
  with assms show ?thesis by (simp add: gba1_add_keyframe_def)
next
  case False
  let ?M1 = "update_kf a (UpdateCeresFromState X) (gmap s)"
  let ?kf = "kf_heap ?M1 a"
  define P4 where "P4 =
    SetParameterBlockConstant (Extrinsics a) (AddParameterBlock (Extrinsics a)
      (if \<not> visual_only then AddParameterBlock (SpeedBias a)
          (if fst (kf_id ?kf) = 0 \<and> snd (kf_id ?kf) = id_map ?M1
           then SetParameterBlockConstant (Pose a) (AddParameterBlock (Pose a) (gproblem s))
           else AddParameterBlock (Pose a) (gproblem s))
       else (if fst (kf_id ?kf) = 0 \<and> snd (kf_id ?kf) = id_map ?M1
           then SetParameterBlockConstant (Pose a) (AddParameterBlock (Pose a) (gproblem s))
           else AddParameterBlock (Pose a) (gproblem s))))"
  have P4: "set (pblocks P4) \<subseteq> insert (Pose a) (insert (SpeedBias a) (insert (Extrinsics a)
               (set (pblocks (gproblem s)))))"
      "rblocks P4 = rblocks (gproblem s)" "next_id P4 = next_id (gproblem s)"
    by (auto simp: P4_def)
  from assms False obtain s1 where
    cam: "add_camera_parameters ?kf (s\<lparr>gmap := ?M1, gproblem := P4\<rparr>) = Inr s1"
    and rest: "(if \<not> visual_only then
              (case Predecessor ?kf of
                 None \<Rightarrow> if fst (kf_id ?kf) \<noteq> 0 then Inl NoPredecessor else Inr s1
               | Some pred \<Rightarrow>
                   if kf_IsInvalid (kf_heap ?M1 pred)
                   then (if fst (kf_id ?kf) \<noteq> 0 then Inl NoPredecessor else Inr s1)
                   else Inr (s1\<lparr>gproblem :=
                          snd (AddResidualBlock (PreintegrationFactor a) NoLoss
                                 [Pose pred, SpeedBias pred, Pose a, SpeedBias a]
                                 (gproblem s1))\<rparr>))
            else Inr s1) = Inr t"
    unfolding gba1_add_keyframe_def Let_def P4_def by (simp split: sum.splits if_splits)
  have "gba_wf s1"
    by (rule add_camera_parameters_wf[OF cam]) (rule gba_wf_kf_blocks[OF assms(2) P4])
  with imu_cases[OF rest] show ?thesis by (auto intro: gba_wf_imu)
qed

lemma gba2_add_keyframe_wf:
  assumes "gba2_add_keyframe X cfg visual_only a s = Inr t" and "gba_wf s"
  shows "gba_wf t"
proof (cases "kf_IsInvalid (kf_heap (gmap s) a)")
  case True
  with assms show ?thesis by (simp add: gba2_add_keyframe_def)
next
  case False
  let ?M1 = "update_kf a (UpdateCeresFromState X) (gmap s)"
  let ?kf = "kf_heap ?M1 a"
  let ?P2 = "if fst (kf_id ?kf) = 0 \<and> snd (kf_id ?kf) = id_map ?M1
         then SetParameterBlockConstant (Pose a) (AddParameterBlock (Pose a) (gproblem s))
         else AddParameterBlock (Pose a) (gproblem s)"
  let ?P4 = "SetParameterBlockConstant (Extrinsics a) (AddParameterBlock (Extrinsics a)
    (if \<not> visual_only then AddParameterBlock (SpeedBias a) ?P2 else ?P2))"
  define P5 where "P5 =
    (if is_loaded ?kf \<and> gba_fix_poses_loaded_maps cfg
     then SetParameterBlockConstant (Pose a) ?P4 else ?P4)"
  have P5: "set (pblocks P5) \<subseteq> insert (Pose a) (insert (SpeedBias a) (insert (Extrinsics a)
               (set (pblocks (gproblem s)))))"
      "rblocks P5 = rblocks (gproblem s)" "next_id P5 = next_id (gproblem s)"
    by (auto simp: P5_def)
  from assms False obtain s1 where
    cam: "add_camera_parameters ?kf (s\<lparr>gmap := ?M1, gproblem := P5\<rparr>) = Inr s1"
    and rest: "(if \<not> visual_only then
            (case Predecessor ?kf of
               None \<Rightarrow> if fst (kf_id ?kf) \<noteq> 0 then Inl NoPredecessor else Inr s1
             | Some pred \<Rightarrow>
                 if kf_IsInvalid (kf_heap ?M1 pred)
                 then (if fst (kf_id ?kf) \<noteq> 0 then Inl NoPredecessor else Inr s1)
                 else if NumMeasurements ?kf = 0 then Inr s1
                 else if \<not> HasParameterBlock (gproblem s1) (Pose pred) then
                   Inl ParameterBlockMissing
                 else if \<not> HasParameterBlock (gproblem s1) (Pose a) then
                   Inl ParameterBlockMissing
                 else if \<not> HasParameterBlock (gproblem s1) (SpeedBias pred) then
                   Inl ParameterBlockMissing
                 else if \<not> HasParameterBlock (gproblem s1) (SpeedBias a) then
                   Inl ParameterBlockMissing
                 else Inr (s1\<lparr>gproblem :=
                        snd (AddResidualBlock (PreintegrationFactor a) NoLoss
                               [Pose pred, SpeedBias pred, Pose a, SpeedBias a]
                               (gproblem s1))\<rparr>))
          else Inr s1) = Inr t"
    unfolding gba2_add_keyframe_def Let_def P5_def by (simp split: sum.splits if_splits)
  have "gba_wf s1"
    by (rule add_camera_parameters_wf[OF cam]) (rule gba_wf_kf_blocks[OF assms(2) P5])
  with imu2_cases[OF rest] show ?thesis by (auto intro: gba_wf_imu)
qed

subsection \<open>Landmarks\<close>

lemma lm_step_frame_refl [simp]: "lm_step_frame l s s"
  by (simp add: lm_step_frame_def)

lemma lm_step_frame_trans:
  assumes "lm_step_frame l s t" and "lm_step_frame l t u"
  shows "lm_step_frame l s u"
proof -
  from assms obtain e1 e2 where
    e1: "rblocks (gproblem t) = rblocks (gproblem s) @ e1"
      "\<forall>e \<in> set e1. \<forall>p. Position p \<in> set (parameter_blocks (snd e)) \<longrightarrow> p = l"
    and e2: "rblocks (gproblem u) = rblocks (gproblem t) @ e2"
      "\<forall>e \<in> set e2. \<forall>p. Position p \<in> set (parameter_blocks (snd e)) \<longrightarrow> p = l"
    unfolding lm_step_frame_def by blast
  have ex: "\<exists>extra. rblocks (gproblem u) = rblocks (gproblem s) @ extra \<and>
         (\<forall>e \<in> set extra. \<forall>p. Position p \<in> set (parameter_blocks (snd e)) \<longrightarrow> p = l)"
    by (rule exI[of _ "e1 @ e2"]) (use e1 e2 in auto)
  have blocks: "\<forall>b \<in> set (pblocks (gproblem u)). b \<in> set (pblocks (gproblem s)) \<or> b = Position l \<or>
         (\<exists>c. b = Pose c \<or> b = Extrinsics c \<or> b = Intrinsics c \<or> b = Distortion c)"
    using assms unfolding lm_step_frame_def by blast
  show ?thesis
    unfolding lm_step_frame_def
    using assms ex blocks unfolding lm_step_frame_def by auto
qed

lemma AddResidualBlock_eqD:
  "AddResidualBlock c l bs P = (x, Q) \<Longrightarrow> x = next_id P \<and> Q = snd (AddResidualBlock c l bs P)"
  by (metis AddResidualBlock_simps(1) fst_conv snd_conv)

lemma gba_add_observation_cases:
  assumes "gba_add_observation second_round l ob s = Inr t"
  shows "t = s \<or>
         (\<exists>kfx c d bi bd. fst ob = Some kfx \<and>
            intrinsics_map s (kf_id (kf_heap (gmap s) kfx)) = Some bi \<and>
            distortion_map s (kf_id (kf_heap (gmap s) kfx)) = Some bd \<and>
            \<not> kf_IsInvalid (kf_heap (gmap s) kfx) \<and>
            c = getType (camera (kf_heap (gmap s) kfx)) \<and>
            d = getDistortionType (camera (kf_heap (gmap s) kfx)) \<and>
            t = s\<lparr>gproblem := snd (AddResidualBlock (GlobalEuclideanReprError c d kfx (snd ob))
                       (CauchyLoss 1) [Pose kfx, Extrinsics kfx, Position l, bi, bd] (gproblem s)),
                  residual_ids := residual_ids s @ [next_id (gproblem s)],
                  keypoint_ids := keypoint_ids s @ [(kfx, l, snd ob)]\<rparr>)"
proof (cases "fst ob")
  case None
  with assms show ?thesis by (simp add: gba_add_observation_def)
next
  case (Some kfx)
  show ?thesis
  proof (cases "kf_IsInvalid (kf_heap (gmap s) kfx)")
    case True
    with assms Some show ?thesis by (simp add: gba_add_observation_def Let_def)
  next
    case False
    let ?kf = "kf_heap (gmap s) kfx"
    from assms Some False obtain re where
      re: "reprojection_dispatch (getType (camera ?kf)) (getDistortionType (camera ?kf))
             (\<lambda>c d. GlobalEuclideanReprError c d kfx (snd ob)) = Inr re"
      and rest: "(case (intrinsics_map s (kf_id ?kf), distortion_map s (kf_id ?kf)) of
                     (Some bi, Some bd) \<Rightarrow>
                       (let (block_id, P1) =
                              AddResidualBlock re (CauchyLoss 1)
                                [Pose kfx, Extrinsics kfx, Position l, bi, bd] (gproblem s)
                        in Inr (s\<lparr>gproblem := P1,
                                  residual_ids := residual_ids s @ [block_id],
                                  keypoint_ids := keypoint_ids s @ [(kfx, l, snd ob)]\<rparr>))
                   | _ \<Rightarrow> Inl NotInIntrinsicsMap) = Inr t"
      unfolding gba_add_observation_def Let_def by (simp split: sum.splits if_splits)
    from rest obtain bi bd where
      m: "intrinsics_map s (kf_id ?kf) = Some bi" "distortion_map s (kf_id ?kf) = Some bd"
      by (auto split: option.splits)
    from rest m have "t = s\<lparr>gproblem := snd (AddResidualBlock re (CauchyLoss 1)
                       [Pose kfx, Extrinsics kfx, Position l, bi, bd] (gproblem s)),
                  residual_ids := residual_ids s @ [next_id (gproblem s)],
                  keypoint_ids := keypoint_ids s @ [(kfx, l, snd ob)]\<rparr>"
      by (auto simp: Let_def split: prod.splits dest: AddResidualBlock_eqD)
    with reprojection_dispatch_Inr[OF re] m Some False show ?thesis by simp
  qed
qed

lemma gba_add_observation_frame:
  assumes "gba_add_observation second_round l ob s = Inr t" and "gba_wf s"
  shows "lm_step_frame l s t" and "gba_wf t"
proof -
  from gba_add_observation_cases[OF assms(1)]
  have "lm_step_frame l s t \<and> gba_wf t"
  proof
    assume "t = s"
    with assms(2) show ?thesis by simp
  next
    assume "\<exists>kfx c d bi bd. fst ob = Some kfx \<and>
            intrinsics_map s (kf_id (kf_heap (gmap s) kfx)) = Some bi \<and>
            distortion_map s (kf_id (kf_heap (gmap s) kfx)) = Some bd \<and>
            \<not> kf_IsInvalid (kf_heap (gmap s) kfx) \<and>
            c = getType (camera (kf_heap (gmap s) kfx)) \<and>
            d = getDistortionType (camera (kf_heap (gmap s) kfx)) \<and>
            t = s\<lparr>gproblem := snd (AddResidualBlock (GlobalEuclideanReprError c d kfx (snd ob))
                       (CauchyLoss 1) [Pose kfx, Extrinsics kfx, Position l, bi, bd] (gproblem s)),
                  residual_ids := residual_ids s @ [next_id (gproblem s)],
                  keypoint_ids := keypoint_ids s @ [(kfx, l, snd ob)]\<rparr>"
    then obtain kfx c d bi bd where
      m: "intrinsics_map s (kf_id (kf_heap (gmap s) kfx)) = Some bi"
         "distortion_map s (kf_id (kf_heap (gmap s) kfx)) = Some bd"
      and t: "t = s\<lparr>gproblem := snd (AddResidualBlock (GlobalEuclideanReprError c d kfx (snd ob))
                       (CauchyLoss 1) [Pose kfx, Extrinsics kfx, Position l, bi, bd] (gproblem s)),
                  residual_ids := residual_ids s @ [next_id (gproblem s)],
                  keypoint_ids := keypoint_ids s @ [(kfx, l, snd ob)]\<rparr>"
      by blast
    from assms(2) m obtain ci cd where cam: "bi = Intrinsics ci" "bd = Distortion cd"
      unfolding gba_wf_def by blast
    have fr: "lm_step_frame l s t"
      unfolding lm_step_frame_def t by (auto simp: cam)
    have link: "list_all2 (\<lambda>e ob. observes (snd e) ob)
       (filter (\<lambda>e. is_reprojection (snd e)) (rblocks (gproblem t))) (keypoint_ids t)"
    proof -
      have "observes \<lparr>cost = GlobalEuclideanReprError c d kfx (snd ob), loss = CauchyLoss 1,
                parameter_blocks = [Pose kfx, Extrinsics kfx, Position l, bi, bd]\<rparr>
              (kfx, l, snd ob)"
        unfolding observes_def by auto
      then show ?thesis
        using assms(2) unfolding gba_wf_def t by (auto intro: list_all2_appendI)
    qed
    have "gba_wf t"
      unfolding gba_wf_def
    proof (intro conjI)
      show "\<forall>b\<in>set (pblocks (gproblem t)). gba_block b"
        using assms(2) unfolding gba_wf_def t by (auto simp: cam)
      show "\<forall>k b. intrinsics_map t k = Some b \<longrightarrow> (\<exists>c. b = Intrinsics c)"
        using assms(2) unfolding gba_wf_def t by simp
      show "\<forall>k b. distortion_map t k = Some b \<longrightarrow> (\<exists>c. b = Distortion c)"
        using assms(2) unfolding gba_wf_def t by simp
      show "residual_ids t =
        map fst (filter (\<lambda>e. is_reprojection (snd e)) (rblocks (gproblem t)))"
        using assms(2) unfolding gba_wf_def t by simp
      show "length (keypoint_ids t) = length (residual_ids t)"
        using assms(2) unfolding gba_wf_def t by simp
      show "length (not_included_lms t) = length (LandmarksVec (gmap t))"
        using assms(2) unfolding gba_wf_def t by simp
      show "list_all2 (\<lambda>e ob. observes (snd e) ob)
       (filter (\<lambda>e. is_reprojection (snd e)) (rblocks (gproblem t))) (keypoint_ids t)"
        by (rule link)
      show "ids_ok (gproblem t)"
        using assms(2) unfolding gba_wf_def t by simp
    qed
    with fr show ?thesis by simp
  qed
  then show "lm_step_frame l s t" and "gba_wf t" by simp_all
qed

lemma gba_observations_loop:
  assumes "foldE (gba_add_observation second_round l) obs s = Inr t" and "gba_wf s"
  shows "lm_step_frame l s t \<and> gba_wf t"
proof -
  have "lm_step_frame l s s \<and> gba_wf s" using assms(2) by simp
  with assms(1) show ?thesis
  proof (rule foldE_invariant[where I = "\<lambda>u. lm_step_frame l s u \<and> gba_wf u"])
    fix x u u'
    assume "lm_step_frame l s u \<and> gba_wf u"
      and "gba_add_observation second_round l x u = Inr u'"
    then show "lm_step_frame l s u' \<and> gba_wf u'"
      using gba_add_observation_frame[of second_round l x u u']
      by (blast intro: lm_step_frame_trans)
  qed
qed

lemma valid_observation_core:
  assumes "map_core M = map_core M'"
  shows "valid_observation M = valid_observation M'"
proof
  fix ob
  show "valid_observation M ob = valid_observation M' ob"
    using kf_core_eqD(2)[OF map_core_eqD(5)[OF assms]]
    by (simp add: valid_observation_def split: option.splits)
qed

lemma few_observations_eq:
  assumes "map_core M = map_core M'"
    and "observations (lm_heap M l) = observations (lm_heap M' l)"
  shows "few_observations M l = few_observations M' l"
  using assms valid_observation_core[OF assms(1)] by (simp add: few_observations_def)

lemma gba_add_landmark_cases:
  assumes "gba_add_landmark second_round i s = Inr t"
  shows "(lm_IsInvalid (lm_heap (gmap s) (LandmarksVec (gmap s) ! i)) \<and> t = s) \<or>
         (\<not> lm_IsInvalid (lm_heap (gmap s) (LandmarksVec (gmap s) ! i)) \<and>
          few_observations (gmap s) (LandmarksVec (gmap s) ! i) \<and>
          t = s\<lparr>not_included_lms := (not_included_lms s)[i := True]\<rparr>) \<or>
         (\<not> lm_IsInvalid (lm_heap (gmap s) (LandmarksVec (gmap s) ! i)) \<and>
          \<not> few_observations (gmap s) (LandmarksVec (gmap s) ! i) \<and>
          foldE (gba_add_observation second_round (LandmarksVec (gmap s) ! i))
            (observations (lm_heap (gmap s) (LandmarksVec (gmap s) ! i)))
            (s\<lparr>gmap := update_lm (LandmarksVec (gmap s) ! i) (\<lambda>m. m\<lparr>ceres_pos := WorldPos m\<rparr>) (gmap s),
               gproblem := AddParameterBlock (Position (LandmarksVec (gmap s) ! i)) (gproblem s)\<rparr>)
            = Inr t)"
proof -
  let ?l = "LandmarksVec (gmap s) ! i"
  let ?obs = "observations (lm_heap (gmap s) ?l)"
  have le: "length ?obs < 2 \<Longrightarrow> length (filter (valid_observation (gmap s)) ?obs) < 2"
    using length_filter_le[of "valid_observation (gmap s)" ?obs] by linarith
  show ?thesis
    using assms le unfolding gba_add_landmark_def Let_def few_observations_def
    by (auto split: if_splits)
qed

lemma lm_step_frame_flag:
  "lm_step_frame l s (s\<lparr>not_included_lms := (not_included_lms s)[i := True]\<rparr>)"
  unfolding lm_step_frame_def
  by (cases "i < length (not_included_lms s)")
     (auto simp: nth_list_update list_update_beyond not_less)

lemma gba_wf_flag:
  "gba_wf s \<Longrightarrow> gba_wf (s\<lparr>not_included_lms := (not_included_lms s)[i := True]\<rparr>)"
  unfolding gba_wf_def by simp

lemma lm_step_frame_start:
  "lm_step_frame l s
     (s\<lparr>gmap := update_lm l (\<lambda>m. m\<lparr>ceres_pos := WorldPos m\<rparr>) (gmap s),
        gproblem := AddParameterBlock (Position l) (gproblem s)\<rparr>)"
proof -
  have "map_core (update_lm l (\<lambda>m. m\<lparr>ceres_pos := WorldPos m\<rparr>) (gmap s)) = map_core (gmap s)"
    by (rule map_core_update_lm) (simp add: lm_core_def)
  then show ?thesis unfolding lm_step_frame_def by auto
qed

lemma gba_wf_start:
  "gba_wf s \<Longrightarrow>
   gba_wf (s\<lparr>gmap := update_lm l (\<lambda>m. m\<lparr>ceres_pos := WorldPos m\<rparr>) (gmap s),
        gproblem := AddParameterBlock (Position l) (gproblem s)\<rparr>)"
  unfolding gba_wf_def by simp

lemma gba_add_landmark_frame:
  assumes "gba_add_landmark second_round i s = Inr t" and "gba_wf s"
  shows "lm_step_frame (LandmarksVec (gmap s) ! i) s t" and "gba_wf t"
proof -
  let ?l = "LandmarksVec (gmap s) ! i"
  let ?s0 = "s\<lparr>gmap := update_lm ?l (\<lambda>m. m\<lparr>ceres_pos := WorldPos m\<rparr>) (gmap s),
               gproblem := AddParameterBlock (Position ?l) (gproblem s)\<rparr>"
  from gba_add_landmark_cases[OF assms(1)]
  have "lm_step_frame ?l s t \<and> gba_wf t"
  proof (elim disjE conjE)
    assume "t = s"
    with assms(2) show ?thesis by simp
  next
    assume "t = s\<lparr>not_included_lms := (not_included_lms s)[i := True]\<rparr>"
    with assms(2) show ?thesis by (simp add: lm_step_frame_flag gba_wf_flag)
  next
    assume "foldE (gba_add_observation second_round ?l) (observations (lm_heap (gmap s) ?l)) ?s0 = Inr t"
    from gba_observations_loop[OF this gba_wf_start[OF assms(2)]]
    show ?thesis using lm_step_frame_trans[OF lm_step_frame_start] by blast
  qed
  then show "lm_step_frame (LandmarksVec (gmap s) ! i) s t" and "gba_wf t" by simp_all
qed

text \<open>
  A landmark with fewer than two observations by valid keyframes stays out of the problem
  through a landmark step, keeps its data, and is flagged when the step is its own.
\<close>

lemma gba_add_landmark_excluded:
  assumes step: "gba_add_landmark second_round i s = Inr t" and wf: "gba_wf s"
    and few: "few_observations (gmap s) l" and ex: "lm_excluded l (gproblem s)"
    and i: "i < length (not_included_lms s)"
  shows "lm_excluded l (gproblem t)" and "lm_heap (gmap t) l = lm_heap (gmap s) l"
    and "few_observations (gmap t) l"
    and "LandmarksVec (gmap s) ! i = l \<Longrightarrow> not_included_lms t ! i \<or> lm_IsInvalid (lm_heap (gmap s) l)"
proof -
  let ?l = "LandmarksVec (gmap s) ! i"
  note fr = gba_add_landmark_frame(1)[OF step wf]
  have core: "map_core (gmap t) = map_core (gmap s)"
    and obs: "observations (lm_heap (gmap t) l) = observations (lm_heap (gmap s) l)"
    using fr unfolding lm_step_frame_def by simp_all
  show "few_observations (gmap t) l"
    using few few_observations_eq[OF core obs] by simp
  have own: "?l = l \<Longrightarrow> t = s \<or> t = s\<lparr>not_included_lms := (not_included_lms s)[i := True]\<rparr>"
    using gba_add_landmark_cases[OF step] few by auto
  show "lm_heap (gmap t) l = lm_heap (gmap s) l"
  proof (cases "?l = l")
    case True
    from own[OF True] show ?thesis by auto
  next
    case False
    with fr show ?thesis unfolding lm_step_frame_def by simp
  qed
  show "lm_excluded l (gproblem t)"
  proof (cases "?l = l")
    case True
    from own[OF True] ex show ?thesis by auto
  next
    case False
    from fr obtain extra where
      r: "rblocks (gproblem t) = rblocks (gproblem s) @ extra"
        "\<forall>e \<in> set extra. \<forall>p. Position p \<in> set (parameter_blocks (snd e)) \<longrightarrow> p = ?l"
      and b: "\<forall>b \<in> set (pblocks (gproblem t)). b \<in> set (pblocks (gproblem s)) \<or> b = Position ?l \<or>
         (\<exists>c. b = Pose c \<or> b = Extrinsics c \<or> b = Intrinsics c \<or> b = Distortion c)"
      unfolding lm_step_frame_def by blast
    from b False ex have "Position l \<notin> set (pblocks (gproblem t))"
      unfolding lm_excluded_def by auto
    moreover from r False ex
    have "\<forall>e \<in> set (rblocks (gproblem t)). Position l \<notin> set (parameter_blocks (snd e))"
      unfolding lm_excluded_def by auto
    ultimately show ?thesis unfolding lm_excluded_def by simp
  qed
  show "not_included_lms t ! i \<or> lm_IsInvalid (lm_heap (gmap s) l)" if "?l = l"
    using gba_add_landmark_cases[OF step] few that i by auto
qed

lemma pass_frame_refl [simp]: "pass_frame s s"
  by (simp add: pass_frame_def)

lemma pass_frame_trans:
  assumes "pass_frame s t" and "pass_frame t u"
  shows "pass_frame s u"
proof -
  from assms obtain e1 e2 where
    "rblocks (gproblem t) = rblocks (gproblem s) @ e1"
    "rblocks (gproblem u) = rblocks (gproblem t) @ e2"
    unfolding pass_frame_def by blast
  then have "\<exists>extra. rblocks (gproblem u) = rblocks (gproblem s) @ extra" by simp
  then show ?thesis using assms unfolding pass_frame_def by auto
qed

lemma kf_step_pass_frame: "kf_step_frame a s t \<Longrightarrow> pass_frame s t"
  unfolding kf_step_frame_def pass_frame_def by auto

lemma lm_step_pass_frame: "lm_step_frame l s t \<Longrightarrow> pass_frame s t"
  unfolding lm_step_frame_def pass_frame_def by auto

lemma kf_step_excluded:
  assumes "kf_step_frame a s t" and "lm_excluded l (gproblem s)"
  shows "lm_excluded l (gproblem t)"
proof -
  from assms(1) obtain extra where
    r: "rblocks (gproblem t) = rblocks (gproblem s) @ extra"
      "\<forall>e \<in> set extra. \<exists>c lo bs. snd e = \<lparr>cost = PreintegrationFactor c, loss = lo,
              parameter_blocks = bs\<rparr> \<and> (\<forall>p. Position p \<notin> set bs)"
    and b: "\<forall>b \<in> set (pblocks (gproblem t)). b \<in> set (pblocks (gproblem s)) \<or>
         (\<exists>c. b = Pose c \<or> b = SpeedBias c \<or> b = Extrinsics c \<or> b = Distortion c \<or>
              b = Intrinsics c)"
    unfolding kf_step_frame_def by blast
  from b assms(2) have "Position l \<notin> set (pblocks (gproblem t))"
    unfolding lm_excluded_def by auto
  moreover have "\<forall>e \<in> set (rblocks (gproblem t)). Position l \<notin> set (parameter_blocks (snd e))"
  proof
    fix e assume "e \<in> set (rblocks (gproblem t))"
    then consider "e \<in> set (rblocks (gproblem s))" | "e \<in> set extra" using r(1) by auto
    then show "Position l \<notin> set (parameter_blocks (snd e))"
    proof cases
      case 1
      with assms(2) show ?thesis unfolding lm_excluded_def by blast
    next
      case 2
      with r(2) obtain c lo bs where "snd e = \<lparr>cost = PreintegrationFactor c, loss = lo,
              parameter_blocks = bs\<rparr>" "\<forall>p. Position p \<notin> set bs" by blast
      then show ?thesis by simp
    qed
  qed
  ultimately show ?thesis unfolding lm_excluded_def by simp
qed

lemma gba_init_wf [simp]: "gba_wf (gba_init M)"
  by (simp add: gba_wf_def gba_init_def)

lemma gba_init_simps [simp]:
  "gmap (gba_init M) = M" "gproblem (gba_init M) = empty_problem"
  "residual_ids (gba_init M) = []" "keypoint_ids (gba_init M) = []"
  "not_included_lms (gba_init M) = replicate (length (LandmarksVec M)) False"
  by (simp_all add: gba_init_def)

lemma lm_excluded_empty [simp]: "lm_excluded l empty_problem"
  by (simp add: lm_excluded_def)

text \<open>The loop over the keyframes, in either round.\<close>

lemma gba1_keyframes_loop:
  assumes "foldE (gba1_add_keyframe X visual_only) ks s = Inr t" and "gba_wf s"
  shows "gba_wf t" and "pass_frame s t" and "lm_heap (gmap t) = lm_heap (gmap s)"
    and "lm_excluded l (gproblem s) \<Longrightarrow> lm_excluded l (gproblem t)"
    and "not_included_lms t = not_included_lms s"
proof -
  let ?I = "\<lambda>u. gba_wf u \<and> pass_frame s u \<and> lm_heap (gmap u) = lm_heap (gmap s) \<and>
                 (lm_excluded l (gproblem s) \<longrightarrow> lm_excluded l (gproblem u)) \<and>
                 not_included_lms u = not_included_lms s"
  have "?I t"
  proof (rule foldE_invariant[OF assms(1), where I = ?I])
    show "?I s" using assms(2) by simp
  next
    fix x u u'
    assume I: "?I u" and step: "gba1_add_keyframe X visual_only x u = Inr u'"
    note fr = gba1_add_keyframe_frame[OF step]
    have "gba_wf u'" using gba1_add_keyframe_wf[OF step] I by simp
    moreover have "pass_frame s u'"
      using I kf_step_pass_frame[OF fr] by (blast intro: pass_frame_trans)
    moreover have "lm_heap (gmap u') = lm_heap (gmap s)"
      using I fr unfolding kf_step_frame_def by simp
    moreover have "lm_excluded l (gproblem s) \<longrightarrow> lm_excluded l (gproblem u')"
      using I kf_step_excluded[OF fr] by blast
    moreover have "not_included_lms u' = not_included_lms s"
      using I fr unfolding kf_step_frame_def by simp
    ultimately show "?I u'" by simp
  qed
  then show "gba_wf t" and "pass_frame s t" and "lm_heap (gmap t) = lm_heap (gmap s)"
    and "lm_excluded l (gproblem s) \<Longrightarrow> lm_excluded l (gproblem t)"
    and "not_included_lms t = not_included_lms s"
    by simp_all
qed

lemma gba2_keyframes_loop:
  assumes "foldE (gba2_add_keyframe X cfg visual_only) ks s = Inr t" and "gba_wf s"
  shows "gba_wf t" and "pass_frame s t" and "lm_heap (gmap t) = lm_heap (gmap s)"
    and "lm_excluded l (gproblem s) \<Longrightarrow> lm_excluded l (gproblem t)"
    and "not_included_lms t = not_included_lms s"
    and "\<forall>a \<in> set ks. \<not> kf_IsInvalid (kf_heap (gmap s) a) \<longrightarrow> kf_ready X a t"
proof -
  let ?I = "\<lambda>u. gba_wf u \<and> pass_frame s u \<and> lm_heap (gmap u) = lm_heap (gmap s) \<and>
                 (lm_excluded l (gproblem s) \<longrightarrow> lm_excluded l (gproblem u)) \<and>
                 not_included_lms u = not_included_lms s"
  let ?Q = "\<lambda>a u. \<not> kf_IsInvalid (kf_heap (gmap s) a) \<longrightarrow> kf_ready X a u"
  have "?I t \<and> (\<forall>a \<in> set ks. ?Q a t) \<and> (\<forall>y. ?Q y s \<longrightarrow> ?Q y t)"
  proof (rule foldE_establish[OF assms(1), where I = ?I and Q = ?Q])
    show "?I s" using assms(2) by simp
  next
    fix x u u'
    assume I: "?I u" and step: "gba2_add_keyframe X cfg visual_only x u = Inr u'"
    note f = gba2_add_keyframe_facts[OF step]
    have inv: "kf_IsInvalid (kf_heap (gmap u) b) = kf_IsInvalid (kf_heap (gmap s) b)" for b
      using I kf_core_eqD(2)[OF map_core_eqD(5)] unfolding pass_frame_def by blast
    have "gba_wf u'" using gba2_add_keyframe_wf[OF step] I by simp
    moreover have "pass_frame s u'"
      using I kf_step_pass_frame[OF f(1)] by (blast intro: pass_frame_trans)
    moreover have "lm_heap (gmap u') = lm_heap (gmap s)"
      using I f(1) unfolding kf_step_frame_def by simp
    moreover have "lm_excluded l (gproblem s) \<longrightarrow> lm_excluded l (gproblem u')"
      using I kf_step_excluded[OF f(1)] by blast
    moreover have "not_included_lms u' = not_included_lms s"
      using I f(1) unfolding kf_step_frame_def by simp
    moreover have "?Q x u'" using f(2) inv by simp
    moreover have "\<forall>y. ?Q y u \<longrightarrow> ?Q y u'"
    proof (intro allI impI)
      fix y assume q: "?Q y u" and v: "\<not> kf_IsInvalid (kf_heap (gmap s) y)"
      show "kf_ready X y u'"
      proof (cases "y = x")
        case True
        with f(2) inv v show ?thesis by simp
      next
        case False
        with kf_ready_frame[OF f(1)] q v show ?thesis by simp
      qed
    qed
    ultimately show "?I u' \<and> ?Q x u' \<and> (\<forall>y. ?Q y u \<longrightarrow> ?Q y u')" by simp
  qed
  then show "gba_wf t" and "pass_frame s t" and "lm_heap (gmap t) = lm_heap (gmap s)"
    and "lm_excluded l (gproblem s) \<Longrightarrow> lm_excluded l (gproblem t)"
    and "not_included_lms t = not_included_lms s"
    and "\<forall>a \<in> set ks. \<not> kf_IsInvalid (kf_heap (gmap s) a) \<longrightarrow> kf_ready X a t"
    by simp_all
qed

text \<open>The loop over the landmarks, in either round.\<close>

lemma gba_landmarks_loop:
  assumes "foldE (gba_add_landmark second_round) js s = Inr t" and "gba_wf s"
  shows "gba_wf t" and "pass_frame s t" and "kf_heap (gmap t) = kf_heap (gmap s)"
    and "pconstant (gproblem t) = pconstant (gproblem s)"
proof -
  let ?I = "\<lambda>u. gba_wf u \<and> pass_frame s u \<and> kf_heap (gmap u) = kf_heap (gmap s) \<and>
                 pconstant (gproblem u) = pconstant (gproblem s)"
  have "?I t"
  proof (rule foldE_invariant[OF assms(1), where I = ?I])
    show "?I s" using assms(2) by simp
  next
    fix x u u'
    assume I: "?I u" and step: "gba_add_landmark second_round x u = Inr u'"
    from I have wf: "gba_wf u" by simp
    note fr = gba_add_landmark_frame[OF step wf]
    have "pass_frame s u'"
      using I lm_step_pass_frame[OF fr(1)] by (blast intro: pass_frame_trans)
    moreover have "kf_heap (gmap u') = kf_heap (gmap s)"
      using I fr(1) unfolding lm_step_frame_def by simp
    moreover have "pconstant (gproblem u') = pconstant (gproblem s)"
      using I fr(1) unfolding lm_step_frame_def by simp
    ultimately show "?I u'" using fr(2) by simp
  qed
  then show "gba_wf t" and "pass_frame s t" and "kf_heap (gmap t) = kf_heap (gmap s)"
    and "pconstant (gproblem t) = pconstant (gproblem s)"
    by simp_all
qed

lemma gba_landmarks_loop_excluded:
  assumes loop: "foldE (gba_add_landmark second_round) js s = Inr t" and wf: "gba_wf s"
    and js: "\<forall>i \<in> set js. i < length (not_included_lms s)"
    and few: "few_observations (gmap s) l" and ex: "lm_excluded l (gproblem s)"
  shows "lm_excluded l (gproblem t)" and "lm_heap (gmap t) l = lm_heap (gmap s) l"
    and "\<forall>i \<in> set js. LandmarksVec (gmap s) ! i = l \<longrightarrow>
           not_included_lms t ! i \<or> lm_IsInvalid (lm_heap (gmap s) l)"
proof -
  let ?I = "\<lambda>u. gba_wf u \<and> pass_frame s u \<and> few_observations (gmap u) l \<and>
                 lm_excluded l (gproblem u) \<and> lm_heap (gmap u) l = lm_heap (gmap s) l"
  let ?Q = "\<lambda>i u. LandmarksVec (gmap s) ! i = l \<longrightarrow>
                   not_included_lms u ! i \<or> lm_IsInvalid (lm_heap (gmap s) l)"
  have "?I t \<and> (\<forall>i \<in> set js. ?Q i t) \<and> (\<forall>y. ?Q y s \<longrightarrow> ?Q y t)"
  proof (rule foldE_establish[OF loop, where I = ?I and Q = ?Q])
    show "?I s" using wf few ex by simp
  next
    fix x u u'
    assume x: "x \<in> set js" and I: "?I u" and step: "gba_add_landmark second_round x u = Inr u'"
    from I have wfu: "gba_wf u" and pf: "pass_frame s u" and fewu: "few_observations (gmap u) l"
      and exu: "lm_excluded l (gproblem u)" and hp: "lm_heap (gmap u) l = lm_heap (gmap s) l"
      by simp_all
    have len: "x < length (not_included_lms u)"
      using js x pf unfolding pass_frame_def by simp
    have vec: "LandmarksVec (gmap u) = LandmarksVec (gmap s)"
      using pf map_core_eqD(2) unfolding pass_frame_def by blast
    note fr = gba_add_landmark_frame[OF step wfu]
    note e = gba_add_landmark_excluded[OF step wfu fewu exu len]
    have pf': "pass_frame s u'"
      using pf lm_step_pass_frame[OF fr(1)] by (blast intro: pass_frame_trans)
    have mono: "not_included_lms u ! j \<Longrightarrow> not_included_lms u' ! j" for j
      using fr(1) unfolding lm_step_frame_def by blast
    have "?I u'" using fr(2) pf' e(1,2,3) hp by simp
    moreover have "?Q x u'" using e(4) vec hp by auto
    moreover have "\<forall>y. ?Q y u \<longrightarrow> ?Q y u'" using mono by blast
    ultimately show "?I u' \<and> ?Q x u' \<and> (\<forall>y. ?Q y u \<longrightarrow> ?Q y u')" by blast
  qed
  then show "lm_excluded l (gproblem t)" and "lm_heap (gmap t) l = lm_heap (gmap s) l"
    and "\<forall>i \<in> set js. LandmarksVec (gmap s) ! i = l \<longrightarrow>
           not_included_lms t ! i \<or> lm_IsInvalid (lm_heap (gmap s) l)"
    by simp_all
qed

subsection \<open>Loop edges\<close>

lemma edges_added_refl [simp]: "edges_added P P"
  by (simp add: edges_added_def)

lemma edges_added_trans:
  assumes "edges_added P Q" and "edges_added Q R"
  shows "edges_added P R"
proof -
  have ids: "ids_ok P \<longrightarrow> ids_ok R" using assms unfolding edges_added_def by blast
  from assms obtain e1 e2 where
    e1: "rblocks Q = rblocks P @ e1"
      "\<forall>e \<in> set e1. \<not> is_reprojection (snd e) \<and> (\<forall>p. Position p \<notin> set (parameter_blocks (snd e)))"
    and e2: "rblocks R = rblocks Q @ e2"
      "\<forall>e \<in> set e2. \<not> is_reprojection (snd e) \<and> (\<forall>p. Position p \<notin> set (parameter_blocks (snd e)))"
    unfolding edges_added_def by blast
  have "\<exists>extra. rblocks R = rblocks P @ extra \<and>
        (\<forall>e \<in> set extra. \<not> is_reprojection (snd e) \<and>
           (\<forall>p. Position p \<notin> set (parameter_blocks (snd e))))"
    by (rule exI[of _ "e1 @ e2"]) (use e1 e2 in auto)
  moreover have "\<forall>b \<in> set (pblocks R). b \<in> set (pblocks P) \<or> (\<exists>c. b = Pose c \<or> b = Extrinsics c)"
    using assms unfolding edges_added_def by blast
  ultimately show ?thesis using assms ids unfolding edges_added_def by auto
qed

lemma gba1_add_loop_edges: "edges_added P (gba1_add_loop i P)"
  unfolding edges_added_def gba1_add_loop_def by auto

lemma gba2_add_loop_edges: "edges_added P (gba2_add_loop i P)"
  unfolding edges_added_def gba2_add_loop_def by auto

lemma fold_gba1_add_loop_edges: "edges_added P (fold gba1_add_loop ls P)"
proof (induction ls arbitrary: P)
  case Nil
  show ?case by simp
next
  case (Cons i ls)
  show ?case
    using edges_added_trans[OF gba1_add_loop_edges Cons.IH] by simp
qed

lemma fold_gba2_add_loop_edges: "edges_added P (fold gba2_add_loop ls P)"
proof (induction ls arbitrary: P)
  case Nil
  show ?case by simp
next
  case (Cons i ls)
  show ?case
    using edges_added_trans[OF gba2_add_loop_edges Cons.IH] by simp
qed

lemma edges_added_acc:
  assumes "edges_added (gproblem s) P'"
  shows "pass_frame s (s\<lparr>gproblem := P'\<rparr>)"
    and "gba_wf s \<Longrightarrow> gba_wf (s\<lparr>gproblem := P'\<rparr>)"
    and "lm_excluded l (gproblem s) \<Longrightarrow> lm_excluded l P'"
proof -
  from assms obtain extra where
    r: "rblocks P' = rblocks (gproblem s) @ extra"
      "\<forall>e \<in> set extra. \<not> is_reprojection (snd e) \<and> (\<forall>p. Position p \<notin> set (parameter_blocks (snd e)))"
    and b: "\<forall>b \<in> set (pblocks P'). b \<in> set (pblocks (gproblem s)) \<or> (\<exists>c. b = Pose c \<or> b = Extrinsics c)"
    and c: "pconstant P' = pconstant (gproblem s)" "set (pblocks (gproblem s)) \<subseteq> set (pblocks P')"
    and ids: "ids_ok (gproblem s) \<longrightarrow> ids_ok P'"
    unfolding edges_added_def by blast
  show "pass_frame s (s\<lparr>gproblem := P'\<rparr>)"
    unfolding pass_frame_def using r(1) c by simp
  have filt: "filter (\<lambda>e. is_reprojection (snd e)) (rblocks P') =
              filter (\<lambda>e. is_reprojection (snd e)) (rblocks (gproblem s))"
    using r by simp
  show "gba_wf (s\<lparr>gproblem := P'\<rparr>)" if "gba_wf s"
  proof -
    have "\<forall>b \<in> set (pblocks P'). gba_block b"
      using that b unfolding gba_wf_def by auto
    then show ?thesis
      using that filt ids unfolding gba_wf_def by simp
  qed
  show "lm_excluded l P'" if "lm_excluded l (gproblem s)"
  proof -
    from b that have "Position l \<notin> set (pblocks P')" unfolding lm_excluded_def by auto
    moreover from r that
    have "\<forall>e \<in> set (rblocks P'). Position l \<notin> set (parameter_blocks (snd e))"
      unfolding lm_excluded_def by auto
    ultimately show ?thesis unfolding lm_excluded_def by simp
  qed
qed

subsection \<open>The problem a round builds\<close>

lemma kf_ready_pass:
  assumes "kf_ready X a s" and "kf_heap (gmap t) = kf_heap (gmap s)"
    and "map_core (gmap t) = map_core (gmap s)"
    and "set (pblocks (gproblem s)) \<subseteq> set (pblocks (gproblem t))"
    and "set (pconstant (gproblem s)) \<subseteq> set (pconstant (gproblem t))"
  shows "kf_ready X a t"
  using assms map_core_eqD(4)[OF assms(3)] unfolding kf_ready_def by auto

lemma pass_frame_gba_init:
  assumes "pass_frame (gba_init M) s"
  shows "map_core (gmap s) = map_core M"
    and "observations (lm_heap (gmap s) l) = observations (lm_heap M l)"
    and "landmarks (kf_heap (gmap s) a) = landmarks (kf_heap M a)"
    and "length (not_included_lms s) = length (LandmarksVec M)"
  using assms unfolding pass_frame_def by simp_all

lemma upt_in_range: "\<forall>i \<in> set [0..<n]. i < n"
  by simp

lemma gba1_build_facts:
  assumes "gba1_build X visual_only M = Inr s"
  shows "gba_wf s" and "pass_frame (gba_init M) s"
    and "few_observations M l \<Longrightarrow> lm_excluded l (gproblem s)"
proof -
  from assms obtain s1 s2 where
    k: "foldE (gba1_add_keyframe X visual_only) (KeyframesVec M) (gba_init M) = Inr s1"
    and l: "foldE (gba_add_landmark False) [0..<length (LandmarksVec M)] s1 = Inr s2"
    and s: "s = s2\<lparr>gproblem := fold gba1_add_loop (LoopConstraints M) (gproblem s2)\<rparr>"
    unfolding gba1_build_def by (auto split: sum.splits)
  note kf = gba1_keyframes_loop[OF k gba_init_wf]
  note lm = gba_landmarks_loop[OF l kf(1)]
  note ed = edges_added_acc[OF fold_gba1_add_loop_edges[of "gproblem s2" "LoopConstraints M"]]
  show "gba_wf s" unfolding s using ed(2) lm(1) by simp
  show "pass_frame (gba_init M) s"
    unfolding s using kf(2) lm(2) ed(1) by (blast intro: pass_frame_trans)
  show "lm_excluded l (gproblem s)" if few: "few_observations M l"
  proof -
    have few1: "few_observations (gmap s1) l"
      using few few_observations_eq[OF pass_frame_gba_init(1,2)[OF kf(2)]] by simp
    have ex1: "lm_excluded l (gproblem s1)" using kf(4)[of l] by simp
    have js: "\<forall>i \<in> set [0..<length (LandmarksVec M)]. i < length (not_included_lms s1)"
      using kf(5) by simp
    from gba_landmarks_loop_excluded(1)[OF l kf(1) js few1 ex1]
    show ?thesis unfolding s using ed(3) by simp
  qed
qed

lemma gba2_build_facts:
  assumes "gba2_build X cfg visual_only M = Inr s"
  shows "gba_wf s" and "pass_frame (gba_init M) s"
    and "\<forall>a \<in> set (KeyframesVec M). \<not> kf_IsInvalid (kf_heap M a) \<longrightarrow> kf_ready X a s"
    and "few_observations M l \<Longrightarrow> lm_excluded l (gproblem s)"
    and "few_observations M l \<Longrightarrow> lm_heap (gmap s) l = lm_heap M l"
    and "few_observations M l \<Longrightarrow>
           \<forall>i < length (LandmarksVec M). LandmarksVec M ! i = l \<longrightarrow>
             not_included_lms s ! i \<or> lm_IsInvalid (lm_heap M l)"
proof -
  from assms obtain s1 s2 where
    k: "foldE (gba2_add_keyframe X cfg visual_only) (KeyframesVec M) (gba_init M) = Inr s1"
    and l: "foldE (gba_add_landmark True) [0..<length (LandmarksVec M)] s1 = Inr s2"
    and s: "s = (if gba_use_map_loop_constraints cfg
                 then s2\<lparr>gproblem := fold gba2_add_loop (LoopConstraints M) (gproblem s2)\<rparr>
                 else s2)"
    unfolding gba2_build_def by (auto split: sum.splits)
  note kf = gba2_keyframes_loop[OF k gba_init_wf]
  note lm = gba_landmarks_loop[OF l kf(1)]
  note ed = edges_added_acc[OF fold_gba2_add_loop_edges[of "gproblem s2" "LoopConstraints M"]]
  have s_cases: "s = s2 \<or> s = s2\<lparr>gproblem := fold gba2_add_loop (LoopConstraints M) (gproblem s2)\<rparr>"
    using s by simp
  show wf: "gba_wf s" using s_cases ed(2) lm(1) by auto
  have pf2: "pass_frame s2 s" using s_cases ed(1) by auto
  show pf: "pass_frame (gba_init M) s"
    using kf(2) lm(2) pf2 by (blast intro: pass_frame_trans)
  have same: "gmap s = gmap s2" "not_included_lms s = not_included_lms s2" using s by simp_all
  show "\<forall>a \<in> set (KeyframesVec M). \<not> kf_IsInvalid (kf_heap M a) \<longrightarrow> kf_ready X a s"
  proof (intro ballI impI)
    fix a assume a: "a \<in> set (KeyframesVec M)" "\<not> kf_IsInvalid (kf_heap M a)"
    with kf(6) have r1: "kf_ready X a s1" by simp
    have r2: "kf_ready X a s2"
      using kf_ready_pass[OF r1 lm(3)] lm(2) unfolding pass_frame_def by simp
    show "kf_ready X a s"
      using kf_ready_pass[OF r2] same(1) pf2 unfolding pass_frame_def by simp
  qed
  have js: "\<forall>i \<in> set [0..<length (LandmarksVec M)]. i < length (not_included_lms s1)"
    using kf(5) by simp
  have vec1: "LandmarksVec (gmap s1) = LandmarksVec M"
    using map_core_eqD(2)[OF pass_frame_gba_init(1)[OF kf(2)]] .
  have h1: "lm_heap (gmap s1) = lm_heap M" using kf(3) by simp
  {
    assume few: "few_observations M l"
    have few1: "few_observations (gmap s1) l"
      using few few_observations_eq[OF pass_frame_gba_init(1,2)[OF kf(2)]] by simp
    have ex1: "lm_excluded l (gproblem s1)" using kf(4)[of l] by simp
    note e = gba_landmarks_loop_excluded[OF l kf(1) js few1 ex1]
    show "lm_excluded l (gproblem s)" using s_cases e(1) ed(3) by auto
    show "lm_heap (gmap s) l = lm_heap M l" using e(2) same(1) h1 by simp
    show "\<forall>i < length (LandmarksVec M). LandmarksVec M ! i = l \<longrightarrow>
             not_included_lms s ! i \<or> lm_IsInvalid (lm_heap M l)"
      using e(3) same(2) h1 vec1 by simp
  }
qed

subsection \<open>Recovering the optimized data\<close>

lemma gba_recover_keyframe_frame:
  "lm_heap (gba_recover_keyframe X vo a M) = lm_heap M"
  "LandmarksVec (gba_recover_keyframe X vo a M) = LandmarksVec M"
  "KeyframesVec (gba_recover_keyframe X vo a M) = KeyframesVec M"
  "id_map (gba_recover_keyframe X vo a M) = id_map M"
  "ceres_pose (kf_heap (gba_recover_keyframe X vo a M) b) = ceres_pose (kf_heap M b)"
  "kf_IsInvalid (kf_heap (gba_recover_keyframe X vo a M) b) = kf_IsInvalid (kf_heap M b)"
  "kf_id (kf_heap (gba_recover_keyframe X vo a M) b) = kf_id (kf_heap M b)"
  "PoseTws (kf_heap (gba_recover_keyframe X vo a M) b) =
     (if b = a \<and> \<not> kf_IsInvalid (kf_heap M a)
      then Ceres2Transform X (ceres_pose (kf_heap M a)) else PoseTws (kf_heap M b))"
  by (simp_all add: gba_recover_keyframe_def)

lemma fold_gba_recover_keyframe:
  "lm_heap (fold (gba_recover_keyframe X vo) ks M) = lm_heap M \<and>
   LandmarksVec (fold (gba_recover_keyframe X vo) ks M) = LandmarksVec M \<and>
   (\<forall>b. ceres_pose (kf_heap (fold (gba_recover_keyframe X vo) ks M) b) = ceres_pose (kf_heap M b)) \<and>
   (\<forall>b. kf_IsInvalid (kf_heap (fold (gba_recover_keyframe X vo) ks M) b) =
        kf_IsInvalid (kf_heap M b)) \<and>
   (\<forall>b. PoseTws (kf_heap (fold (gba_recover_keyframe X vo) ks M) b) =
        (if b \<in> set ks \<and> \<not> kf_IsInvalid (kf_heap M b)
         then Ceres2Transform X (ceres_pose (kf_heap M b)) else PoseTws (kf_heap M b)))"
proof (induction ks arbitrary: M)
  case Nil
  show ?case by simp
next
  case (Cons a ks)
  let ?M = "gba_recover_keyframe X vo a M"
  note f = gba_recover_keyframe_frame[where X=X and vo=vo and a=a and M=M]
  from Cons.IH[of ?M] show ?case
    by (auto simp: f)
qed

lemma gba_recover_landmark_frame:
  "kf_heap (gba_recover_landmark ni i M) = kf_heap M"
  "LandmarksVec (gba_recover_landmark ni i M) = LandmarksVec M"
  "lm_IsInvalid (lm_heap (gba_recover_landmark ni i M) l) = lm_IsInvalid (lm_heap M l)"
  "lm_heap (gba_recover_landmark ni i M) l =
     (if LandmarksVec M ! i = l \<and> \<not> ni ! i \<and> \<not> lm_IsInvalid (lm_heap M l)
      then (lm_heap M l)\<lparr>WorldPos := ceres_pos (lm_heap M l), lm_is_gba_optimized := True\<rparr>
      else lm_heap M l)"
  by (auto simp: gba_recover_landmark_def)

lemma fold_gba_recover_landmark:
  "kf_heap (fold (gba_recover_landmark ni) js M) = kf_heap M \<and>
   LandmarksVec (fold (gba_recover_landmark ni) js M) = LandmarksVec M \<and>
   (\<forall>l. lm_IsInvalid (lm_heap (fold (gba_recover_landmark ni) js M) l) = lm_IsInvalid (lm_heap M l)) \<and>
   (\<forall>l. (\<forall>i \<in> set js. LandmarksVec M ! i = l \<longrightarrow> ni ! i \<or> lm_IsInvalid (lm_heap M l)) \<longrightarrow>
        lm_heap (fold (gba_recover_landmark ni) js M) l = lm_heap M l)"
proof (induction js arbitrary: M)
  case Nil
  show ?case by simp
next
  case (Cons i js)
  let ?M = "gba_recover_landmark ni i M"
  note f = gba_recover_landmark_frame[where ni=ni and i=i and M=M]
  have keep: "lm_heap ?M l = lm_heap M l"
    if "LandmarksVec M ! i = l \<longrightarrow> ni ! i \<or> lm_IsInvalid (lm_heap M l)" for l
    using that by (auto simp: f(4))
  from Cons.IH[of ?M] show ?case
    by (auto simp: f(1,2,3) keep)
qed

subsection \<open>The second round\<close>



lemma gba_pass2_few:
  assumes run: "gba_pass2 X cfg interations_limit visual_only M = Inr M'"
    and few: "few_observations M l"
  shows "WorldPos (lm_heap M' l) = WorldPos (lm_heap M l)"
proof -
  from run obtain s where b: "gba2_build X cfg visual_only M = Inr s"
    and M': "M' = fold (gba_recover_landmark (not_included_lms s)) [0..<length (LandmarksVec M)]
                   (fold (gba_recover_keyframe X visual_only) (KeyframesVec M)
                      (SolveMap X (gba2_solver_options cfg interations_limit) (gproblem s) (gmap s)))"
    unfolding gba_pass2_def Let_def by (auto split: sum.splits)
  let ?M1 = "SolveMap X (gba2_solver_options cfg interations_limit) (gproblem s) (gmap s)"
  let ?M2 = "fold (gba_recover_keyframe X visual_only) (KeyframesVec M) ?M1"
  note bf = gba2_build_facts[OF b]
  note core = pass_frame_gba_init(1)[OF bf(2)]
  have core1: "map_core ?M1 = map_core M" using core by simp
  have h2: "lm_heap ?M2 = lm_heap ?M1" and v2: "LandmarksVec ?M2 = LandmarksVec M"
    using fold_gba_recover_keyframe[of X visual_only "KeyframesVec M" ?M1]
      map_core_eqD(2)[OF core1] by simp_all
  have lmc: "lm_core (lm_heap ?M2 l) = lm_core (lm_heap M l)"
    using h2 map_core_eqD(6)[OF core1] by simp
  have flags: "\<forall>i \<in> set [0..<length (LandmarksVec M)]. LandmarksVec ?M2 ! i = l \<longrightarrow>
                 not_included_lms s ! i \<or> lm_IsInvalid (lm_heap ?M2 l)"
    using bf(6)[OF few] v2 lm_core_eqD(1)[OF lmc] by simp
  have "lm_heap M' l = lm_heap ?M2 l"
    unfolding M' using fold_gba_recover_landmark[of "not_included_lms s"
        "[0..<length (LandmarksVec M)]" ?M2] flags by blast
  then show ?thesis using lm_core_eqD(2)[OF lmc] by simp
qed

subsection \<open>The first round: removing outliers\<close>

lemma gba_erase_apply:
  "gba_erase X th P v (rid, kfi, lmi, kp) (M, Q, nb) =
     (if gba_is_outlier X th P v rid
      then (EraseObservation lmi kfi (EraseLandmark kfi kp M), RemoveResidualBlock rid Q, nb + 1)
      else (M, Q, nb))"
  by (simp add: gba_erase_def)

lemma gba_outliers_fold:
  assumes "zip ids kps = xs @ ys" and "length ids = length kps"
  shows "gba_outliers X th (Evaluate X P v ids) ys (2 * length xs) s =
         fold (gba_erase X th P v) ys s"
  using assms
proof (induction ys arbitrary: xs s)
  case Nil
  show ?case by simp
next
  case (Cons p ys)
  obtain rid kfi lmi kp where p: "p = (rid, kfi, lmi, kp)" by (cases p) auto
  obtain M Q nb where s: "s = (M, Q, nb)" by (cases s) auto
  let ?j = "length xs"
  have "length (zip ids kps) = length xs + Suc (length ys)" using Cons.prems(1) by simp
  then have j: "?j < length ids" using Cons.prems(2) by simp
  have "zip ids kps ! ?j = p" using Cons.prems(1) by (simp add: nth_append)
  then have rid: "ids ! ?j = rid" using j Cons.prems(2) p by simp
  have next_xs: "zip ids kps = (xs @ [p]) @ ys" using Cons.prems(1) by simp
  have IH: "\<And>s. gba_outliers X th (Evaluate X P v ids) ys (Suc (Suc (2 * length xs))) s =
                  fold (gba_erase X th P v) ys s"
    using Cons.IH[OF next_xs Cons.prems(2)] by simp
  have hd: "gba_is_outlier X th P v rid \<longleftrightarrow>
      th < VectorNorm X (Evaluate X P v ids ! (2 * ?j)) (Evaluate X P v ids ! (2 * ?j + 1))"
    using Evaluate_nth[OF j, of X P v] rid by (simp add: gba_is_outlier_def)
  show ?case
  proof (cases "gba_is_outlier X th P v rid")
    case True
    with hd show ?thesis by (simp add: p s IH gba_erase_apply)
  next
    case False
    with hd show ?thesis by (simp add: p s IH gba_erase_apply)
  qed
qed

lemma map_core_Erase [simp]:
  "map_core (EraseLandmark k kp M) = map_core M"
  "map_core (EraseObservation l k M) = map_core M"
  by (simp_all add: EraseLandmark_def EraseObservation_def map_core_update_kf map_core_update_lm
      kf_core_def lm_core_def)

lemma Erase_fields [simp]:
  "observations (lm_heap (EraseLandmark k kp M) l) = observations (lm_heap M l)"
  "landmarks (kf_heap (EraseObservation l k M) a) = landmarks (kf_heap M a)"
  "observations (lm_heap (EraseObservation l k M) l') =
     (if l' = l then filter (\<lambda>ob. fst ob \<noteq> Some k) (observations (lm_heap M l))
      else observations (lm_heap M l'))"
  "landmarks (kf_heap (EraseLandmark k kp M) a) =
     (if a = k then (landmarks (kf_heap M k))[kp := None] else landmarks (kf_heap M a))"
  by (simp_all add: EraseLandmark_def EraseObservation_def)

lemma observation_erased_step:
  "observation_erased (EraseObservation l k (EraseLandmark k kp M)) (k, l, kp)"
  by (auto simp: observation_erased_def)

lemma observation_erased_mono:
  assumes "observation_erased M ob"
  shows "observation_erased (EraseObservation l k (EraseLandmark k kp M)) ob"
proof -
  have "xs[i := None] = xs \<Longrightarrow> (xs[j := None])[i := None] = xs[j := None]"
    for xs :: "nat option list" and i j
    by (metis list_update_swap list_update_overwrite)
  with assms show ?thesis by (auto simp: observation_erased_def)
qed

text \<open>What a run of turns of the loop does.\<close>

lemma fold_gba_erase:
  "fold (gba_erase X th P v) ys (M, Q, nb) = (M', Q', nb') \<Longrightarrow>
     nb' = nb + length (filter (\<lambda>e. gba_is_outlier X th P v (fst e)) ys) \<and>
     pblocks Q' = pblocks Q \<and> pconstant Q' = pconstant Q \<and>
     rblocks Q' =
       filter (\<lambda>e. \<not> (fst e \<in> fst ` set ys \<and> gba_is_outlier X th P v (fst e))) (rblocks Q) \<and>
     map_core M' = map_core M \<and>
     (\<forall>l. \<exists>R. observations (lm_heap M' l) = filter R (observations (lm_heap M l))) \<and>
     (\<forall>ob. observation_erased M ob \<longrightarrow> observation_erased M' ob) \<and>
     (\<forall>e \<in> set ys. gba_is_outlier X th P v (fst e) \<longrightarrow> observation_erased M' (snd e))"
proof (induction ys arbitrary: M Q nb)
  case Nil
  then show ?case by (auto intro: exI[of _ "\<lambda>x. True"])
next
  case (Cons p ys)
  obtain rid kfi lmi kp where p: "p = (rid, kfi, lmi, kp)" by (cases p) auto
  show ?case
  proof (cases "gba_is_outlier X th P v rid")
    case False
    with Cons.prems have "fold (gba_erase X th P v) ys (M, Q, nb) = (M', Q', nb')"
      by (simp add: p gba_erase_apply)
    note IH = Cons.IH[OF this]
    have rb: "rblocks Q' =
       filter (\<lambda>e. \<not> (fst e \<in> fst ` set (p # ys) \<and> gba_is_outlier X th P v (fst e))) (rblocks Q)"
    proof -
      have "rblocks Q' =
         filter (\<lambda>e. \<not> (fst e \<in> fst ` set ys \<and> gba_is_outlier X th P v (fst e))) (rblocks Q)"
        using IH by simp
      also have "\<dots> = filter (\<lambda>e. \<not> (fst e \<in> fst ` set (p # ys) \<and> gba_is_outlier X th P v (fst e)))
                       (rblocks Q)"
        using False by (auto simp: p intro!: filter_cong)
      finally show ?thesis .
    qed
    have rest: "nb' = nb + length (filter (\<lambda>e. gba_is_outlier X th P v (fst e)) (p # ys)) \<and>
       pblocks Q' = pblocks Q \<and> pconstant Q' = pconstant Q \<and> map_core M' = map_core M \<and>
       (\<forall>l. \<exists>R. observations (lm_heap M' l) = filter R (observations (lm_heap M l))) \<and>
       (\<forall>ob. observation_erased M ob \<longrightarrow> observation_erased M' ob) \<and>
       (\<forall>e \<in> set (p # ys). gba_is_outlier X th P v (fst e) \<longrightarrow> observation_erased M' (snd e))"
      using IH False by (simp add: p)
    from rest rb show ?thesis by blast
  next
    case True
    let ?M = "EraseObservation lmi kfi (EraseLandmark kfi kp M)"
    let ?Q = "RemoveResidualBlock rid Q"
    from Cons.prems True have "fold (gba_erase X th P v) ys (?M, ?Q, nb + 1) = (M', Q', nb')"
      by (simp add: p gba_erase_apply)
    note IH = Cons.IH[OF this]
    have obs: "\<exists>R. observations (lm_heap M' l) = filter R (observations (lm_heap M l))" for l
    proof -
      from IH obtain R where "observations (lm_heap M' l) = filter R (observations (lm_heap ?M l))"
        by blast
      then show ?thesis
        by (cases "l = lmi") (auto intro: exI[of _ "\<lambda>ob. fst ob \<noteq> Some kfi \<and> R ob"] simp: conj_commute)
    qed
    have er: "observation_erased M' (kfi, lmi, kp)"
      using IH observation_erased_step by blast
    have mono: "observation_erased M ob \<Longrightarrow> observation_erased M' ob" for ob
      using IH observation_erased_mono by blast
    have rb: "rblocks Q' =
       filter (\<lambda>e. \<not> (fst e \<in> fst ` set (p # ys) \<and> gba_is_outlier X th P v (fst e))) (rblocks Q)"
    proof -
      have "rblocks Q' =
         filter (\<lambda>e. \<not> (fst e \<in> fst ` set ys \<and> gba_is_outlier X th P v (fst e)))
           (filter (\<lambda>e. fst e \<noteq> rid) (rblocks Q))"
        using IH by simp
      also have "\<dots> = filter (\<lambda>e. \<not> (fst e \<in> fst ` set (p # ys) \<and> gba_is_outlier X th P v (fst e)))
                       (rblocks Q)"
        using True by (auto simp: p intro!: filter_cong)
      finally show ?thesis .
    qed
    have rest: "nb' = nb + length (filter (\<lambda>e. gba_is_outlier X th P v (fst e)) (p # ys)) \<and>
       pblocks Q' = pblocks Q \<and> pconstant Q' = pconstant Q \<and> map_core M' = map_core M \<and>
       (\<forall>e \<in> set (p # ys). gba_is_outlier X th P v (fst e) \<longrightarrow> observation_erased M' (snd e))"
      using IH True er by (simp add: p)
    from rest rb obs mono show ?thesis by blast
  qed
qed
lemma gba_pass1_fold:
  assumes build: "gba1_build X visual_only M = Inr s"
    and run: "gba_pass1 X cfg visual_only M = Inr (M', P', num_bad)"
  shows "fold (gba_erase X (th_gba_outlier_global cfg) (gproblem s)
                 (block_values (SolveMap X (gba1_solver_options cfg) (gproblem s) (gmap s))))
           (zip (residual_ids s) (keypoint_ids s))
           (SolveMap X (gba1_solver_options cfg) (gproblem s) (gmap s), gproblem s, 0) =
         (M', P', num_bad)"
proof -
  have len: "length (residual_ids s) = length (keypoint_ids s)"
    using gba1_build_facts(1)[OF build] unfolding gba_wf_def by simp
  show ?thesis
    using run gba_outliers_fold[of "residual_ids s" "keypoint_ids s" "[]"
        "zip (residual_ids s) (keypoint_ids s)", OF _ len]
    by (simp add: gba_pass1_def build Let_def)
qed

lemma reprojection_ids:
  assumes "ids_ok P" and "e \<in> set (rblocks P)"
  shows "fst e \<in> fst ` set (filter (\<lambda>e. is_reprojection (snd e)) (rblocks P)) \<longleftrightarrow>
         is_reprojection (snd e)"
proof
  assume "fst e \<in> fst ` set (filter (\<lambda>e. is_reprojection (snd e)) (rblocks P))"
  then obtain e' where e': "e' \<in> set (rblocks P)" "is_reprojection (snd e')" "fst e' = fst e"
    by auto
  from assms(1) have "inj_on fst (set (rblocks P))"
    unfolding ids_ok_def by (simp add: distinct_map)
  with e' assms(2) have "e' = e" by (auto dest: inj_onD)
  with e' show "is_reprojection (snd e)" by simp
next
  assume "is_reprojection (snd e)"
  with assms(2) show "fst e \<in> fst ` set (filter (\<lambda>e. is_reprojection (snd e)) (rblocks P))"
    by force
qed

lemma gba_pass1_facts:
  assumes build: "gba1_build X visual_only M = Inr s"
    and run: "gba_pass1 X cfg visual_only M = Inr (M', P', num_bad)"
  defines "v \<equiv> block_values (SolveMap X (gba1_solver_options cfg) (gproblem s) (gmap s))"
  defines "out \<equiv> gba_is_outlier X (th_gba_outlier_global cfg) (gproblem s) v"
  shows "rblocks P' = filter (\<lambda>e. \<not> (is_reprojection (snd e) \<and> out (fst e))) (rblocks (gproblem s))"
    and "num_bad = length (filter (\<lambda>e. is_reprojection (snd e) \<and> out (fst e)) (rblocks (gproblem s)))"
    and "\<forall>e \<in> set (rblocks (gproblem s)). is_reprojection (snd e) \<and> out (fst e) \<longrightarrow>
           (\<exists>ob. observes (snd e) ob \<and> observation_erased M' ob)"
    and "pblocks P' = pblocks (gproblem s)"
    and "map_core M' = map_core M"
    and "\<exists>R. observations (lm_heap M' l) = filter R (observations (lm_heap M l))"
proof -
  let ?M1 = "SolveMap X (gba1_solver_options cfg) (gproblem s) (gmap s)"
  let ?zs = "zip (residual_ids s) (keypoint_ids s)"
  let ?rep = "filter (\<lambda>e. is_reprojection (snd e)) (rblocks (gproblem s))"
  note bf = gba1_build_facts[OF build]
  from bf(1) have ids: "residual_ids s = map fst ?rep"
    and len: "length (keypoint_ids s) = length (residual_ids s)"
    and link: "list_all2 (\<lambda>e ob. observes (snd e) ob) ?rep (keypoint_ids s)"
    and ok: "ids_ok (gproblem s)"
    unfolding gba_wf_def by simp_all
  note f = fold_gba_erase[OF gba_pass1_fold[OF build run], folded v_def out_def]
  have fzs: "fst ` set ?zs = fst ` set ?rep"
    using len ids by (metis (no_types) list.set_map map_fst_zip)
  show "rblocks P' = filter (\<lambda>e. \<not> (is_reprojection (snd e) \<and> out (fst e))) (rblocks (gproblem s))"
  proof -
    have "rblocks P' = filter (\<lambda>e. \<not> (fst e \<in> fst ` set ?zs \<and> out (fst e))) (rblocks (gproblem s))"
      using f by simp
    also have "\<dots> = filter (\<lambda>e. \<not> (is_reprojection (snd e) \<and> out (fst e))) (rblocks (gproblem s))"
    proof (rule filter_cong)
      fix e assume "e \<in> set (rblocks (gproblem s))"
      from reprojection_ids[OF ok this]
      show "(\<not> (fst e \<in> fst ` set ?zs \<and> out (fst e))) =
            (\<not> (is_reprojection (snd e) \<and> out (fst e)))"
        unfolding fzs by blast
    qed simp
    finally show ?thesis .
  qed
  show "num_bad = length (filter (\<lambda>e. is_reprojection (snd e) \<and> out (fst e)) (rblocks (gproblem s)))"
  proof -
    have "num_bad = length (filter (\<lambda>e. out (fst e)) ?zs)" using f by simp
    also have "\<dots> = length (filter out (map fst ?zs))"
      by (simp add: filter_map o_def)
    also have "map fst ?zs = map fst ?rep" using len ids by simp
    also have "length (filter out (map fst ?rep)) = length (filter (\<lambda>e. out (fst e)) ?rep)"
      by (simp add: filter_map o_def)
    also have "\<dots> = length (filter (\<lambda>e. is_reprojection (snd e) \<and> out (fst e)) (rblocks (gproblem s)))"
      by (simp add: conj_commute)
    finally show ?thesis .
  qed
  show "\<forall>e \<in> set (rblocks (gproblem s)). is_reprojection (snd e) \<and> out (fst e) \<longrightarrow>
           (\<exists>ob. observes (snd e) ob \<and> observation_erased M' ob)"
  proof (intro ballI impI)
    fix e assume e: "e \<in> set (rblocks (gproblem s))" "is_reprojection (snd e) \<and> out (fst e)"
    then have "e \<in> set ?rep" by simp
    then obtain j where j: "j < length ?rep" "?rep ! j = e"
      unfolding in_set_conv_nth by blast
    from link j have ob: "observes (snd e) (keypoint_ids s ! j)"
      by (auto dest: list_all2_nthD)
    have jl: "j < length (keypoint_ids s)" "j < length (residual_ids s)"
      using j(1) len ids by simp_all
    have "residual_ids s ! j = fst e" using ids j by simp
    then have "(fst e, keypoint_ids s ! j) \<in> set ?zs"
      using jl by (metis in_set_zip fst_conv snd_conv)
    with f e(2) have "observation_erased M' (keypoint_ids s ! j)" by force
    with ob show "\<exists>ob. observes (snd e) ob \<and> observation_erased M' ob" by blast
  qed
  show "pblocks P' = pblocks (gproblem s)" using f by simp
  have "map_core M' = map_core ?M1" using f by simp
  also have "\<dots> = map_core M" using pass_frame_gba_init(1)[OF bf(2)] by simp
  finally show "map_core M' = map_core M" .
  from f obtain R where "observations (lm_heap M' l) = filter R (observations (lm_heap ?M1 l))"
    by blast
  then show "\<exists>R. observations (lm_heap M' l) = filter R (observations (lm_heap M l))"
    using pass_frame_gba_init(2)[OF bf(2)] by (auto intro: exI[of _ R])
qed

lemma few_observations_filter:
  assumes "map_core M' = map_core M"
    and "observations (lm_heap M' l) = filter R (observations (lm_heap M l))"
    and "few_observations M l"
  shows "few_observations M' l"
proof -
  have "length (filter (valid_observation M) (filter R (observations (lm_heap M l))))
          \<le> length (filter (valid_observation M) (observations (lm_heap M l)))"
    unfolding filter_filter by (rule length_filter_imp) simp
  with assms(3) show ?thesis
    unfolding few_observations_def assms(2) valid_observation_core[OF assms(1)] by simp
qed

subsection \<open>The whole procedure\<close>

lemma gba_pass1_result:
  assumes "gba_pass1 X cfg visual_only M = Inr (M1, P1, num_bad)"
  obtains s where "gba1_build X visual_only M = Inr s"
  using assms unfolding gba_pass1_def by (auto split: sum.splits)

lemma GlobalBundleAdjustment_cases:
  assumes "GlobalBundleAdjustment X cfg M interations_limit time_limit visual_only
             outlier_removal estimate_bias = Inr M'"
  obtains (removal) M1 P1 num_bad where "outlier_removal"
      "gba_pass1 X cfg visual_only M = Inr (M1, P1, num_bad)"
      "gba_pass2 X cfg interations_limit visual_only M1 = Inr M'"
    | (plain) "\<not> outlier_removal" "gba_pass2 X cfg interations_limit visual_only M = Inr M'"
  using assms unfolding GlobalBundleAdjustment_def
  by (auto split: if_splits sum.splits prod.splits)


lemma GlobalBundleAdjustment_few:
  assumes run: "GlobalBundleAdjustment X cfg M interations_limit time_limit visual_only
             outlier_removal estimate_bias = Inr M'"
    and few: "few_observations M l"
  shows "WorldPos (lm_heap M' l) = WorldPos (lm_heap M l)"
  using run
proof (cases rule: GlobalBundleAdjustment_cases)
  case plain
  from gba_pass2_few[OF plain(2) few] show ?thesis .
next
  case (removal M1 P1 num_bad)
  from removal(2) obtain s where b: "gba1_build X visual_only M = Inr s"
    by (rule gba_pass1_result)
  note core = gba_pass1_facts(5)[OF b removal(2)]
  from gba_pass1_facts(6)[OF b removal(2), of l] obtain R where
    "observations (lm_heap M1 l) = filter R (observations (lm_heap M l))" ..
  from few_observations_filter[OF core this few] have "few_observations M1 l" .
  from gba_pass2_few[OF removal(3) this] lm_core_eqD(2)[OF map_core_eqD(6)[OF core, of l]]
  show ?thesis by simp
qed

lemma gba_pass1_few:
  assumes run: "gba_pass1 X cfg visual_only M = Inr (M1, P1, num_bad)"
    and few: "few_observations M l"
  shows "lm_excluded l P1" and "few_observations M1 l"
proof -
  from run obtain s where b: "gba1_build X visual_only M = Inr s"
    by (rule gba_pass1_result)
  note f = gba_pass1_facts[OF b run]
  from gba1_build_facts(3)[OF b few] show "lm_excluded l P1"
    unfolding lm_excluded_def f(1) f(4) by simp
  from f(6)[of l] obtain R where
    "observations (lm_heap M1 l) = filter R (observations (lm_heap M l))" ..
  from few_observations_filter[OF f(5) this few] show "few_observations M1 l" .
qed

subsection \<open>Properties of the bundle adjustment\<close>

lemmas gba_eval =
  gba1_build_def gba2_build_def gba_init_def gba1_add_keyframe_def gba2_add_keyframe_def
  gba_add_landmark_def gba_add_observation_def add_camera_parameters_def map_insert_def
  gba1_add_loop_def gba2_add_loop_def UpdateCeresFromState_def valid_observation_def
  reprojection_dispatch_def AddResidualBlock_def AddParameterBlock_def
  SetParameterBlockConstant_def empty_problem_def update_kf_def update_lm_def Let_def
  ex_gba_map_def ex_gba_kf_def ex_gba_lm_def ex_kf_def ex_lm_def ex_camera_def ex_loop_def
  ex_X_def ex_cfg_def upt3

lemmas gba_run_eval =
  GlobalBundleAdjustment_def gba_pass1_def gba_pass2_def SolveMap_def Solve_def Evaluate_def
  block_values_def store_block_def norm2_gt_iff EraseLandmark_def EraseObservation_def
  RemoveResidualBlock_def gba_recover_keyframe_def gba_recover_landmark_def
  gba1_solver_options_def gba2_solver_options_def default_options_def

text \<open>The bundle adjustment on the instance: visual only, with outlier removal.\<close>

lemma ex_gba_pass1_ok: "\<exists>M1 P1. gba_pass1 ex_X ex_cfg True ex_gba_map = Inr (M1, P1, 1)"
  by (simp add: gba_eval gba_run_eval)

lemma ex_gba_ok:
  "\<exists>M'. GlobalBundleAdjustment ex_X ex_cfg ex_gba_map 10 1 True True False = Inr M' \<and>
        landmarks (kf_heap M' 1) = [Some 0, None] \<and>
        observations (lm_heap M' 1) = [(Some 0, 1)]"
  by (simp add: gba_eval gba_run_eval)

text \<open>
  C3. A landmark with fewer than two observations by valid keyframes is left out of the
  problem of the second round and of the first, is still such a landmark after the first
  round, and has the same world position when the bundle adjustment returns.
\<close>

theorem gba_few_observations_excluded:
  assumes "few_observations M l"
  shows "(\<forall>s. gba2_build X cfg visual_only M = Inr s \<longrightarrow> lm_excluded l (gproblem s)) \<and>
         (\<forall>M1 P1 num_bad. gba_pass1 X cfg visual_only M = Inr (M1, P1, num_bad) \<longrightarrow>
            lm_excluded l P1 \<and> few_observations M1 l) \<and>
         (\<forall>M'. GlobalBundleAdjustment X cfg M interations_limit time_limit visual_only
                  outlier_removal estimate_bias = Inr M' \<longrightarrow>
            WorldPos (lm_heap M' l) = WorldPos (lm_heap M l))"
proof (intro conjI allI impI)
  fix s assume "gba2_build X cfg visual_only M = Inr s"
  from gba2_build_facts(4)[OF this assms] show "lm_excluded l (gproblem s)" .
next
  fix M1 P1 num_bad assume "gba_pass1 X cfg visual_only M = Inr (M1, P1, num_bad)"
  from gba_pass1_few[OF this assms] show "lm_excluded l P1" and "few_observations M1 l" .
next
  fix M' assume "GlobalBundleAdjustment X cfg M interations_limit time_limit visual_only
                  outlier_removal estimate_bias = Inr M'"
  from GlobalBundleAdjustment_few[OF this assms]
  show "WorldPos (lm_heap M' l) = WorldPos (lm_heap M l)" .
qed


lemma ex_gba_few: "few_observations ex_gba_map 2"
  by (simp add: few_observations_def valid_observation_def ex_gba_map_def ex_gba_lm_def
      ex_gba_kf_def ex_lm_def ex_kf_def)

theorem gba_few_observations_excluded_witness:
  "few_observations ex_gba_map 2 \<and>
   (\<exists>M1 P1 num_bad. gba_pass1 ex_X ex_cfg True ex_gba_map = Inr (M1, P1, num_bad) \<and>
      lm_excluded 2 P1 \<and> few_observations M1 2) \<and>
   (\<exists>M'. GlobalBundleAdjustment ex_X ex_cfg ex_gba_map 10 1 True True False = Inr M' \<and>
      WorldPos (lm_heap M' 2) = WorldPos (lm_heap ex_gba_map 2))"
proof -
  note th = gba_few_observations_excluded[OF ex_gba_few, of ex_X ex_cfg True 10 1 True False]
  from ex_gba_pass1_ok obtain M1 P1 where
    p: "gba_pass1 ex_X ex_cfg True ex_gba_map = Inr (M1, P1, 1)" by blast
  from ex_gba_ok obtain M' where
    g: "GlobalBundleAdjustment ex_X ex_cfg ex_gba_map 10 1 True True False = Inr M'" by blast
  from th p g ex_gba_few show ?thesis by blast
qed

lemma gba_recover_keyframe_landmarks:
  "landmarks (kf_heap (gba_recover_keyframe X vo a M) b) = landmarks (kf_heap M b)"
  by (simp add: gba_recover_keyframe_def)

lemma fold_gba_recover_keyframe_landmarks:
  "landmarks (kf_heap (fold (gba_recover_keyframe X vo) ks M) b) = landmarks (kf_heap M b)"
  by (induction ks arbitrary: M) (simp_all add: gba_recover_keyframe_landmarks)

lemma gba_recover_landmark_observations:
  "observations (lm_heap (gba_recover_landmark ni i M) l) = observations (lm_heap M l)"
  by (simp add: gba_recover_landmark_frame(4))

lemma fold_gba_recover_landmark_observations:
  "observations (lm_heap (fold (gba_recover_landmark ni) js M) l) = observations (lm_heap M l)"
  by (induction js arbitrary: M) (simp_all add: gba_recover_landmark_observations)

lemma gba_pass2_observations:
  assumes run: "gba_pass2 X cfg interations_limit visual_only M = Inr M'"
  shows "observations (lm_heap M' l) = observations (lm_heap M l)"
    and "landmarks (kf_heap M' a) = landmarks (kf_heap M a)"
proof -
  from run obtain s where b: "gba2_build X cfg visual_only M = Inr s"
    and M': "M' = fold (gba_recover_landmark (not_included_lms s)) [0..<length (LandmarksVec M)]
                   (fold (gba_recover_keyframe X visual_only) (KeyframesVec M)
                      (SolveMap X (gba2_solver_options cfg interations_limit) (gproblem s) (gmap s)))"
    unfolding gba_pass2_def Let_def by (auto split: sum.splits)
  let ?M1 = "SolveMap X (gba2_solver_options cfg interations_limit) (gproblem s) (gmap s)"
  let ?M2 = "fold (gba_recover_keyframe X visual_only) (KeyframesVec M) ?M1"
  from gba2_build_facts(2)[OF b]
  have o: "observations (lm_heap (gmap s) l) = observations (lm_heap M l)"
    and k: "landmarks (kf_heap (gmap s) a) = landmarks (kf_heap M a)"
    unfolding pass_frame_def by (simp_all add: gba_init_def)
  have h2: "lm_heap ?M2 = lm_heap ?M1"
    using fold_gba_recover_keyframe[of X visual_only "KeyframesVec M" ?M1] by simp
  show "observations (lm_heap M' l) = observations (lm_heap M l)"
    unfolding M' by (simp add: fold_gba_recover_landmark_observations h2 o)
  have "kf_heap M' = kf_heap ?M2"
    unfolding M' using fold_gba_recover_landmark[of "not_included_lms s"
        "[0..<length (LandmarksVec M)]" ?M2] by simp
  then show "landmarks (kf_heap M' a) = landmarks (kf_heap M a)"
    by (simp add: fold_gba_recover_keyframe_landmarks k)
qed

lemma gba_pass2_erased:
  assumes "gba_pass2 X cfg interations_limit visual_only M = Inr M'"
    and "observation_erased M ob"
  shows "observation_erased M' ob"
  using assms(2) unfolding observation_erased_def
  by (simp add: gba_pass2_observations[OF assms(1)])

text \<open>
  C2. When the bundle adjustment with outlier removal returns, its first round has
  returned a map, a problem and a count, and the second round has run on that map. The
  residual blocks left in the problem of the first round are those that are no
  reprojection error whose residual norm exceeds the threshold; the count is the number
  of the reprojection errors whose residual norm exceeds the threshold; each of these
  stands for an observation that is erased from its keyframe and from its landmark, in
  the map of the first round and in the map the bundle adjustment returns; and the
  residual norm of every reprojection error that is left is at most the threshold. The
  residuals are those evaluated on the problem as built, after the solve of the first
  round, and their norms are the norms the matrix library computes.
\<close>

theorem gba_outlier_removal:
  assumes "GlobalBundleAdjustment X cfg M interations_limit time_limit visual_only True
             estimate_bias = Inr M''"
  shows "\<exists>s M' P' num_bad.
           gba1_build X visual_only M = Inr s \<and>
           gba_pass1 X cfg visual_only M = Inr (M', P', num_bad) \<and>
           gba_pass2 X cfg interations_limit visual_only M' = Inr M'' \<and>
           (let v = block_values (SolveMap X (gba1_solver_options cfg) (gproblem s) (gmap s));
                out = gba_is_outlier X (th_gba_outlier_global cfg) (gproblem s) v
            in rblocks P' =
                 filter (\<lambda>e. \<not> (is_reprojection (snd e) \<and> out (fst e))) (rblocks (gproblem s)) \<and>
               num_bad =
                 length (filter (\<lambda>e. is_reprojection (snd e) \<and> out (fst e))
                           (rblocks (gproblem s))) \<and>
               (\<forall>e \<in> set (rblocks (gproblem s)). is_reprojection (snd e) \<and> out (fst e) \<longrightarrow>
                  (\<exists>ob. observes (snd e) ob \<and> observation_erased M' ob \<and>
                        observation_erased M'' ob)) \<and>
               (\<forall>e \<in> set (rblocks P'). is_reprojection (snd e) \<longrightarrow>
                  VectorNorm X (fst (residual X (gproblem s) v (fst e)))
                        (snd (residual X (gproblem s) v (fst e)))
                    \<le> th_gba_outlier_global cfg))"
  using assms
proof (cases rule: GlobalBundleAdjustment_cases)
  case plain
  then show ?thesis by simp
next
  case (removal M' P' num_bad)
  from removal(2) obtain s where b: "gba1_build X visual_only M = Inr s"
    by (rule gba_pass1_result)
  note f = gba_pass1_facts[OF b removal(2)]
  let ?v = "block_values (SolveMap X (gba1_solver_options cfg) (gproblem s) (gmap s))"
  let ?out = "gba_is_outlier X (th_gba_outlier_global cfg) (gproblem s) ?v"
  have "\<forall>e \<in> set (rblocks P'). is_reprojection (snd e) \<longrightarrow> \<not> ?out (fst e)"
    unfolding f(1) by simp
  then have le: "\<forall>e \<in> set (rblocks P'). is_reprojection (snd e) \<longrightarrow>
     VectorNorm X (fst (residual X (gproblem s) ?v (fst e)))
           (snd (residual X (gproblem s) ?v (fst e)))
       \<le> th_gba_outlier_global cfg"
    unfolding gba_is_outlier_def by (simp add: not_less)
  have er: "\<forall>e \<in> set (rblocks (gproblem s)). is_reprojection (snd e) \<and> ?out (fst e) \<longrightarrow>
              (\<exists>ob. observes (snd e) ob \<and> observation_erased M' ob \<and>
                    observation_erased M'' ob)"
    using f(3) gba_pass2_erased[OF removal(3)] by blast
  have "let v = ?v; out = gba_is_outlier X (th_gba_outlier_global cfg) (gproblem s) v
        in rblocks P' =
             filter (\<lambda>e. \<not> (is_reprojection (snd e) \<and> out (fst e))) (rblocks (gproblem s)) \<and>
           num_bad =
             length (filter (\<lambda>e. is_reprojection (snd e) \<and> out (fst e))
                       (rblocks (gproblem s))) \<and>
           (\<forall>e \<in> set (rblocks (gproblem s)). is_reprojection (snd e) \<and> out (fst e) \<longrightarrow>
              (\<exists>ob. observes (snd e) ob \<and> observation_erased M' ob \<and>
                    observation_erased M'' ob)) \<and>
           (\<forall>e \<in> set (rblocks P'). is_reprojection (snd e) \<longrightarrow>
              VectorNorm X (fst (residual X (gproblem s) v (fst e)))
                    (snd (residual X (gproblem s) v (fst e)))
                \<le> th_gba_outlier_global cfg)"
    using f(1,2) er le by (simp add: Let_def)
  with b removal(2,3) show ?thesis by blast
qed

theorem gba_outlier_removal_witness:
  "\<exists>M'' s M' P'.
     GlobalBundleAdjustment ex_X ex_cfg ex_gba_map 10 1 True True False = Inr M'' \<and>
     gba1_build ex_X True ex_gba_map = Inr s \<and>
     gba_pass1 ex_X ex_cfg True ex_gba_map = Inr (M', P', 1) \<and>
     gba_pass2 ex_X ex_cfg 10 True M' = Inr M'' \<and>
     landmarks (kf_heap ex_gba_map 1) = [Some 0, Some 1] \<and>
     landmarks (kf_heap M'' 1) = [Some 0, None] \<and>
     observations (lm_heap ex_gba_map 1) = [(Some 0, 1), (Some 1, 1)] \<and>
     observations (lm_heap M'' 1) = [(Some 0, 1)] \<and>
     (let v = block_values (SolveMap ex_X (gba1_solver_options ex_cfg) (gproblem s) (gmap s));
          out = gba_is_outlier ex_X (th_gba_outlier_global ex_cfg) (gproblem s) v
      in rblocks P' =
           filter (\<lambda>e. \<not> (is_reprojection (snd e) \<and> out (fst e))) (rblocks (gproblem s)) \<and>
         1 = length (filter (\<lambda>e. is_reprojection (snd e) \<and> out (fst e))
                       (rblocks (gproblem s))) \<and>
         (\<forall>e \<in> set (rblocks (gproblem s)). is_reprojection (snd e) \<and> out (fst e) \<longrightarrow>
            (\<exists>ob. observes (snd e) ob \<and> observation_erased M' ob \<and>
                  observation_erased M'' ob)) \<and>
         (\<forall>e \<in> set (rblocks P'). is_reprojection (snd e) \<longrightarrow>
            VectorNorm ex_X (fst (residual ex_X (gproblem s) v (fst e)))
                  (snd (residual ex_X (gproblem s) v (fst e)))
              \<le> th_gba_outlier_global ex_cfg))"
proof -
  from ex_gba_ok obtain M'' where
    g: "GlobalBundleAdjustment ex_X ex_cfg ex_gba_map 10 1 True True False = Inr M''"
    and e: "landmarks (kf_heap M'' 1) = [Some 0, None]"
      "observations (lm_heap M'' 1) = [(Some 0, 1)]" by blast
  have b: "landmarks (kf_heap ex_gba_map 1) = [Some 0, Some 1]"
    "observations (lm_heap ex_gba_map 1) = [(Some 0, 1), (Some 1, 1)]"
    by (simp_all add: ex_gba_map_def ex_gba_kf_def ex_gba_lm_def ex_kf_def ex_lm_def)
  from ex_gba_pass1_ok obtain M1 P1 where
    p: "gba_pass1 ex_X ex_cfg True ex_gba_map = Inr (M1, P1, 1)" by blast
  from gba_outlier_removal[OF g] p g e b show ?thesis by (auto simp: Let_def)
qed

subsection \<open>The two rounds side by side\<close>

text \<open>
  C7. The first round does not build its problem as the second does. On the instance, a
  map with one loop constraint, run visual only: with the loop constraints of the map
  switched off in the configuration the first round still adds the loop edge and the
  second adds none, so the first round has a residual block whose cost function no
  residual block of the second has. With them switched on both rounds have the same
  parameter blocks and the same cost functions on the same blocks, and the loop edge of
  the first round has no loss function where that of the second has the Cauchy loss.
\<close>

theorem gba_rounds_differ:
  "\<exists>s1 s2 s3.
     gba1_build ex_X True ex_gba_map = Inr s1 \<and>
     gba2_build ex_X (ex_cfg\<lparr>gba_use_map_loop_constraints := False\<rparr>) True ex_gba_map = Inr s2 \<and>
     gba2_build ex_X (ex_cfg\<lparr>gba_use_map_loop_constraints := True\<rparr>) True ex_gba_map = Inr s3 \<and>
     SixDofBetweenError (ex_pose 2 0 0) 100 10000
       \<in> set (map (\<lambda>e. cost (snd e)) (rblocks (gproblem s1))) \<and>
     SixDofBetweenError (ex_pose 2 0 0) 100 10000
       \<notin> set (map (\<lambda>e. cost (snd e)) (rblocks (gproblem s2))) \<and>
     length (rblocks (gproblem s1)) = 6 \<and> length (rblocks (gproblem s2)) = 5 \<and>
     pblocks (gproblem s1) = pblocks (gproblem s2) \<and>
     pblocks (gproblem s1) = pblocks (gproblem s3) \<and>
     map (\<lambda>e. (cost (snd e), parameter_blocks (snd e))) (rblocks (gproblem s1)) =
       map (\<lambda>e. (cost (snd e), parameter_blocks (snd e))) (rblocks (gproblem s3)) \<and>
     map (\<lambda>e. loss (snd e)) (rblocks (gproblem s1)) =
       [CauchyLoss 1, CauchyLoss 1, CauchyLoss 1, CauchyLoss 1, CauchyLoss 1, NoLoss] \<and>
     map (\<lambda>e. loss (snd e)) (rblocks (gproblem s3)) =
       [CauchyLoss 1, CauchyLoss 1, CauchyLoss 1, CauchyLoss 1, CauchyLoss 1, CauchyLoss 1]"
  by (simp add: gba_eval HasParameterBlock_def)

text \<open>
  C8. The bundle adjustment does not read its time budget: the result is the same for any
  two budgets, and the options of both solves keep the library's default limit of
  \<open>10\<^sup>9\<close> seconds.
\<close>

theorem GlobalBundleAdjustment_time_limit_unused:
  "GlobalBundleAdjustment X cfg M interations_limit time_limit visual_only outlier_removal
       estimate_bias =
     GlobalBundleAdjustment X cfg M interations_limit time_limit' visual_only outlier_removal
       estimate_bias \<and>
   max_solver_time_in_seconds (gba1_solver_options cfg) = 1000000000 \<and>
   max_solver_time_in_seconds (gba2_solver_options cfg interations_limit) = 1000000000"
  by (simp add: GlobalBundleAdjustment_def gba1_solver_options_def gba2_solver_options_def
      default_options_def)

subsection \<open>Pose-graph optimization: the problem\<close>


lemma fold_invariant:
  assumes "I s" and "\<And>x t. x \<in> set xs \<Longrightarrow> I t \<Longrightarrow> I (f x t)"
  shows "I (fold f xs s)"
  using assms by (induction xs arbitrary: s) simp_all

lemma pgo_grows_refl [simp]: "pgo_grows B K s s"
  by (simp add: pgo_grows_def)

lemma pgo_grows_trans:
  assumes "pgo_grows B K s t" and "pgo_grows B K t u"
  shows "pgo_grows B K s u"
proof -
  from assms(1) obtain e1 where e1: "rblocks (pproblem t) = rblocks (pproblem s) @ e1"
    "list_all (\<lambda>e. K (snd e)) e1" unfolding pgo_grows_def by blast
  from assms(2) obtain e2 where e2: "rblocks (pproblem u) = rblocks (pproblem t) @ e2"
    "list_all (\<lambda>e. K (snd e)) e2" unfolding pgo_grows_def by blast
  have "rblocks (pproblem u) = rblocks (pproblem s) @ (e1 @ e2)"
    "list_all (\<lambda>e. K (snd e)) (e1 @ e2)" using e1 e2 by simp_all
  then have "\<exists>extra. rblocks (pproblem u) = rblocks (pproblem s) @ extra \<and>
        list_all (\<lambda>e. K (snd e)) extra" by blast
  moreover have "pmap u = pmap s" "q_ws_map u = q_ws_map s"
    "pconstant (pproblem u) = pconstant (pproblem s)"
    "set (pblocks (pproblem s)) \<subseteq> set (pblocks (pproblem u))"
    "\<forall>b \<in> set (pblocks (pproblem u)). b \<in> set (pblocks (pproblem s)) \<or> B b"
    using assms unfolding pgo_grows_def by auto
  ultimately show ?thesis unfolding pgo_grows_def by blast
qed

lemma pgo_grows_fold:
  assumes "\<And>x t. x \<in> set xs \<Longrightarrow> pgo_grows B K t (f x t)"
  shows "pgo_grows B K s (fold f xs s)"
proof (rule fold_invariant[where I = "pgo_grows B K s"])
  show "pgo_grows B K s s" by simp
next
  fix x t assume "x \<in> set xs" and "pgo_grows B K s t"
  with assms[of x t] show "pgo_grows B K s (f x t)" by (blast intro: pgo_grows_trans)
qed

lemma pgo_grows_foldE:
  assumes "foldE f xs s = Inr s'"
    and "\<And>x t t'. x \<in> set xs \<Longrightarrow> f x t = Inr t' \<Longrightarrow> pgo_grows B K t t'"
  shows "pgo_grows B K s s'"
proof (rule foldE_invariant[where I = "pgo_grows B K s", OF assms(1)])
  show "pgo_grows B K s s" by simp
next
  fix x t t' assume "x \<in> set xs" and "pgo_grows B K s t" and "f x t = Inr t'"
  with assms(2)[of x t t'] show "pgo_grows B K s t'" by (blast intro: pgo_grows_trans)
qed

lemma pgo_grows_edge:
  assumes "K \<lparr>cost = c, loss = l, parameter_blocks = bs\<rparr>" and "\<forall>b \<in> set bs. B b"
  shows "pgo_grows B K s
           (s\<lparr>inserted_edges := E,
              pproblem := snd (AddResidualBlock c l bs (pproblem s))\<rparr>)"
  using assms unfolding pgo_grows_def by auto

lemma pgo4_add_edge_grows:
  "pgo_grows yaw_or_trans (\<lambda>rb. \<not> is_weighted rb) s (pgo4_add_edge X a c s)"
  unfolding pgo4_add_edge_def Let_def
  by (auto intro!: pgo_grows_edge simp: is_weighted_def yaw_or_trans_def)

lemma pgo_add_edge_grows:
  "pgo_grows pose_or_extrinsics (pgo_kf_edge cfg) s (pgo_add_edge X cfg a c s)"
  unfolding pgo_add_edge_def Let_def
  by (auto intro!: pgo_grows_edge simp: pgo_kf_edge_def pose_or_extrinsics_def)

lemma pgo4_add_successor_edge_grows:
  "pgo_grows yaw_or_trans (\<lambda>rb. \<not> is_weighted rb) s (pgo4_add_successor_edge X a s)"
  unfolding pgo4_add_successor_edge_def Let_def
  by (simp add: pgo4_add_edge_grows split: option.splits)

lemma pgo_add_successor_edge_grows:
  "pgo_grows pose_or_extrinsics (pgo_kf_edge cfg) s (pgo_add_successor_edge X cfg a s)"
  unfolding pgo_add_successor_edge_def Let_def
  by (simp add: pgo_add_edge_grows split: option.splits)

lemma pgo4_add_neighbours_grows:
  assumes "pgo4_add_neighbours X a s = Inr t"
  shows "pgo_grows yaw_or_trans (\<lambda>rb. \<not> is_weighted rb) s t"
proof (cases "kf_IsInvalid (kf_heap (pmap s) a)")
  case True
  with assms show ?thesis by (simp add: pgo4_add_neighbours_def)
next
  case False
  with assms obtain cs where
    "foldE (\<lambda>kfc t. case kfc of None \<Rightarrow> Inl NullPointer
                              | Some c \<Rightarrow> Inr (pgo4_add_edge X a c t)) cs s = Inr t"
    by (auto simp: pgo4_add_neighbours_def Let_def split: sum.splits)
  then show ?thesis
    by (rule pgo_grows_foldE) (auto split: option.splits simp: pgo4_add_edge_grows)
qed

lemma pgo_add_neighbours_grows:
  assumes "pgo_add_neighbours X cfg a s = Inr t"
  shows "pgo_grows pose_or_extrinsics (pgo_kf_edge cfg) s t"
proof (cases "kf_IsInvalid (kf_heap (pmap s) a)")
  case True
  with assms show ?thesis by (simp add: pgo_add_neighbours_def)
next
  case False
  with assms obtain cs where
    "foldE (\<lambda>kfc t. case kfc of None \<Rightarrow> Inl NullPointer
                              | Some c \<Rightarrow> Inr (pgo_add_edge X cfg a c t)) cs s = Inr t"
    by (auto simp: pgo_add_neighbours_def Let_def split: sum.splits)
  then show ?thesis
    by (rule pgo_grows_foldE) (auto split: option.splits simp: pgo_add_edge_grows)
qed

text \<open>The loop edges, in the order of the loop constraints.\<close>

lemma pgo4_loops_rblocks:
  "\<exists>new. rblocks (pproblem (fold (pgo4_add_loop X) ls s)) = rblocks (pproblem s) @ new \<and>
         list_all2 pgo4_loop_edge ls (map snd new)"
proof (induction ls arbitrary: s)
  case Nil
  then show ?case by simp
next
  case (Cons i ls)
  from Cons.IH[of "pgo4_add_loop X i s"] obtain new where
    n: "rblocks (pproblem (fold (pgo4_add_loop X) ls (pgo4_add_loop X i s))) =
          rblocks (pproblem (pgo4_add_loop X i s)) @ new"
       "list_all2 pgo4_loop_edge ls (map snd new)" by blast
  obtain e where e: "rblocks (pproblem (pgo4_add_loop X i s)) = rblocks (pproblem s) @ [e]"
    "pgo4_loop_edge i (snd e)"
    by (simp add: pgo4_add_loop_def Let_def pgo4_loop_edge_def)
  have "rblocks (pproblem (fold (pgo4_add_loop X) (i # ls) s)) = rblocks (pproblem s) @ (e # new)"
    "list_all2 pgo4_loop_edge (i # ls) (map snd (e # new))"
    using n e by simp_all
  then show ?case by blast
qed

lemma pgo_loops_rblocks:
  "\<exists>new. rblocks (pproblem (fold (pgo_add_loop X cfg) ls s)) = rblocks (pproblem s) @ new \<and>
         list_all2 (pgo_loop_edge X cfg) ls (map snd new)"
proof (induction ls arbitrary: s)
  case Nil
  then show ?case by simp
next
  case (Cons i ls)
  from Cons.IH[of "pgo_add_loop X cfg i s"] obtain new where
    n: "rblocks (pproblem (fold (pgo_add_loop X cfg) ls (pgo_add_loop X cfg i s))) =
          rblocks (pproblem (pgo_add_loop X cfg i s)) @ new"
       "list_all2 (pgo_loop_edge X cfg) ls (map snd new)" by blast
  obtain e where e: "rblocks (pproblem (pgo_add_loop X cfg i s)) = rblocks (pproblem s) @ [e]"
    "pgo_loop_edge X cfg i (snd e)"
    by (simp add: pgo_add_loop_def Let_def pgo_loop_edge_def pgo_loop_weight_def)
  have "rblocks (pproblem (fold (pgo_add_loop X cfg) (i # ls) s)) = rblocks (pproblem s) @ (e # new)"
    "list_all2 (pgo_loop_edge X cfg) (i # ls) (map snd (e # new))"
    using n e by simp_all
  then show ?case by blast
qed

lemma pgo4_add_keyframe_rblocks:
  "rblocks (pproblem (pgo4_add_keyframe X cfg a s)) = rblocks (pproblem s)"
  by (simp add: pgo4_add_keyframe_def Let_def)

lemma pgo_add_keyframe_rblocks:
  "rblocks (pproblem (pgo_add_keyframe X cp a s)) = rblocks (pproblem s)"
  by (simp add: pgo_add_keyframe_def Let_def)

lemma pgo4_keyframes_rblocks:
  "rblocks (pproblem (fold (pgo4_add_keyframe X cfg) ks (pgo_init M))) = []"
  by (rule fold_invariant[where I = "\<lambda>s. rblocks (pproblem s) = []"])
     (simp_all add: pgo_init_def pgo4_add_keyframe_rblocks)

lemma pgo_keyframes_rblocks:
  "rblocks (pproblem (fold (pgo_add_keyframe X cp) ks (pgo_init M))) = []"
  by (rule fold_invariant[where I = "\<lambda>s. rblocks (pproblem s) = []"])
     (simp_all add: pgo_init_def pgo_add_keyframe_rblocks)

lemma pgo4_build_edges:
  assumes "pgo4_build X cfg M = Inr s"
  shows "pgo_grows yaw_or_trans (\<lambda>rb. \<not> is_weighted rb)
           (fold (pgo4_add_loop X) (LoopConstraints M)
              (fold (pgo4_add_keyframe X cfg) (KeyframesVec M) (pgo_init M))) s"
proof -
  let ?s2 = "fold (pgo4_add_loop X) (LoopConstraints M)
              (fold (pgo4_add_keyframe X cfg) (KeyframesVec M) (pgo_init M))"
  let ?s3 = "fold (pgo4_add_successor_edge X) (KeyframesVec M) ?s2"
  have a: "pgo_grows yaw_or_trans (\<lambda>rb. \<not> is_weighted rb) ?s2 ?s3"
    by (rule pgo_grows_fold) (rule pgo4_add_successor_edge_grows)
  from assms have "foldE (pgo4_add_neighbours X) (KeyframesVec M) ?s3 = Inr s"
    by (simp add: pgo4_build_def Let_def)
  then have "pgo_grows yaw_or_trans (\<lambda>rb. \<not> is_weighted rb) ?s3 s"
    by (rule pgo_grows_foldE) (rule pgo4_add_neighbours_grows)
  with a show ?thesis by (rule pgo_grows_trans)
qed

lemma pgo_build_edges:
  assumes "pgo_build X cfg M cp = Inr s"
  shows "pgo_grows pose_or_extrinsics (pgo_kf_edge cfg)
           (fold (pgo_add_loop X cfg) (LoopConstraints M)
              (fold (pgo_add_keyframe X cp) (KeyframesVec M) (pgo_init M))) s"
proof -
  let ?s2 = "fold (pgo_add_loop X cfg) (LoopConstraints M)
              (fold (pgo_add_keyframe X cp) (KeyframesVec M) (pgo_init M))"
  let ?s3 = "fold (pgo_add_successor_edge X cfg) (KeyframesVec M) ?s2"
  have a: "pgo_grows pose_or_extrinsics (pgo_kf_edge cfg) ?s2 ?s3"
    by (rule pgo_grows_fold) (rule pgo_add_successor_edge_grows)
  from assms have "foldE (pgo_add_neighbours X cfg) (KeyframesVec M) ?s3 = Inr s"
    by (simp add: pgo_build_def Let_def)
  then have "pgo_grows pose_or_extrinsics (pgo_kf_edge cfg) ?s3 s"
    by (rule pgo_grows_foldE) (rule pgo_add_neighbours_grows)
  with a show ?thesis by (rule pgo_grows_trans)
qed

lemma pgo4_build_loop_edges:
  assumes "pgo4_build X cfg M = Inr s"
  shows "list_all2 pgo4_loop_edge (LoopConstraints M)
           (map snd (take (length (LoopConstraints M)) (rblocks (pproblem s))))"
    and "list_all (\<lambda>e. \<not> is_weighted (snd e))
           (drop (length (LoopConstraints M)) (rblocks (pproblem s)))"
proof -
  let ?s1 = "fold (pgo4_add_keyframe X cfg) (KeyframesVec M) (pgo_init M)"
  from pgo4_loops_rblocks[of X "LoopConstraints M" ?s1] obtain new where
    n: "rblocks (pproblem (fold (pgo4_add_loop X) (LoopConstraints M) ?s1)) = new"
       "list_all2 pgo4_loop_edge (LoopConstraints M) (map snd new)"
    by (auto simp: pgo4_keyframes_rblocks)
  from pgo4_build_edges[OF assms] n(1) obtain extra where
    e: "rblocks (pproblem s) = new @ extra" "list_all (\<lambda>e. \<not> is_weighted (snd e)) extra"
    unfolding pgo_grows_def by auto
  have len: "length new = length (LoopConstraints M)"
    using list_all2_lengthD[OF n(2)] by simp
  show "list_all2 pgo4_loop_edge (LoopConstraints M)
           (map snd (take (length (LoopConstraints M)) (rblocks (pproblem s))))"
    using n(2) e(1) len by simp
  show "list_all (\<lambda>e. \<not> is_weighted (snd e))
           (drop (length (LoopConstraints M)) (rblocks (pproblem s)))"
    using e len by simp
qed

lemma pgo_build_loop_edges:
  assumes "pgo_build X cfg M cp = Inr s"
  shows "list_all2 (pgo_loop_edge X cfg) (LoopConstraints M)
           (map snd (take (length (LoopConstraints M)) (rblocks (pproblem s))))"
    and "list_all (\<lambda>e. pgo_kf_edge cfg (snd e))
           (drop (length (LoopConstraints M)) (rblocks (pproblem s)))"
proof -
  let ?s1 = "fold (pgo_add_keyframe X cp) (KeyframesVec M) (pgo_init M)"
  from pgo_loops_rblocks[of X cfg "LoopConstraints M" ?s1] obtain new where
    n: "rblocks (pproblem (fold (pgo_add_loop X cfg) (LoopConstraints M) ?s1)) = new"
       "list_all2 (pgo_loop_edge X cfg) (LoopConstraints M) (map snd new)"
    by (auto simp: pgo_keyframes_rblocks)
  from pgo_build_edges[OF assms] n(1) obtain extra where
    e: "rblocks (pproblem s) = new @ extra" "list_all (\<lambda>e. pgo_kf_edge cfg (snd e)) extra"
    unfolding pgo_grows_def by auto
  have len: "length new = length (LoopConstraints M)"
    using list_all2_lengthD[OF n(2)] by simp
  show "list_all2 (pgo_loop_edge X cfg) (LoopConstraints M)
           (map snd (take (length (LoopConstraints M)) (rblocks (pproblem s))))"
    using n(2) e(1) len by simp
  show "list_all (\<lambda>e. pgo_kf_edge cfg (snd e))
           (drop (length (LoopConstraints M)) (rblocks (pproblem s)))"
    using e len by simp
qed

text \<open>The builds and the procedures without their local names, for evaluation.\<close>

lemma pgo4_build_unfold:
  "pgo4_build X cfg M =
     foldE (pgo4_add_neighbours X) (KeyframesVec M)
       (fold (pgo4_add_successor_edge X) (KeyframesVec M)
          (fold (pgo4_add_loop X) (LoopConstraints M)
             (fold (pgo4_add_keyframe X cfg) (KeyframesVec M) (pgo_init M))))"
  unfolding pgo4_build_def Let_def ..

lemma pgo_build_unfold:
  "pgo_build X cfg M corrected_poses =
     foldE (pgo_add_neighbours X cfg) (KeyframesVec M)
       (fold (pgo_add_successor_edge X cfg) (KeyframesVec M)
          (fold (pgo_add_loop X cfg) (LoopConstraints M)
             (fold (pgo_add_keyframe X corrected_poses) (KeyframesVec M) (pgo_init M))))"
  unfolding pgo_build_def Let_def ..



subsection \<open>Pose-graph optimization: the anchor\<close>

lemma map_core_update_kf_const:
  "kf_core k' = kf_core (kf_heap M a) \<Longrightarrow> map_core (update_kf a (\<lambda>k. k') M) = map_core M"
  by (auto simp: map_core_def update_kf_def fun_eq_iff)





























subsection \<open>Properties of the pose-graph optimization\<close>

lemmas pgo_eval =
  pgo4_build_unfold pgo_build_unfold pgo_init_def pgo4_add_keyframe_def pgo_add_keyframe_def
  pgo4_add_loop_def pgo_add_loop_def pgo_loop_weight_def pgo4_add_edge_def pgo_add_edge_def
  pgo4_add_successor_edge_def pgo_add_successor_edge_def pgo4_add_neighbours_def
  pgo_add_neighbours_def euler_connected_def translation_of_def int32_def
  UpdateCeresFromState_def AddResidualBlock_def AddParameterBlock_def
  SetParameterBlockConstant_def empty_problem_def update_kf_def update_lm_def Let_def
  ex_pgo_map_def ex_gba_map_def ex_gba_kf_def ex_gba_lm_def ex_kf_def ex_lm_def
  ex_camera_def ex_loop_def ex_cov_def ex_pose_def ex_X_def ex_cfg_def

lemma ex_pgo_builds_ok:
  "\<exists>s4 s6. pgo4_build ex_X ex_cfg ex_pgo_map = Inr s4 \<and>
           pgo_build ex_X ex_cfg ex_pgo_map (\<lambda>i. None) = Inr s6"
  by (simp add: pgo_eval)

text \<open>
  C6, as the code has it. In the 4-DoF variant the residual blocks of the problem begin
  with one block for every loop constraint, in their order, whose weight is 1 whatever
  the covariance, and no later block is a weighted error. In the 6-DoF variant they begin
  with one block for every loop constraint whose weight is the one of the three loop
  weights of the configuration that belongs to the band of its covariance trace, and
  every later block has the two keyframe weights. The trace is the value that the matrix
  library computes in double arithmetic for the lower right block of the covariance, the
  collaborator \<open>BlockTrace\<close>; the bands compare that value with the two switches.
\<close>

theorem pgo_loop_edge_weights:
  "(\<forall>s. pgo4_build X cfg M = Inr s \<longrightarrow>
      list_all2 pgo4_loop_edge (LoopConstraints M)
        (map snd (take (length (LoopConstraints M)) (rblocks (pproblem s)))) \<and>
      list_all (\<lambda>e. \<not> is_weighted (snd e))
        (drop (length (LoopConstraints M)) (rblocks (pproblem s)))) \<and>
   (\<forall>s. pgo_build X cfg M corrected_poses = Inr s \<longrightarrow>
      list_all2 (pgo_loop_edge X cfg) (LoopConstraints M)
        (map snd (take (length (LoopConstraints M)) (rblocks (pproblem s)))) \<and>
      list_all (\<lambda>e. pgo_kf_edge cfg (snd e))
        (drop (length (LoopConstraints M)) (rblocks (pproblem s))))"
  using pgo4_build_loop_edges pgo_build_loop_edges by blast

theorem pgo_loop_edge_weights_witness:
  "\<exists>s4 s6. pgo4_build ex_X ex_cfg ex_pgo_map = Inr s4 \<and>
           pgo_build ex_X ex_cfg ex_pgo_map (\<lambda>i. None) = Inr s6 \<and>
           list_all2 pgo4_loop_edge (LoopConstraints ex_pgo_map)
             (map snd (take (length (LoopConstraints ex_pgo_map)) (rblocks (pproblem s4)))) \<and>
           list_all2 (pgo_loop_edge ex_X ex_cfg) (LoopConstraints ex_pgo_map)
             (map snd (take (length (LoopConstraints ex_pgo_map)) (rblocks (pproblem s6))))"
proof -
  from ex_pgo_builds_ok obtain s4 s6 where
    b: "pgo4_build ex_X ex_cfg ex_pgo_map = Inr s4"
       "pgo_build ex_X ex_cfg ex_pgo_map (\<lambda>i. None) = Inr s6" by blast
  from pgo_loop_edge_weights[of ex_X ex_cfg ex_pgo_map "\<lambda>i. None"] b show ?thesis by blast
qed

text \<open>
  C6, as the specification has it, fails. On the instance, whose two loop constraints have
  covariance traces in the first and in the last band, the 4-DoF variant gives both loop
  edges the weight 1, and the 6-DoF variant gives the first the weight \<open>1 / 2\<close> and the
  second the weight \<open>1 / 64\<close> of the configuration.
\<close>

theorem pgo_loop_weights_swapped:
  "\<exists>s4 s6. pgo4_build ex_X ex_cfg ex_pgo_map = Inr s4 \<and>
           pgo_build ex_X ex_cfg ex_pgo_map (\<lambda>i. None) = Inr s6 \<and>
           map (\<lambda>i. BlockTrace ex_X (cov_mat i)) (LoopConstraints ex_pgo_map) = [3 / 64, 3] \<and>
           map (\<lambda>e. cost (snd e)) (take 2 (rblocks (pproblem s4))) =
             [FourDOFWeightError [2, 0, 0] 0 (Some (0, 0)) 1,
              FourDOFWeightError [2, 0, 0] 0 (Some (0, 0)) 1] \<and>
           map (\<lambda>e. cost (snd e)) (take 2 (rblocks (pproblem s6))) =
             [SixDofBetweenError (ex_pose 2 0 0) (1 / 2) (1 / 2),
              SixDofBetweenError (ex_pose 2 0 0) (1 / 64) (1 / 64)]"
  by (simp add: pgo_eval)










subsection \<open>Local bundle adjustment: the between factors\<close>

lemma between_factors_simps [simp]:
  "between_factors (AddParameterBlock b P) = between_factors P"
  "between_factors (SetParameterBlockConstant b P) = between_factors P"
  "between_factors (snd (AddResidualBlock c l bs P)) =
     between_factors P @
       (if is_between \<lparr>cost = c, loss = l, parameter_blocks = bs\<rparr>
        then [\<lparr>cost = c, loss = l, parameter_blocks = bs\<rparr>] else [])"
  by (simp_all add: between_factors_def)

lemma lba_add_camera_parameters_frame:
  assumes "lba_add_camera_parameters kf s = Inr t"
  shows "lmap t = lmap s" and "between_factors (lproblem t) = between_factors (lproblem s)"
  using assms
  by (auto simp: lba_add_camera_parameters_def Let_def split: CameraType.splits)

lemma kf_core_set_pose_local [simp]:
  "kf_core (set_pose_local q t (UpdateCeresFromState X k)) = kf_core k"
  by (simp add: set_pose_local_def UpdateCeresFromState_def kf_core_def)

lemma lba_keyframe_frame:
  assumes cam: "lba_add_camera_parameters kfn (s\<lparr>lmap := update_kf a (\<lambda>k. kfn) (lmap s),
                   lproblem := P\<rparr>) = Inr t"
    and core: "kf_core kfn = kf_core (kf_heap (lmap s) a)"
    and P: "between_factors P = between_factors (lproblem s)"
    and inv: "lba_inv M s"
  shows "lba_inv M t"
  using lba_add_camera_parameters_frame[OF cam] map_core_update_kf_const[OF core] P inv
  by (simp add: lba_inv_def)

lemma lba_add_query_keyframe_inv:
  assumes "lba_add_query_keyframe X QKFs i s = Inr t" and "lba_inv M s"
  shows "lba_inv M t"
proof (cases "i = 0")
  case True
  with assms(1) show ?thesis
    unfolding lba_add_query_keyframe_def Let_def
    by (simp) (erule lba_keyframe_frame, simp_all add: assms(2))
next
  case False
  with assms(1) show ?thesis
    unfolding lba_add_query_keyframe_def Let_def
    by (simp) (erule lba_keyframe_frame, simp_all add: assms(2))
qed

lemma lba_add_candidate_keyframe_inv:
  assumes "lba_add_candidate_keyframe X T CKFs i s = Inr t" and "lba_inv M s"
  shows "lba_inv M t"
  using assms(1) unfolding lba_add_candidate_keyframe_def Let_def
  by (erule_tac lba_keyframe_frame) (simp_all add: assms(2))

lemma lba_add_observation_inv:
  assumes "lba_add_observation lm ob s = Inr t" and "lba_inv M s"
  shows "lba_inv M t"
proof (cases "fst ob")
  case None
  with assms show ?thesis by (simp add: lba_add_observation_def)
next
  case (Some kfx)
  show ?thesis
  proof (cases "kf_IsInvalid (kf_heap (lmap s) kfx)")
    case True
    with assms Some show ?thesis by (simp add: lba_add_observation_def Let_def)
  next
    case False
    let ?kf = "kf_heap (lmap s) kfx"
    from assms(1) Some False obtain re bi bd where
      re: "reprojection_dispatch (getType (camera ?kf)) (getDistortionType (camera ?kf))
             (\<lambda>c d. GlobalEuclideanReprError c d kfx (snd ob)) = Inr re"
      and t: "t = s\<lparr>lproblem :=
                     snd (AddResidualBlock re (CauchyLoss 1)
                            [PoseLocal kfx, Extrinsics kfx, Position (llm_addr lm), bi, bd]
                            (lproblem s))\<rparr>"
      unfolding lba_add_observation_def Let_def
      by (auto split: sum.splits if_splits option.splits)
    from reprojection_dispatch_Inr[OF re] have "\<not> is_between \<lparr>cost = re, loss = CauchyLoss 1,
        parameter_blocks = [PoseLocal kfx, Extrinsics kfx, Position (llm_addr lm), bi, bd]\<rparr>"
      by (simp add: is_between_def)
    with assms(2) show ?thesis unfolding t lba_inv_def by simp
  qed
qed

lemma lba_add_landmark_inv:
  assumes "lba_add_landmark i s = Inr t" and "lba_inv M s"
  shows "lba_inv M t"
proof -
  let ?lm = "(llms s ! i)\<lparr>lceres_pos := pos_l (llms s ! i)\<rparr>"
  from assms(1) have f: "foldE (lba_add_observation ?lm) (lobservations ?lm)
           (s\<lparr>llms := (llms s)[i := ?lm],
              lproblem := AddParameterBlock (Position (llm_addr ?lm)) (lproblem s)\<rparr>) = Inr t"
    by (simp add: lba_add_landmark_def Let_def)
  show ?thesis
    by (rule foldE_invariant[where I = "lba_inv M", OF f])
       (use assms(2) lba_add_observation_inv in \<open>auto simp: lba_inv_def\<close>)
qed

lemma lba_between_fold:
  assumes "map_core (lmap s) = map_core M"
  shows "map_core (lmap (fold (\<lambda>i. lba_add_between X k (ks ! i)) is s)) = map_core M \<and>
         between_factors (lproblem (fold (\<lambda>i. lba_add_between X k (ks ! i)) is s)) =
           between_factors (lproblem s) @ map (\<lambda>i. lba_between_block X M k (ks ! i)) is"
  using assms
proof (induction "is" arbitrary: s)
  case Nil
  then show ?case by simp
next
  case (Cons i "is")
  let ?t = "lba_add_between X k (ks ! i) s"
  have p: "PoseTws (kf_heap (lmap s) a) = PoseTws (kf_heap M a)" for a
    using kf_core_eqD(3)[OF map_core_eqD(5)[OF Cons.prems]] .
  have m: "lmap ?t = lmap s" by (simp add: lba_add_between_def Let_def)
  have b: "between_factors (lproblem ?t) =
             between_factors (lproblem s) @ [lba_between_block X M k (ks ! i)]"
    by (simp add: lba_add_between_def Let_def lba_between_block_def is_between_def p)
  from Cons.IH[of ?t] m Cons.prems b show ?case by simp
qed

lemma lba_build_between:
  assumes "lba_build X M lms QKFs CKFs T_s1s2 = Inr s"
  shows "between_factors (lproblem s) =
           map (\<lambda>i. lba_between_block X M (CKFs ! 0) (CKFs ! i)) [1..<length CKFs] @
           map (\<lambda>i. lba_between_block X M (QKFs ! 0) (QKFs ! i)) [1..<length QKFs]"
proof -
  let ?s0 = "\<lparr>lmap = M, lproblem = empty_problem, ldistortion_map = (\<lambda>k. None),
                 lintrinsics_map = (\<lambda>k. None), llms = lms\<rparr>"
  from assms obtain s1 s2 s3 where
    q: "foldE (lba_add_query_keyframe X QKFs) [0..<length QKFs] ?s0 = Inr s1"
    and c: "foldE (lba_add_candidate_keyframe X T_s1s2 CKFs) [0..<length CKFs] s1 = Inr s2"
    and l: "foldE lba_add_landmark [0..<length lms] s2 = Inr s3"
    and s: "s = fold (\<lambda>i. lba_add_between X (QKFs ! 0) (QKFs ! i)) [1..<length QKFs]
                  (fold (\<lambda>i. lba_add_between X (CKFs ! 0) (CKFs ! i)) [1..<length CKFs] s3)"
    unfolding lba_build_def by (auto split: if_splits sum.splits)
  have "lba_inv M ?s0" by (simp add: lba_inv_def between_factors_def)
  then have "lba_inv M s1"
    by (rule foldE_invariant[OF q]) (rule lba_add_query_keyframe_inv)
  then have "lba_inv M s2"
    by (rule foldE_invariant[OF c]) (rule lba_add_candidate_keyframe_inv)
  then have i3: "lba_inv M s3"
    by (rule foldE_invariant[OF l]) (rule lba_add_landmark_inv)
  let ?s4 = "fold (\<lambda>i. lba_add_between X (CKFs ! 0) (CKFs ! i)) [1..<length CKFs] s3"
  from i3 have m3: "map_core (lmap s3) = map_core M" and b3: "between_factors (lproblem s3) = []"
    by (simp_all add: lba_inv_def)
  from lba_between_fold[OF m3, of X "CKFs ! 0" CKFs "[1..<length CKFs]"] b3
  have m4: "map_core (lmap ?s4) = map_core M"
    and b4: "between_factors (lproblem ?s4) =
               map (\<lambda>i. lba_between_block X M (CKFs ! 0) (CKFs ! i)) [1..<length CKFs]"
    by simp_all
  from lba_between_fold[OF m4, of X "QKFs ! 0" QKFs "[1..<length QKFs]"] b4
  show ?thesis unfolding s by simp
qed

lemma upt_small: "[0..<1] = [0]" "[0..<2] = [0, 1]" "[1..<2] = [1]"
  by (simp_all add: upt_rec)

lemmas lba_eval =
  lba_build_def lba_add_query_keyframe_def lba_add_candidate_keyframe_def
  lba_add_landmark_def lba_add_observation_def lba_add_between_def
  lba_add_camera_parameters_def set_pose_local_def T_identity_def translation_of_def
  map_insert_def UpdateCeresFromState_def reprojection_dispatch_def
  AddResidualBlock_def AddParameterBlock_def SetParameterBlockConstant_def
  empty_problem_def update_kf_def Let_def between_factors_def is_between_def
  lba_between_block_def ex_llm_def ex_gba_map_def ex_gba_kf_def ex_kf_def ex_camera_def
  ex_pose_def ex_X_def upt_small

lemma ex_lba_ok:
  "\<exists>s. lba_build ex_X ex_gba_map [ex_llm] [0, 1] [2, 3] (ex_pose 1 0 0) = Inr s"
  by (simp add: lba_eval)

lemma lba_between_block_poses:
  "PoseLocal k \<in> set (parameter_blocks (lba_between_block X M k1 k2)) \<longleftrightarrow> k = k1 \<or> k = k2"
  by (auto simp: lba_between_block_def)

lemma lba_star_within:
  assumes "rb \<in> set (map (\<lambda>i. lba_between_block X M (ks ! 0) (ks ! i)) [1..<length ks])"
    and "PoseLocal k \<in> set (parameter_blocks rb)"
  shows "k \<in> set ks"
proof -
  from assms(1) obtain i where i: "1 \<le> i" "i < length ks"
    and rb: "rb = lba_between_block X M (ks ! 0) (ks ! i)" by auto
  from assms(2) have "k = ks ! 0 \<or> k = ks ! i"
    unfolding rb lba_between_block_poses .
  with i show ?thesis by (auto intro: nth_mem)
qed

text \<open>
  C9, as the code has it. The between factors of the problem are, in this order, one from
  the first candidate keyframe to every other candidate keyframe and one from the first
  query keyframe to every other query keyframe: two stars, one in each window. When the
  windows share no keyframe, no between factor is on the local poses of a query keyframe
  and of a candidate keyframe.
\<close>

theorem lba_between_factors:
  assumes "lba_build X M lms QKFs CKFs T_s1s2 = Inr s"
  shows "between_factors (lproblem s) =
           map (\<lambda>i. lba_between_block X M (CKFs ! 0) (CKFs ! i)) [1..<length CKFs] @
           map (\<lambda>i. lba_between_block X M (QKFs ! 0) (QKFs ! i)) [1..<length QKFs] \<and>
         (set QKFs \<inter> set CKFs = {} \<longrightarrow>
            (\<forall>rb \<in> set (between_factors (lproblem s)). \<forall>q \<in> set QKFs. \<forall>c \<in> set CKFs.
               \<not> (PoseLocal q \<in> set (parameter_blocks rb) \<and>
                  PoseLocal c \<in> set (parameter_blocks rb))))"
proof (intro conjI impI ballI)
  show eq: "between_factors (lproblem s) =
           map (\<lambda>i. lba_between_block X M (CKFs ! 0) (CKFs ! i)) [1..<length CKFs] @
           map (\<lambda>i. lba_between_block X M (QKFs ! 0) (QKFs ! i)) [1..<length QKFs]"
    using assms by (rule lba_build_between)
  fix rb q c
  assume d: "set QKFs \<inter> set CKFs = {}" and rb: "rb \<in> set (between_factors (lproblem s))"
    and q: "q \<in> set QKFs" and c: "c \<in> set CKFs"
  from rb consider
    "rb \<in> set (map (\<lambda>i. lba_between_block X M (CKFs ! 0) (CKFs ! i)) [1..<length CKFs])"
    | "rb \<in> set (map (\<lambda>i. lba_between_block X M (QKFs ! 0) (QKFs ! i)) [1..<length QKFs])"
    unfolding eq by auto
  then show "\<not> (PoseLocal q \<in> set (parameter_blocks rb) \<and>
                PoseLocal c \<in> set (parameter_blocks rb))"
  proof cases
    case 1
    from lba_star_within[OF 1] d q show ?thesis by blast
  next
    case 2
    from lba_star_within[OF 2] d c show ?thesis by blast
  qed
qed

theorem lba_between_factors_witness:
  "\<exists>s. lba_build ex_X ex_gba_map [ex_llm] [0, 1] [2, 3] (ex_pose 1 0 0) = Inr s \<and>
       between_factors (lproblem s) =
         map (\<lambda>i. lba_between_block ex_X ex_gba_map ([2, 3] ! 0) ([2, 3] ! i))
           [1..<length [2, 3 :: nat]] @
         map (\<lambda>i. lba_between_block ex_X ex_gba_map ([0, 1] ! 0) ([0, 1] ! i))
           [1..<length [0, 1 :: nat]] \<and>
       set [0, 1 :: nat] \<inter> set [2, 3] = {} \<and>
       list_all (\<lambda>rb. list_all (\<lambda>q. list_all (\<lambda>c.
           \<not> (PoseLocal q \<in> set (parameter_blocks rb) \<and>
              PoseLocal c \<in> set (parameter_blocks rb))) [2, 3]) [0, 1])
         (between_factors (lproblem s))"
proof -
  from ex_lba_ok obtain s where
    b: "lba_build ex_X ex_gba_map [ex_llm] [0, 1] [2, 3] (ex_pose 1 0 0) = Inr s" by blast
  have d: "set [0, 1 :: nat] \<inter> set [2, 3] = {}" by simp
  from lba_between_factors[OF b] d
  have "between_factors (lproblem s) =
         map (\<lambda>i. lba_between_block ex_X ex_gba_map ([2, 3] ! 0) ([2, 3] ! i))
           [1..<length [2, 3 :: nat]] @
         map (\<lambda>i. lba_between_block ex_X ex_gba_map ([0, 1] ! 0) ([0, 1] ! i))
           [1..<length [0, 1 :: nat]]"
    and "\<forall>rb \<in> set (between_factors (lproblem s)). \<forall>q \<in> set [0, 1]. \<forall>c \<in> set [2, 3].
               \<not> (PoseLocal q \<in> set (parameter_blocks rb) \<and>
                  PoseLocal c \<in> set (parameter_blocks rb))"
    by blast+
  with b d show ?thesis unfolding list_all_iff by blast
qed

text \<open>
  C9, as the specification has it, fails. With the query keyframes 0 and 1 and the
  candidate keyframes 2 and 3 the between factors are one from 2 to 3 and one from 0 to
  1: the first query keyframe has no between factor with a candidate keyframe, and the
  factor from 2 to 3 has none of its ends at the first query keyframe.
\<close>

theorem lba_no_factor_between_windows:
  "\<exists>s. lba_build ex_X ex_gba_map [ex_llm] [0, 1] [2, 3] (ex_pose 1 0 0) = Inr s \<and>
       map parameter_blocks (between_factors (lproblem s)) =
         [[PoseLocal 2, PoseLocal 3, Extrinsics 2, Extrinsics 3],
          [PoseLocal 0, PoseLocal 1, Extrinsics 0, Extrinsics 1]]"
  by (simp add: lba_eval)

end
